theory Spec2Isabelle
  imports Complex_Main "HOL-Library.Log_Nat" "HOL-Library.List_Lexorder" "HOL-Library.Char_ord"
begin

section \<open>JavaScript values used by the pharmacy application\<close>

text \<open>
  The application is TypeScript. A \<^verbatim>\<open>number\<close> is modelled as a rational (\<^typ>\<open>rat\<close>):
  the arithmetic the code performs on stock, quantities and prices (\<^verbatim>\<open>+\<close>, \<^verbatim>\<open>-\<close>,
  \<^verbatim>\<open>*\<close>, comparisons, \<^verbatim>\<open>Math.max\<close>) is exact there; \<^verbatim>\<open>NaN\<close>, the infinities and
  rounding are outside the embedding. An optional field (\<^verbatim>\<open>stock?: number\<close>) is an
  \<^typ>\<open>'a option\<close>, \<^term>\<open>None\<close> standing for \<^verbatim>\<open>undefined\<close>. A string is the list of its
  code units; the embedding covers code units below 256.
\<close>

definition isInteger :: "rat \<Rightarrow> bool" where
  \<comment> \<open>\<^verbatim>\<open>Number.isInteger\<close>\<close>
  "isInteger q = (q = of_int \<lfloor>q\<rfloor>)"

definition is_space :: "char \<Rightarrow> bool" where
  \<comment> \<open>\<^verbatim>\<open>\s\<close> of a regular expression and what \<^verbatim>\<open>trim\<close> strips: TAB, LF, VT, FF, CR,
      space, NBSP\<close>
  "is_space c = (c \<in> set [CHR 0x09, CHR 0x0A, CHR 0x0B, CHR 0x0C, CHR 0x0D, CHR 0x20, CHR 0xA0])"

definition trim :: "string \<Rightarrow> string" where
  \<comment> \<open>\<^verbatim>\<open>String.prototype.trim\<close>\<close>
  "trim s = rev (dropWhile is_space (rev (dropWhile is_space s)))"

definition truthy :: "string option \<Rightarrow> bool" where
  \<comment> \<open>an optional string used as a condition: \<^verbatim>\<open>undefined\<close> and \<^verbatim>\<open>""\<close> are falsy\<close>
  "truthy so = (case so of None \<Rightarrow> False | Some s \<Rightarrow> s \<noteq> [])"

definition digit_char :: "nat \<Rightarrow> char" where
  "digit_char d = ''0123456789'' ! (d mod 10)"

fun string_of_nat :: "nat \<Rightarrow> string" where
  \<comment> \<open>a non-negative integer in a template literal\<close>
  "string_of_nat n =
     (if n < 10 then [digit_char n] else string_of_nat (n div 10) @ [digit_char n])"

subsection \<open>Regular expressions\<close>

text \<open>
  The two patterns of the validator are anchored at both ends and use character classes,
  sequence, \<^verbatim>\<open>?\<close>, \<^verbatim>\<open>+\<close> and a bounded repetition only, so \<^verbatim>\<open>regex.test(s)\<close> is
  membership of the whole string in a regular language, decided here by derivatives.
\<close>

datatype rexp =
    Empty
  | Eps
  | Atom "char \<Rightarrow> bool"
  | Alt rexp rexp
  | Seq rexp rexp
  | Star rexp

primrec nullable :: "rexp \<Rightarrow> bool" where
  "nullable Empty = False"
| "nullable Eps = True"
| "nullable (Atom p) = False"
| "nullable (Alt r s) = (nullable r \<or> nullable s)"
| "nullable (Seq r s) = (nullable r \<and> nullable s)"
| "nullable (Star r) = True"

primrec deriv :: "char \<Rightarrow> rexp \<Rightarrow> rexp" where
  "deriv c Empty = Empty"
| "deriv c Eps = Empty"
| "deriv c (Atom p) = (if p c then Eps else Empty)"
| "deriv c (Alt r s) = Alt (deriv c r) (deriv c s)"
| "deriv c (Seq r s) =
     (if nullable r then Alt (Seq (deriv c r) s) (deriv c s) else Seq (deriv c r) s)"
| "deriv c (Star r) = Seq (deriv c r) (Star r)"

primrec test :: "rexp \<Rightarrow> string \<Rightarrow> bool" where
  \<comment> \<open>\<^verbatim>\<open>regex.test(s)\<close> for a pattern anchored by \<^verbatim>\<open>^\<close> and \<^verbatim>\<open>$\<close>\<close>
  "test r [] = nullable r"
| "test r (c # cs) = test (deriv c r) cs"

definition Plus :: "rexp \<Rightarrow> rexp" where
  "Plus r = Seq r (Star r)"

definition Opt :: "rexp \<Rightarrow> rexp" where
  "Opt r = Alt Eps r"

primrec UpTo :: "nat \<Rightarrow> rexp \<Rightarrow> rexp" where
  \<comment> \<open>\<^verbatim>\<open>r{0,n}\<close>\<close>
  "UpTo 0 r = Eps"
| "UpTo (Suc n) r = Alt Eps (Seq r (UpTo n r))"

definition emailRegex :: rexp where
  \<comment> \<open>\<^verbatim>\<open>/^[^\s@]+@[^\s@]+\.[^\s@]+$/\<close>\<close>
  "emailRegex =
     (let local = Atom (\<lambda>c. \<not> is_space c \<and> c \<noteq> CHR ''@'')
      in Seq (Plus local) (Seq (Atom (\<lambda>c. c = CHR ''@''))
           (Seq (Plus local) (Seq (Atom (\<lambda>c. c = CHR ''.'')) (Plus local)))))"

definition is_digit :: "char \<Rightarrow> bool" where
  "is_digit c = (c \<in> set ''0123456789'')"

definition phoneRegex :: rexp where
  \<comment> \<open>\<^verbatim>\<open>/^[\+]?[1-9][\d]{0,15}$/\<close>\<close>
  "phoneRegex =
     Seq (Opt (Atom (\<lambda>c. c = CHR ''+'')))
       (Seq (Atom (\<lambda>c. c \<in> set ''123456789'')) (UpTo 15 (Atom is_digit)))"

section \<open>The validator\<close>

text \<open>
  Source: the \<^verbatim>\<open>Validator\<close> class (\<^verbatim>\<open>utils/validation\<close>). Record fields carry a short
  prefix naming their interface, since several interfaces use the same field names:
  \<^verbatim>\<open>md_\<close> \<^verbatim>\<open>MedicineData\<close>, \<^verbatim>\<open>pd_\<close> \<^verbatim>\<open>PrescriptionData\<close>, \<^verbatim>\<open>sd_\<close> \<^verbatim>\<open>SaleData\<close>,
  \<^verbatim>\<open>ed_\<close> \<^verbatim>\<open>EmployeeData\<close>, \<^verbatim>\<open>si_\<close> a sale's line item.
  \<^verbatim>\<open>new Date(s)\<close> is a parameter \<open>parseDate\<close> (the instant in milliseconds, \<^term>\<open>None\<close> for
  an invalid date) and the current instant is a parameter \<open>now\<close>.
\<close>

record ValidationResult =
  isValid :: bool
  errors :: "string list"

record MedicineData =
  md_name :: "string option"
  md_category :: "string option"
  md_strength :: "string option"
  md_manufacturer :: "string option"
  md_stock :: "rat option"
  md_minStock :: "rat option"
  md_maxStock :: "rat option"
  md_price :: "rat option"
  md_expiryDate :: "string option"
  md_batchNumber :: "string option"
  md_location :: "string option"

record PrescriptionData =
  pd_patientName :: "string option"
  pd_patientAge :: "rat option"
  pd_doctorName :: "string option"
  pd_medicines :: "string list option"

record SaleItem =
  si_medicineId :: string
  si_name :: string
  si_quantity :: rat
  si_price :: rat

record 'i SaleData =
  sd_customerName :: "string option"
  sd_customerPhone :: "string option"
  sd_items :: "'i list option"
  sd_total :: "rat option"
  sd_paymentMethod :: "string option"

record EmployeeData =
  ed_name :: "string option"
  ed_email :: "string option"
  ed_phone :: "string option"
  ed_role :: "string option"
  ed_department :: "string option"
  ed_salary :: "rat option"
  ed_hireDate :: "string option"

definition validateEmail :: "string \<Rightarrow> bool" where
  "validateEmail email = test emailRegex email"

definition validatePhone :: "string \<Rightarrow> bool" where
  \<comment> \<open>\<^verbatim>\<open>phoneRegex.test(phone.replace(/[\s\-\(\)]/g, ''))\<close>\<close>
  "validatePhone phone =
     test phoneRegex (filter (\<lambda>c. \<not> (is_space c \<or> c \<in> set ''-()'')) phone)"

definition validateDate :: "(string \<Rightarrow> int option) \<Rightarrow> string \<Rightarrow> bool" where
  "validateDate parseDate dateString = (parseDate dateString \<noteq> None)"

definition shorter :: "nat \<Rightarrow> string option \<Rightarrow> bool" where
  \<comment> \<open>\<^verbatim>\<open>!s || s.trim().length < n\<close>\<close>
  "shorter n so = (case so of None \<Rightarrow> True | Some s \<Rightarrow> s = [] \<or> length (trim s) < n)"

definition err :: "bool \<Rightarrow> string \<Rightarrow> string list" where
  \<comment> \<open>\<^verbatim>\<open>if (cond) errors.push(msg)\<close>\<close>
  "err cond msg = (if cond then [msg] else [])"

definition validateMedicine ::
    "(string \<Rightarrow> int option) \<Rightarrow> int \<Rightarrow> MedicineData \<Rightarrow> ValidationResult" where
  "validateMedicine parseDate now data =
     (let errors =
        err (shorter 2 (md_name data)) ''Medicine name must be at least 2 characters long'' @
        err (shorter 2 (md_category data)) ''Category must be at least 2 characters long'' @
        err (shorter 2 (md_manufacturer data))
          ''Manufacturer must be at least 2 characters long'' @
        err (case md_stock data of None \<Rightarrow> False | Some q \<Rightarrow> q < 0 \<or> \<not> isInteger q)
          ''Stock must be a non-negative integer'' @
        err (case md_minStock data of None \<Rightarrow> False | Some q \<Rightarrow> q < 0 \<or> \<not> isInteger q)
          ''Minimum stock must be a non-negative integer'' @
        err (case md_maxStock data of None \<Rightarrow> False | Some q \<Rightarrow> q < 0 \<or> \<not> isInteger q)
          ''Maximum stock must be a non-negative integer'' @
        err (case md_minStock data of None \<Rightarrow> False
             | Some lo \<Rightarrow> (case md_maxStock data of None \<Rightarrow> False | Some hi \<Rightarrow> lo \<ge> hi))
          ''Maximum stock must be greater than minimum stock'' @
        err (case md_price data of None \<Rightarrow> False | Some q \<Rightarrow> q < 0)
          ''Price must be a non-negative number'' @
        err (case md_expiryDate data of None \<Rightarrow> False
             | Some d \<Rightarrow> d \<noteq> [] \<and> \<not> validateDate parseDate d)
          ''Invalid expiry date format'' @
        err (case md_expiryDate data of None \<Rightarrow> False
             | Some d \<Rightarrow> d \<noteq> [] \<and> (case parseDate d of None \<Rightarrow> False | Some t \<Rightarrow> t \<le> now))
          ''Expiry date must be in the future'' @
        err (case md_batchNumber data of None \<Rightarrow> False
             | Some b \<Rightarrow> b \<noteq> [] \<and> length (trim b) < 3)
          ''Batch number must be at least 3 characters long''
      in \<lparr>isValid = (length errors = 0), errors = errors\<rparr>)"

definition validatePrescription :: "PrescriptionData \<Rightarrow> ValidationResult" where
  "validatePrescription data =
     (let errors =
        err (shorter 2 (pd_patientName data))
          ''Patient name must be at least 2 characters long'' @
        err (shorter 2 (pd_doctorName data)) ''Doctor name must be at least 2 characters long'' @
        err (case pd_patientAge data of None \<Rightarrow> False
             | Some a \<Rightarrow> a < 0 \<or> a > 150 \<or> \<not> isInteger a)
          ''Patient age must be a valid integer between 0 and 150'' @
        err (case pd_medicines data of None \<Rightarrow> True | Some ms \<Rightarrow> length ms = 0)
          ''At least one medicine must be prescribed'' @
        (case pd_medicines data of None \<Rightarrow> []
         | Some ms \<Rightarrow>
             concat (map (\<lambda>(index, medicine).
               err (medicine = [] \<or> length (trim medicine) < 2)
                 (''Medicine '' @ string_of_nat (index + 1) @
                  '' must be at least 2 characters long''))
               (enumerate 0 ms)))
      in \<lparr>isValid = (length errors = 0), errors = errors\<rparr>)"

definition validateSale :: "'z SaleItem_scheme SaleData \<Rightarrow> ValidationResult" where
  "validateSale data =
     (let errors =
        err (case sd_customerName data of None \<Rightarrow> False
             | Some n \<Rightarrow> n \<noteq> [] \<and> length (trim n) < 2)
          ''Customer name must be at least 2 characters long'' @
        err (case sd_customerPhone data of None \<Rightarrow> False
             | Some p \<Rightarrow> p \<noteq> [] \<and> \<not> validatePhone p)
          ''Invalid phone number format'' @
        err (case sd_items data of None \<Rightarrow> True | Some its \<Rightarrow> length its = 0)
          ''At least one item must be added to the sale'' @
        (case sd_items data of None \<Rightarrow> []
         | Some its \<Rightarrow>
             concat (map (\<lambda>(index, item).
               (let pre = ''Item '' @ string_of_nat (index + 1) in
                err (si_medicineId item = []) (pre @ '': Medicine ID is required'') @
                err (si_name item = [] \<or> length (trim (si_name item)) < 2)
                  (pre @ '': Medicine name is required'') @
                err (si_quantity item = 0 \<or> si_quantity item \<le> 0
                     \<or> \<not> isInteger (si_quantity item))
                  (pre @ '': Quantity must be a positive integer'') @
                err (si_price item = 0 \<or> si_price item \<le> 0)
                  (pre @ '': Price must be a positive number'')))
               (enumerate 0 its))) @
        err (case sd_total data of None \<Rightarrow> False | Some t \<Rightarrow> t < 0)
          ''Total must be a non-negative number'' @
        err (case sd_paymentMethod data of None \<Rightarrow> False
             | Some m \<Rightarrow> m \<noteq> [] \<and> m \<notin> set [''cash'', ''card'', ''insurance'', ''other''])
          ''Invalid payment method''
      in \<lparr>isValid = (length errors = 0), errors = errors\<rparr>)"

definition validateEmployee ::
    "(string \<Rightarrow> int option) \<Rightarrow> EmployeeData \<Rightarrow> ValidationResult" where
  "validateEmployee parseDate data =
     (let errors =
        err (shorter 2 (ed_name data)) ''Employee name must be at least 2 characters long'' @
        err (case ed_email data of None \<Rightarrow> True | Some e \<Rightarrow> e = [] \<or> \<not> validateEmail e)
          ''Valid email address is required'' @
        err (case ed_phone data of None \<Rightarrow> False | Some p \<Rightarrow> p \<noteq> [] \<and> \<not> validatePhone p)
          ''Invalid phone number format'' @
        err (shorter 2 (ed_role data)) ''Role must be at least 2 characters long'' @
        err (shorter 2 (ed_department data)) ''Department must be at least 2 characters long'' @
        err (case ed_salary data of None \<Rightarrow> False | Some q \<Rightarrow> q < 0)
          ''Salary must be a non-negative number'' @
        err (case ed_hireDate data of None \<Rightarrow> False
             | Some d \<Rightarrow> d \<noteq> [] \<and> \<not> validateDate parseDate d)
          ''Invalid hire date format''
      in \<lparr>isValid = (length errors = 0), errors = errors\<rparr>)"

section \<open>The local store\<close>

text \<open>
  Source: \<^verbatim>\<open>utils/supabase/client.tsx\<close>. The entities follow the interfaces the components
  declare (\<^verbatim>\<open>Medicine\<close>, \<^verbatim>\<open>CartItem\<close>, \<^verbatim>\<open>Prescription\<close>, \<^verbatim>\<open>Employee\<close>, \<^verbatim>\<open>Ticket\<close>); the
  record a form submits is the parent record, the stored entity extends it by the fields
  the data-access layer assigns. Field prefixes: \<^verbatim>\<open>m_\<close> medicine, \<^verbatim>\<open>ci_\<close> cart item,
  \<^verbatim>\<open>s_\<close> sale, \<^verbatim>\<open>p_\<close> prescription, \<^verbatim>\<open>v_\<close> verification, \<^verbatim>\<open>e_\<close> employee, \<^verbatim>\<open>t_\<close> ticket.
\<close>

record MedicineForm =
  m_name :: string
  m_category :: string
  m_strength :: "string option"
  m_manufacturer :: string
  m_stock :: rat
  m_minStock :: rat
  m_maxStock :: rat
  m_price :: rat
  m_expiryDate :: "string option"
  m_batchNumber :: "string option"
  m_location :: "string option"

record Medicine = MedicineForm +
  m_id :: string
  m_createdAt :: string
  m_updatedAt :: string

record CartItem = SaleItem +
  ci_stock :: rat
  ci_strength :: "string option"
  ci_manufacturer :: "string option"

record 'i SaleForm =
  s_customerName :: string
  s_customerPhone :: string
  s_items :: "'i list"
  s_total :: rat
  s_paymentMethod :: string

record 'i Sale = "'i SaleForm" +
  s_id :: string
  s_timestamp :: string

record PrescriptionForm =
  p_patientName :: string
  p_patientAge :: "rat option"
  p_patientPhone :: "string option"
  p_doctorName :: string
  p_medicines :: "string list"
  p_notes :: "string option"

record VerificationForm =
  v_approved :: bool
  v_notes :: "string option"
  v_verifiedBy :: "string option"

record Verification = VerificationForm +
  v_timestamp :: string

record Prescription = PrescriptionForm +
  p_id :: string
  p_status :: string
  p_verification :: "Verification option"
  p_createdAt :: string
  p_updatedAt :: string

record EmployeeForm =
  e_name :: string
  e_email :: string
  e_phone :: "string option"
  e_role :: string
  e_department :: string
  e_salary :: "rat option"
  e_hireDate :: "string option"
  e_status :: "string option"

record Employee = EmployeeForm +
  e_id :: string
  e_createdAt :: string
  e_updatedAt :: string

record TicketForm =
  t_title :: string
  t_description :: string
  t_category :: string
  t_priority :: string
  t_createdBy :: "string option"
  t_assignedTo :: "string option"

record Ticket = TicketForm +
  t_id :: string
  t_status :: string
  t_createdAt :: string
  t_updatedAt :: string

text \<open>
  \<^verbatim>\<open>LocalStorageManager.data\<close>: one array per entity name; a key the stored JSON does not
  have is \<^term>\<open>None\<close>. The state is the object in memory: \<^verbatim>\<open>saveToStorage\<close> copies it to the
  browser's storage and ignores a failure, so it does not change what the methods return.
\<close>

record 'i LocalData =
  medicines :: "Medicine list option"
  sales :: "'i Sale list option"
  prescriptions :: "Prescription list option"
  employees :: "Employee list option"
  tickets :: "Ticket list option"

text \<open>
  The manager's methods take a key and work on \<^verbatim>\<open>this.data[key]\<close>; here each takes the
  array under the key (and the function reading an item's \<^verbatim>\<open>id\<close>) and returns the array
  to store back with the method's result. \<^verbatim>\<open>{...old, ...updates}\<close> is a function on the
  entity.
\<close>

definition storage_get :: "'a list option \<Rightarrow> 'a list" where
  \<comment> \<open>\<^verbatim>\<open>return this.data[key] || []\<close>\<close>
  "storage_get arr = (case arr of None \<Rightarrow> [] | Some xs \<Rightarrow> xs)"

definition storage_add :: "'a list option \<Rightarrow> 'a \<Rightarrow> 'a list option \<times> 'a" where
  "storage_add arr item = (Some (storage_get arr @ [item]), item)"

primrec findIndex :: "('a \<Rightarrow> bool) \<Rightarrow> 'a list \<Rightarrow> nat option" where
  \<comment> \<open>\<^verbatim>\<open>Array.prototype.findIndex\<close>; \<^term>\<open>None\<close> is \<^verbatim>\<open>-1\<close>\<close>
  "findIndex p [] = None"
| "findIndex p (x # xs) = (if p x then Some 0 else map_option Suc (findIndex p xs))"

definition storage_update ::
    "('a \<Rightarrow> string) \<Rightarrow> 'a list option \<Rightarrow> string \<Rightarrow> ('a \<Rightarrow> 'a) \<Rightarrow> 'a list option \<times> 'a option"
  where
  "storage_update idOf arr ident updates =
     (case arr of
        None \<Rightarrow> (None, None)
      | Some xs \<Rightarrow>
          (case findIndex (\<lambda>item. idOf item = ident) xs of
             Some index \<Rightarrow> (Some (xs[index := updates (xs ! index)]), Some (updates (xs ! index)))
           | None \<Rightarrow> (Some xs, None)))"

definition storage_delete ::
    "('a \<Rightarrow> string) \<Rightarrow> 'a list option \<Rightarrow> string \<Rightarrow> 'a list option \<times> bool" where
  "storage_delete idOf arr ident =
     (case arr of
        None \<Rightarrow> (None, False)
      | Some xs \<Rightarrow> (Some (filter (\<lambda>item. idOf item \<noteq> ident) xs), True))"

section \<open>The data-access layer\<close>

text \<open>
  Every method of \<^verbatim>\<open>PharmacyAPI\<close> has the shape
  \<^verbatim>\<open>try { return await this.tryBackend(...) } catch { <local store> }\<close>.
  The outcome of \<^verbatim>\<open>tryBackend\<close> is the parameter \<open>be\<close>: \<^term>\<open>Inr\<close> the JSON the remote
  handler answered, \<^term>\<open>Inl\<close> the message of the error it threw. A method returns
  \<^term>\<open>Inl\<close> the message of an error thrown to its caller, or \<^term>\<open>Inr\<close> its result, tagged
  with the path that served it, and the local store afterwards. \<^verbatim>\<open>generateId()\<close> and each
  \<^verbatim>\<open>new Date().toISOString()\<close> are parameters.
\<close>

datatype ('r, 'l) Served = Remote 'r | Local 'l

definition orLocal ::
    "string + 'r \<Rightarrow> 's \<Rightarrow> string + 'l \<times> 's \<Rightarrow> string + ('r, 'l) Served \<times> 's" where
  "orLocal be st fallback =
     (case be of
        Inr r \<Rightarrow> Inr (Remote r, st)
      | Inl _ \<Rightarrow> (case fallback of Inl e \<Rightarrow> Inl e | Inr (l, st') \<Rightarrow> Inr (Local l, st')))"

datatype 'a Reply = Ok 'a | Failed nat string

datatype 'a Fetch = NetworkFailure string | Response "'a Reply"

definition tryBackend :: "bool \<Rightarrow> 'a Fetch \<Rightarrow> string + 'a" where
  \<comment> \<open>\<^verbatim>\<open>Failed status error\<close> is a reply that is not \<^verbatim>\<open>ok\<close>, with the \<^verbatim>\<open>error\<close> of its body,
      which every failure reply of the handlers carries\<close>
  "tryBackend useBackend fetched =
     (if \<not> useBackend then Inl ''Backend disabled''
      else (case fetched of
              NetworkFailure msg \<Rightarrow> Inl msg
            | Response (Failed status msg) \<Rightarrow> Inl msg
            | Response (Ok body) \<Rightarrow> Inr body))"

definition storeAfter :: "string + 'a \<times> 's \<Rightarrow> 's \<Rightarrow> 's" where
  \<comment> \<open>the local store after a call that started in \<open>st\<close>; no method writes before it throws\<close>
  "storeAfter outcome st = (case outcome of Inl e \<Rightarrow> st | Inr (r, st') \<Rightarrow> st')"

definition servedLocally :: "string + ('r, 'l) Served \<times> 's \<Rightarrow> bool" where
  \<comment> \<open>the call threw nothing and returned a result of the local store\<close>
  "servedLocally outcome = (case outcome of Inr (Local l, st') \<Rightarrow> True | _ \<Rightarrow> False)"

subsection \<open>Medicines\<close>

definition getMedicines ::
    "string + 'r \<Rightarrow> 'i LocalData \<Rightarrow> string + ('r, Medicine list) Served \<times> 'i LocalData" where
  "getMedicines be st = orLocal be st (Inr (storage_get (medicines st), st))"

definition newMedicine :: "string \<Rightarrow> string \<Rightarrow> string \<Rightarrow> MedicineForm \<Rightarrow> Medicine" where
  \<comment> \<open>\<^verbatim>\<open>{ id: this.generateId(), ...medicine, createdAt: ..., updatedAt: ... }\<close>\<close>
  "newMedicine gid t1 t2 medicine =
     \<lparr>m_name = m_name medicine, m_category = m_category medicine,
      m_strength = m_strength medicine, m_manufacturer = m_manufacturer medicine,
      m_stock = m_stock medicine, m_minStock = m_minStock medicine,
      m_maxStock = m_maxStock medicine, m_price = m_price medicine,
      m_expiryDate = m_expiryDate medicine, m_batchNumber = m_batchNumber medicine,
      m_location = m_location medicine,
      m_id = gid, m_createdAt = t1, m_updatedAt = t2\<rparr>"

definition addMedicine ::
    "string + 'r \<Rightarrow> string \<Rightarrow> string \<Rightarrow> string \<Rightarrow> MedicineForm \<Rightarrow> 'i LocalData
      \<Rightarrow> string + ('r, Medicine) Served \<times> 'i LocalData" where
  "addMedicine be gid t1 t2 medicine st =
     orLocal be st
       (let (arr, item) = storage_add (medicines st) (newMedicine gid t1 t2 medicine)
        in Inr (item, st\<lparr>medicines := arr\<rparr>))"

definition orOld :: "'a option \<Rightarrow> 'a option \<Rightarrow> 'a option" where
  \<comment> \<open>an optional field under \<^verbatim>\<open>{...old, ...updates}\<close>\<close>
  "orOld new old = (case new of None \<Rightarrow> old | Some v \<Rightarrow> Some v)"

definition mergeMedicine :: "MedicineForm \<Rightarrow> string \<Rightarrow> Medicine \<Rightarrow> Medicine" where
  \<comment> \<open>\<^verbatim>\<open>{...old, ...updates, updatedAt: now}\<close>\<close>
  "mergeMedicine updates now old =
     \<lparr>m_name = m_name updates, m_category = m_category updates,
      m_strength = orOld (m_strength updates) (m_strength old),
      m_manufacturer = m_manufacturer updates,
      m_stock = m_stock updates, m_minStock = m_minStock updates,
      m_maxStock = m_maxStock updates, m_price = m_price updates,
      m_expiryDate = orOld (m_expiryDate updates) (m_expiryDate old),
      m_batchNumber = orOld (m_batchNumber updates) (m_batchNumber old),
      m_location = orOld (m_location updates) (m_location old),
      m_id = m_id old, m_createdAt = m_createdAt old, m_updatedAt = now\<rparr>"

definition updateMedicine ::
    "string + 'r \<Rightarrow> string \<Rightarrow> string \<Rightarrow> MedicineForm \<Rightarrow> 'i LocalData
      \<Rightarrow> string + ('r, Medicine option) Served \<times> 'i LocalData" where
  "updateMedicine be now ident updates st =
     orLocal be st
       (let (arr, medicine) = storage_update m_id (medicines st) ident (mergeMedicine updates now)
        in Inr (medicine, st\<lparr>medicines := arr\<rparr>))"

definition deleteMedicine ::
    "string + 'r \<Rightarrow> string \<Rightarrow> 'i LocalData \<Rightarrow> string + ('r, bool) Served \<times> 'i LocalData" where
  \<comment> \<open>the local result is \<^verbatim>\<open>{ success: true }\<close> whatever \<^verbatim>\<open>storage.delete\<close> returned\<close>
  "deleteMedicine be ident st =
     orLocal be st
       (let (arr, deleted) = storage_delete m_id (medicines st) ident
        in Inr (True, st\<lparr>medicines := arr\<rparr>))"

definition updateStock ::
    "string + 'r \<Rightarrow> string \<Rightarrow> string \<Rightarrow> rat \<Rightarrow> string \<Rightarrow> 'i LocalData
      \<Rightarrow> string + ('r, Medicine option) Served \<times> 'i LocalData" where
  "updateStock be now ident quantity type st =
     orLocal be st
       (case find (\<lambda>m. m_id m = ident) (storage_get (medicines st)) of
          Some medicine \<Rightarrow>
            (let newStock = (if type = ''add'' then m_stock medicine + quantity
                             else m_stock medicine - quantity);
                 (arr, updated) =
                   storage_update m_id (medicines st) ident
                     (\<lambda>old. old\<lparr>m_stock := max 0 newStock, m_updatedAt := now\<rparr>)
             in Inr (updated, st\<lparr>medicines := arr\<rparr>))
        | None \<Rightarrow> Inl ''Medicine not found'')"

subsection \<open>Sales\<close>

definition getSales ::
    "string + 'r \<Rightarrow> 'i LocalData \<Rightarrow> string + ('r, 'i Sale list) Served \<times> 'i LocalData" where
  "getSales be st = orLocal be st (Inr (storage_get (sales st), st))"

definition newSale :: "string \<Rightarrow> string \<Rightarrow> 'i SaleForm \<Rightarrow> 'i Sale" where
  \<comment> \<open>\<^verbatim>\<open>{ id: this.generateId(), ...sale, timestamp: ... }\<close>\<close>
  "newSale gid now sale =
     \<lparr>s_customerName = s_customerName sale, s_customerPhone = s_customerPhone sale,
      s_items = s_items sale, s_total = s_total sale, s_paymentMethod = s_paymentMethod sale,
      s_id = gid, s_timestamp = now\<rparr>"

definition createSale ::
    "string + 'r \<Rightarrow> string \<Rightarrow> string \<Rightarrow> 'i SaleForm \<Rightarrow> 'i LocalData
      \<Rightarrow> string + ('r, 'i Sale) Served \<times> 'i LocalData" where
  "createSale be gid now sale st =
     orLocal be st
       (let (arr, item) = storage_add (sales st) (newSale gid now sale)
        in Inr (item, st\<lparr>sales := arr\<rparr>))"

definition getSaleById ::
    "string + 'r \<Rightarrow> string \<Rightarrow> 'i LocalData
      \<Rightarrow> string + ('r, 'i Sale option) Served \<times> 'i LocalData" where
  "getSaleById be ident st =
     orLocal be st (Inr (find (\<lambda>s. s_id s = ident) (storage_get (sales st)), st))"

subsection \<open>Prescriptions\<close>

definition getPrescriptions ::
    "string + 'r \<Rightarrow> 'i LocalData \<Rightarrow> string + ('r, Prescription list) Served \<times> 'i LocalData"
  where
  "getPrescriptions be st = orLocal be st (Inr (storage_get (prescriptions st), st))"

definition newPrescription ::
    "string \<Rightarrow> string \<Rightarrow> string \<Rightarrow> PrescriptionForm \<Rightarrow> Prescription" where
  \<comment> \<open>\<^verbatim>\<open>{ id, ...prescription, status: "pending", createdAt, updatedAt }\<close>\<close>
  "newPrescription gid t1 t2 prescription =
     \<lparr>p_patientName = p_patientName prescription, p_patientAge = p_patientAge prescription,
      p_patientPhone = p_patientPhone prescription, p_doctorName = p_doctorName prescription,
      p_medicines = p_medicines prescription, p_notes = p_notes prescription,
      p_id = gid, p_status = ''pending'', p_verification = None,
      p_createdAt = t1, p_updatedAt = t2\<rparr>"

definition addPrescription ::
    "string + 'r \<Rightarrow> string \<Rightarrow> string \<Rightarrow> string \<Rightarrow> PrescriptionForm \<Rightarrow> 'i LocalData
      \<Rightarrow> string + ('r, Prescription) Served \<times> 'i LocalData" where
  "addPrescription be gid t1 t2 prescription st =
     orLocal be st
       (let (arr, item) = storage_add (prescriptions st) (newPrescription gid t1 t2 prescription)
        in Inr (item, st\<lparr>prescriptions := arr\<rparr>))"

definition updatePrescriptionStatus ::
    "string + 'r \<Rightarrow> string \<Rightarrow> string \<Rightarrow> string \<Rightarrow> 'i LocalData
      \<Rightarrow> string + ('r, Prescription option) Served \<times> 'i LocalData" where
  "updatePrescriptionStatus be now ident status st =
     orLocal be st
       (let (arr, prescription) =
              storage_update p_id (prescriptions st) ident
                (\<lambda>old. old\<lparr>p_status := status, p_updatedAt := now\<rparr>)
        in Inr (prescription, st\<lparr>prescriptions := arr\<rparr>))"

definition verifyPrescription ::
    "string + 'r \<Rightarrow> string \<Rightarrow> string \<Rightarrow> string \<Rightarrow> VerificationForm \<Rightarrow> 'i LocalData
      \<Rightarrow> string + ('r, Prescription option) Served \<times> 'i LocalData" where
  "verifyPrescription be t1 t2 ident verification st =
     orLocal be st
       (let (arr, prescription) =
              storage_update p_id (prescriptions st) ident
                (\<lambda>old. old\<lparr>p_verification :=
                             Some \<lparr>v_approved = v_approved verification,
                                   v_notes = v_notes verification,
                                   v_verifiedBy = v_verifiedBy verification,
                                   v_timestamp = t1\<rparr>,
                           p_status := (if v_approved verification then ''verified''
                                        else ''rejected''),
                           p_updatedAt := t2\<rparr>)
        in Inr (prescription, st\<lparr>prescriptions := arr\<rparr>))"

subsection \<open>Employees and time entries\<close>

definition getEmployees ::
    "string + 'r \<Rightarrow> 'i LocalData \<Rightarrow> string + ('r, Employee list) Served \<times> 'i LocalData" where
  "getEmployees be st = orLocal be st (Inr (storage_get (employees st), st))"

definition newEmployee :: "string \<Rightarrow> string \<Rightarrow> string \<Rightarrow> EmployeeForm \<Rightarrow> Employee" where
  "newEmployee gid t1 t2 employee =
     \<lparr>e_name = e_name employee, e_email = e_email employee, e_phone = e_phone employee,
      e_role = e_role employee, e_department = e_department employee,
      e_salary = e_salary employee, e_hireDate = e_hireDate employee,
      e_status = e_status employee,
      e_id = gid, e_createdAt = t1, e_updatedAt = t2\<rparr>"

definition addEmployee ::
    "string + 'r \<Rightarrow> string \<Rightarrow> string \<Rightarrow> string \<Rightarrow> EmployeeForm \<Rightarrow> 'i LocalData
      \<Rightarrow> string + ('r, Employee) Served \<times> 'i LocalData" where
  "addEmployee be gid t1 t2 employee st =
     orLocal be st
       (let (arr, item) = storage_add (employees st) (newEmployee gid t1 t2 employee)
        in Inr (item, st\<lparr>employees := arr\<rparr>))"

definition clockIn ::
    "string + 'r \<Rightarrow> string \<Rightarrow> 'i LocalData \<Rightarrow> string + ('r, bool) Served \<times> 'i LocalData" where
  \<comment> \<open>the local result is \<^verbatim>\<open>{ success: true }\<close>\<close>
  "clockIn be employeeId st = orLocal be st (Inr (True, st))"

definition clockOut ::
    "string + 'r \<Rightarrow> string \<Rightarrow> 'i LocalData \<Rightarrow> string + ('r, bool) Served \<times> 'i LocalData" where
  "clockOut be employeeId st = orLocal be st (Inr (True, st))"

definition getTimeEntries ::
    "string + 'r \<Rightarrow> string option \<Rightarrow> 'i LocalData
      \<Rightarrow> string + ('r, unit list) Served \<times> 'i LocalData" where
  \<comment> \<open>the local result is \<^verbatim>\<open>{ timeEntries: [] }\<close>\<close>
  "getTimeEntries be employeeId st = orLocal be st (Inr ([], st))"

subsection \<open>Help desk\<close>

definition getTickets ::
    "string + 'r \<Rightarrow> 'i LocalData \<Rightarrow> string + ('r, Ticket list) Served \<times> 'i LocalData" where
  "getTickets be st = orLocal be st (Inr (storage_get (tickets st), st))"

definition newTicket :: "string \<Rightarrow> string \<Rightarrow> string \<Rightarrow> TicketForm \<Rightarrow> Ticket" where
  \<comment> \<open>\<^verbatim>\<open>{ id, ...ticket, status: "open", createdAt, updatedAt }\<close>\<close>
  "newTicket gid t1 t2 ticket =
     \<lparr>t_title = t_title ticket, t_description = t_description ticket,
      t_category = t_category ticket, t_priority = t_priority ticket,
      t_createdBy = t_createdBy ticket, t_assignedTo = t_assignedTo ticket,
      t_id = gid, t_status = ''open'', t_createdAt = t1, t_updatedAt = t2\<rparr>"

definition createTicket ::
    "string + 'r \<Rightarrow> string \<Rightarrow> string \<Rightarrow> string \<Rightarrow> TicketForm \<Rightarrow> 'i LocalData
      \<Rightarrow> string + ('r, Ticket) Served \<times> 'i LocalData" where
  "createTicket be gid t1 t2 ticket st =
     orLocal be st
       (let (arr, item) = storage_add (tickets st) (newTicket gid t1 t2 ticket)
        in Inr (item, st\<lparr>tickets := arr\<rparr>))"

definition updateTicketStatus ::
    "string + 'r \<Rightarrow> string \<Rightarrow> string \<Rightarrow> string \<Rightarrow> 'i LocalData
      \<Rightarrow> string + ('r, Ticket option) Served \<times> 'i LocalData" where
  "updateTicketStatus be now ident status st =
     orLocal be st
       (let (arr, ticket) =
              storage_update t_id (tickets st) ident
                (\<lambda>old. old\<lparr>t_status := status, t_updatedAt := now\<rparr>)
        in Inr (ticket, st\<lparr>tickets := arr\<rparr>))"

subsection \<open>Dashboard and reports\<close>

text \<open>
  Strings are compared by code units, as \<^verbatim>\<open>>=\<close> compares them. \<^verbatim>\<open>Number.toFixed(2)\<close> and
  the engine's \<^verbatim>\<open>Array.prototype.sort\<close> under the newest-first comparator are the
  parameters \<open>toFixed2\<close> and \<open>sortNewestFirst\<close>.
\<close>

definition datePart :: "string \<Rightarrow> string" where
  \<comment> \<open>\<^verbatim>\<open>s.split('T')[0]\<close>\<close>
  "datePart s = takeWhile (\<lambda>c. c \<noteq> CHR ''T'') s"

definition startsWith :: "string \<Rightarrow> string \<Rightarrow> bool" where
  "startsWith s pre = (take (length pre) s = pre)"

definition orTen :: "rat \<Rightarrow> rat" where
  \<comment> \<open>\<^verbatim>\<open>m.minStock || 10\<close>\<close>
  "orTen q = (if q \<noteq> 0 then q else 10)"

definition lastFive :: "'a list \<Rightarrow> 'a list" where
  \<comment> \<open>\<^verbatim>\<open>xs.slice(-5)\<close>\<close>
  "lastFive xs = drop (length xs - 5) xs"

record Stats =
  totalMedicines :: nat
  todaySales :: nat
  todayRevenue :: rat
  lowStockAlerts :: nat
  pendingPrescriptions :: nat

definition getDashboardStats ::
    "string + 'r \<Rightarrow> string \<Rightarrow> 'i LocalData \<Rightarrow> string + ('r, Stats) Served \<times> 'i LocalData" where
  "getDashboardStats be now st =
     orLocal be st
       (let meds = storage_get (medicines st);
            today = datePart now;
            todays = filter (\<lambda>sale. s_timestamp sale \<noteq> [] \<and> startsWith (s_timestamp sale) today)
                       (storage_get (sales st))
        in Inr (\<lparr>totalMedicines = length meds,
                  todaySales = length todays,
                  todayRevenue = sum_list (map s_total todays),
                  lowStockAlerts = length (filter (\<lambda>m. m_stock m \<le> orTen (m_minStock m)) meds),
                  pendingPrescriptions =
                    length (filter (\<lambda>p. p_status p = ''pending'') (storage_get (prescriptions st)))\<rparr>,
                st))"

record Activity =
  a_type :: string
  a_description :: string
  a_timestamp :: string

definition getRecentActivity ::
    "string + 'r \<Rightarrow> (rat \<Rightarrow> string) \<Rightarrow> (Activity list \<Rightarrow> Activity list) \<Rightarrow> 'i LocalData
      \<Rightarrow> string + ('r, Activity list) Served \<times> 'i LocalData" where
  "getRecentActivity be toFixed2 sortNewestFirst st =
     orLocal be st
       (let activities =
              map (\<lambda>sale.
                     \<lparr>a_type = ''sale'',
                      a_description =
                        ''Sale to '' @
                        (if s_customerName sale \<noteq> [] then s_customerName sale else ''Customer'') @
                        '' - $'' @ toFixed2 (s_total sale),
                      a_timestamp = s_timestamp sale\<rparr>)
                (lastFive (storage_get (sales st))) @
              map (\<lambda>p.
                     \<lparr>a_type = ''prescription'',
                      a_description = ''Prescription for '' @ p_patientName p @ '' - '' @ p_status p,
                      a_timestamp = p_updatedAt p\<rparr>)
                (lastFive (storage_get (prescriptions st)))
        in Inr (take 10 (sortNewestFirst activities), st))"

record Alert =
  al_id :: string
  al_name :: string
  al_currentStock :: rat
  al_minStock :: rat
  al_severity :: string

definition getLowStockAlerts ::
    "string + 'r \<Rightarrow> 'i LocalData \<Rightarrow> string + ('r, Alert list) Served \<times> 'i LocalData" where
  "getLowStockAlerts be st =
     orLocal be st
       (Inr (map (\<lambda>m.
                   \<lparr>al_id = m_id m, al_name = m_name m, al_currentStock = m_stock m,
                    al_minStock = orTen (m_minStock m),
                    al_severity = (if m_stock m = 0 then ''critical''
                                   else if m_stock m < 5 then ''high'' else ''medium'')\<rparr>)
               (filter (\<lambda>m. m_stock m \<le> orTen (m_minStock m)) (storage_get (medicines st))),
             st))"

record 'i SalesReport =
  rs_period :: "string \<times> string"
  rs_totalSales :: nat
  rs_totalRevenue :: rat
  rs_averageOrderValue :: rat
  rs_sales :: "'i Sale list"

definition getSalesReport ::
    "string + 'r \<Rightarrow> string \<Rightarrow> string \<Rightarrow> 'i LocalData
      \<Rightarrow> string + ('r, 'i SalesReport) Served \<times> 'i LocalData" where
  "getSalesReport be startDate endDate st =
     orLocal be st
       (let filteredSales =
              filter (\<lambda>sale. datePart (s_timestamp sale) \<ge> startDate
                            \<and> datePart (s_timestamp sale) \<le> endDate)
                (storage_get (sales st))
        in Inr (\<lparr>rs_period = (startDate, endDate),
                  rs_totalSales = length filteredSales,
                  rs_totalRevenue = sum_list (map s_total filteredSales),
                  rs_averageOrderValue =
                    (if length filteredSales > 0
                     then sum_list (map s_total filteredSales) / of_nat (length filteredSales)
                     else 0),
                  rs_sales = filteredSales\<rparr>,
                st))"

record InventoryReport =
  ri_totalItems :: nat
  ri_totalValue :: rat
  ri_lowStockItems :: nat
  ri_outOfStockItems :: nat
  ri_medicines :: "Medicine list"

definition getInventoryReport ::
    "string + 'r \<Rightarrow> 'i LocalData \<Rightarrow> string + ('r, InventoryReport) Served \<times> 'i LocalData" where
  "getInventoryReport be st =
     orLocal be st
       (let meds = storage_get (medicines st)
        in Inr (\<lparr>ri_totalItems = length meds,
                  ri_totalValue = sum_list (map (\<lambda>med. m_stock med * m_price med) meds),
                  ri_lowStockItems =
                    length (filter (\<lambda>med. m_stock med < orTen (m_minStock med)) meds),
                  ri_outOfStockItems = length (filter (\<lambda>med. m_stock med = 0) meds),
                  ri_medicines = meds\<rparr>,
                st))"

definition getEmployeeReport ::
    "string + 'r \<Rightarrow> string \<Rightarrow> 'i LocalData
      \<Rightarrow> string + ('r, string \<times> unit list \<times> unit list) Served \<times> 'i LocalData" where
  \<comment> \<open>the local result is \<^verbatim>\<open>{ period: month, employees: [], timeEntries: [] }\<close>\<close>
  "getEmployeeReport be month st = orLocal be st (Inr ((month, [], []), st))"

record PrescriptionReport =
  rp_period :: "string \<times> string"
  rp_totalPrescriptions :: nat
  rp_statusBreakdown :: "string \<rightharpoonup> nat"
  rp_prescriptions :: "Prescription list"

definition getPrescriptionReport ::
    "string + 'r \<Rightarrow> string \<Rightarrow> string \<Rightarrow> 'i LocalData
      \<Rightarrow> string + ('r, PrescriptionReport) Served \<times> 'i LocalData" where
  "getPrescriptionReport be startDate endDate st =
     orLocal be st
       (let filtered =
              filter (\<lambda>p. datePart (p_createdAt p) \<ge> startDate \<and> datePart (p_createdAt p) \<le> endDate)
                (storage_get (prescriptions st))
        in Inr (\<lparr>rp_period = (startDate, endDate),
                  rp_totalPrescriptions = length filtered,
                  rp_statusBreakdown =
                    fold (\<lambda>p acc.
                            acc(p_status p \<mapsto>
                                  (case acc (p_status p) of None \<Rightarrow> 0 | Some n \<Rightarrow> n) + 1))
                      filtered Map.empty,
                  rp_prescriptions = filtered\<rparr>,
                st))"

section \<open>The forms\<close>

text \<open>
  Source: \<^verbatim>\<open>SalesBilling\<close>, \<^verbatim>\<open>InventoryManagement\<close>, \<^verbatim>\<open>PrescriptionManagement\<close> and
  \<^verbatim>\<open>EmployeeUtilities\<close>. A handler validates the record it built from the form and
  returns after \<^verbatim>\<open>toast.error(validation.errors[0])\<close> without calling the data-access
  layer: \<^term>\<open>Inl\<close> the message shown. Otherwise it awaits the data-access method:
  \<^term>\<open>Inr\<close> that method's outcome.
\<close>

definition calculateTotal :: "'z SaleItem_scheme list \<Rightarrow> rat" where
  \<comment> \<open>\<^verbatim>\<open>cart.reduce((total, item) => total + item.price * item.quantity, 0)\<close>; the cart
      holds \<^verbatim>\<open>CartItem\<close>s, of which only the price and the quantity are read\<close>
  "calculateTotal cart = foldl (\<lambda>total item. total + si_price item * si_quantity item) 0 cart"

definition firstError :: "ValidationResult \<Rightarrow> string" where
  \<comment> \<open>\<^verbatim>\<open>validation.errors[0]\<close>, read only when the list is not empty\<close>
  "firstError validation = (case errors validation of [] \<Rightarrow> [] | e # _ \<Rightarrow> e)"

definition processSale ::
    "string + 'r \<Rightarrow> string \<Rightarrow> string \<Rightarrow> string \<Rightarrow> string \<Rightarrow> string
      \<Rightarrow> 'z CartItem_scheme list \<Rightarrow> 'z CartItem_scheme LocalData
      \<Rightarrow> string + (string + ('r, 'z CartItem_scheme Sale) Served \<times> 'z CartItem_scheme LocalData)"
  where
  "processSale be gid now customerName customerPhone paymentMethod cart st =
     (if length cart = 0 then Inl ''Cart is empty''
      else
        (let validation =
               validateSale
                 \<lparr>sd_customerName = Some customerName, sd_customerPhone = Some customerPhone,
                  sd_items = Some cart, sd_total = Some (calculateTotal cart),
                  sd_paymentMethod = Some paymentMethod\<rparr>
         in if \<not> isValid validation then Inl (firstError validation)
            else Inr (createSale be gid now
                        \<lparr>s_customerName = customerName, s_customerPhone = customerPhone,
                         s_items = cart, s_total = calculateTotal cart,
                         s_paymentMethod = paymentMethod\<rparr> st)))"

definition medicineData :: "'z MedicineForm_scheme \<Rightarrow> MedicineData" where
  \<comment> \<open>the submitted record as the validator's field bag\<close>
  "medicineData m =
     \<lparr>md_name = Some (m_name m), md_category = Some (m_category m),
      md_strength = m_strength m, md_manufacturer = Some (m_manufacturer m),
      md_stock = Some (m_stock m), md_minStock = Some (m_minStock m),
      md_maxStock = Some (m_maxStock m), md_price = Some (m_price m),
      md_expiryDate = m_expiryDate m, md_batchNumber = m_batchNumber m,
      md_location = m_location m\<rparr>"

definition handleAddMedicine ::
    "(string \<Rightarrow> int option) \<Rightarrow> int \<Rightarrow> string + 'r \<Rightarrow> string \<Rightarrow> string \<Rightarrow> string
      \<Rightarrow> MedicineForm \<Rightarrow> 'i LocalData
      \<Rightarrow> string + (string + ('r, Medicine) Served \<times> 'i LocalData)" where
  "handleAddMedicine parseDate clock be gid t1 t2 medicine st =
     (let validation = validateMedicine parseDate clock (medicineData medicine)
      in if \<not> isValid validation then Inl (firstError validation)
         else Inr (addMedicine be gid t1 t2 medicine st))"

definition handleAddPrescription ::
    "string + 'r \<Rightarrow> string \<Rightarrow> string \<Rightarrow> string \<Rightarrow> PrescriptionForm \<Rightarrow> 'i LocalData
      \<Rightarrow> string + (string + ('r, Prescription) Served \<times> 'i LocalData)" where
  "handleAddPrescription be gid t1 t2 prescription st =
     (let validation =
            validatePrescription
              \<lparr>pd_patientName = Some (p_patientName prescription),
               pd_patientAge = p_patientAge prescription,
               pd_doctorName = Some (p_doctorName prescription),
               pd_medicines = Some (p_medicines prescription)\<rparr>
      in if \<not> isValid validation then Inl (firstError validation)
         else Inr (addPrescription be gid t1 t2 prescription st))"

definition handleAddEmployee ::
    "(string \<Rightarrow> int option) \<Rightarrow> string + 'r \<Rightarrow> string \<Rightarrow> string \<Rightarrow> string
      \<Rightarrow> EmployeeForm \<Rightarrow> 'i LocalData
      \<Rightarrow> string + (string + ('r, Employee) Served \<times> 'i LocalData)" where
  "handleAddEmployee parseDate be gid t1 t2 employee st =
     (let validation =
            validateEmployee parseDate
              \<lparr>ed_name = Some (e_name employee), ed_email = Some (e_email employee),
               ed_phone = e_phone employee, ed_role = Some (e_role employee),
               ed_department = Some (e_department employee), ed_salary = e_salary employee,
               ed_hireDate = e_hireDate employee\<rparr>
      in if \<not> isValid validation then Inl (firstError validation)
         else Inr (addEmployee be gid t1 t2 employee st))"

section \<open>The remote handlers\<close>

text \<open>
  Source: \<^verbatim>\<open>supabase/functions/server/index.tsx\<close>, written against the simplified schema
  (tables \<^verbatim>\<open>meds\<close>, \<^verbatim>\<open>sales\<close>). The hosted store is a state \<^typ>\<open>'a option\<close>: \<^term>\<open>None\<close> when
  the schema has not been created (every query then fails with a missing table), else the
  rows of the tables. The store assigns \<^verbatim>\<open>id\<close>, \<^verbatim>\<open>active\<close>, \<^verbatim>\<open>created\<close> and \<^verbatim>\<open>updated\<close> on
  insert (the column defaults of the schema script) and, on every update of a row of
  \<^verbatim>\<open>meds\<close>, sets \<^verbatim>\<open>updated\<close> to the time of the statement (trigger \<^verbatim>\<open>meds_updated\<close> of the
  schema script, \<^verbatim>\<open>BEFORE UPDATE ... NEW.updated = NOW()\<close>). The identifiers the store
  generates and its clock are parameters. The column types of \<^verbatim>\<open>meds\<close> are modelled
  for the row that \<^verbatim>\<open>POST /medicines\<close> inserts and for the id that
  \<^verbatim>\<open>DELETE /medicines/:id\<close> names; in \<^verbatim>\<open>POST /medicines/:id/stock\<close> and \<^verbatim>\<open>POST /sales\<close>
  the values written are taken to fit their columns, and the ids of the rows to be as the
  store prints them. Other constraints are not modelled. The tables \<^verbatim>\<open>sale_items\<close> and
  \<^verbatim>\<open>stock_moves\<close>, which the handlers only insert into, ignoring the outcome, are not
  part of the state.
  Field prefixes: \<^verbatim>\<open>r_\<close> a row of \<^verbatim>\<open>meds\<close>, \<^verbatim>\<open>sr_\<close> a row of \<^verbatim>\<open>sales\<close>, \<^verbatim>\<open>mv_\<close> and \<^verbatim>\<open>sv_\<close>
  the objects the handlers answer, \<^verbatim>\<open>b_\<close> the body of \<^verbatim>\<open>POST /medicines\<close>.
\<close>

record MedRow =
  r_id :: string
  r_name :: string
  r_cat :: string
  r_strength :: "string option"
  r_mfg :: string
  r_stock :: rat
  r_min_stock :: rat
  r_max_stock :: rat
  r_price :: rat
  r_exp_date :: "string option"
  r_batch :: "string option"
  r_location :: "string option"
  r_active :: bool
  r_created :: string
  r_updated :: string

record SaleRow =
  sr_id :: string
  sr_sale_no :: string
  sr_cust_name :: string
  sr_cust_phone :: string
  sr_total :: rat
  sr_payment :: string
  sr_sale_date :: string

record RemoteDb =
  meds :: "MedRow list"
  db_sales :: "SaleRow list"

definition single :: "'a list \<Rightarrow> 'a option" where
  \<comment> \<open>\<^verbatim>\<open>.single()\<close>: an error unless the query returns exactly one row\<close>
  "single rows = (case rows of [r] \<Rightarrow> Some r | _ \<Rightarrow> None)"

definition update_meds ::
    "string \<Rightarrow> string \<Rightarrow> (MedRow \<Rightarrow> MedRow) \<Rightarrow> MedRow list \<Rightarrow> MedRow list" where
  \<comment> \<open>\<^verbatim>\<open>.from('meds').update(values).eq('id', ident)\<close> with the trigger \<^verbatim>\<open>meds_updated\<close>\<close>
  "update_meds dbnow ident values rows =
     map (\<lambda>r. if r_id r = ident then (values r)\<lparr>r_updated := dbnow\<rparr> else r) rows"

record MedicineView =
  mv_id :: string
  mv_name :: string
  mv_category :: string
  mv_strength :: "string option"
  mv_manufacturer :: string
  mv_current_stock :: rat
  mv_minimum_stock :: rat
  mv_maximum_stock :: rat
  mv_unit_price :: rat
  mv_expiry_date :: "string option"
  mv_batch_number :: "string option"
  mv_storage_location :: "string option"
  mv_is_active :: bool
  mv_created_at :: string
  mv_updated_at :: string

definition transformedMedicine :: "MedRow \<Rightarrow> MedicineView" where
  "transformedMedicine med =
     \<lparr>mv_id = r_id med, mv_name = r_name med, mv_category = r_cat med,
      mv_strength = r_strength med, mv_manufacturer = r_mfg med,
      mv_current_stock = r_stock med, mv_minimum_stock = r_min_stock med,
      mv_maximum_stock = r_max_stock med, mv_unit_price = r_price med,
      mv_expiry_date = r_exp_date med, mv_batch_number = r_batch med,
      mv_storage_location = r_location med, mv_is_active = r_active med,
      mv_created_at = r_created med, mv_updated_at = r_updated med\<rparr>"

subsection \<open>The column types of \<^verbatim>\<open>meds\<close>\<close>

text \<open>
  The schema script types the columns of \<^verbatim>\<open>meds\<close>: \<^verbatim>\<open>id UUID\<close>, \<^verbatim>\<open>name VARCHAR(255)\<close>,
  \<^verbatim>\<open>cat VARCHAR(100)\<close>, \<^verbatim>\<open>strength VARCHAR(50)\<close>, \<^verbatim>\<open>mfg VARCHAR(255)\<close>, \<^verbatim>\<open>stock\<close>,
  \<^verbatim>\<open>min_stock\<close> and \<^verbatim>\<open>max_stock INTEGER\<close>, \<^verbatim>\<open>price DECIMAL(10,2)\<close>, \<^verbatim>\<open>exp_date DATE\<close>,
  \<^verbatim>\<open>batch\<close> and \<^verbatim>\<open>location VARCHAR(100)\<close>. A statement that gives a column a value its
  type rejects fails, and the handler receives the store's error, of which it reads the
  code and the message (\<^verbatim>\<open>isTableMissingError\<close>). A value the type accepts is stored as
  the type holds it: a price rounded to two decimals, a date without a time of day, an id
  in lower case with hyphens. How the store reads a date is a parameter (\<open>toDate\<close>).
\<close>

record DbError =
  pg_code :: string
  pg_message :: string

definition hasText :: "string \<Rightarrow> string \<Rightarrow> bool" where
  \<comment> \<open>\<^verbatim>\<open>s.includes(sub)\<close>\<close>
  "hasText s sub = list_ex (\<lambda>i. startsWith (drop i s) sub) [0..<Suc (length s)]"

definition isTableMissingError :: "DbError \<Rightarrow> bool" where
  "isTableMissingError error =
     (pg_code error = ''42P01'' \<or>
      hasText (pg_message error) ''relation'' \<or>
      hasText (pg_message error) ''does not exist'' \<or>
      hasText (pg_message error) ''table'')"

definition quoted :: "string \<Rightarrow> string" where
  "quoted s = [CHR 0x22] @ s @ [CHR 0x22]"

definition isHexDigit :: "char \<Rightarrow> bool" where
  "isHexDigit c = (c \<in> set ''0123456789abcdefABCDEF'')"

definition lowerHex :: "char \<Rightarrow> char" where
  "lowerHex c =
     (case map_of (zip ''ABCDEF'' ''abcdef'') c of None \<Rightarrow> c | Some l \<Rightarrow> l)"

primrec uuid_bytes :: "nat list \<Rightarrow> string \<Rightarrow> (string \<times> string) option" where
  \<comment> \<open>the bytes with the given indexes, two hexadecimal digits each; a hyphen may follow a
      byte of odd index other than the last; the result is the digits and the text left\<close>
  "uuid_bytes [] src = Some ([], src)"
| "uuid_bytes (i # rest) src =
     (case src of
        a # b # next \<Rightarrow>
          if isHexDigit a \<and> isHexDigit b
          then (case uuid_bytes rest
                       (if odd i \<and> i < 15 \<and> take 1 next = ''-'' then drop 1 next else next) of
                  None \<Rightarrow> None
                | Some (digits, left) \<Rightarrow> Some (lowerHex a # lowerHex b # digits, left))
          else None
      | _ \<Rightarrow> None)"

definition uuid_out :: "string \<Rightarrow> string" where
  \<comment> \<open>32 digits in the groups 8-4-4-4-12\<close>
  "uuid_out h =
     take 8 h @ ''-'' @ take 4 (drop 8 h) @ ''-'' @ take 4 (drop 12 h) @ ''-'' @
     take 4 (drop 16 h) @ ''-'' @ drop 20 h"

definition uuid_in :: "string \<Rightarrow> DbError + string" where
  \<comment> \<open>a text compared with, or stored in, a \<^verbatim>\<open>UUID\<close> column: the id as the store prints it,
      or the error. The text is 16 bytes in hexadecimal, in braces or not.\<close>
  "uuid_in s =
     (let braces = (take 1 s = ''{'');
          src = (if braces then drop 1 s else s)
      in case uuid_bytes [0..<16] src of
           None \<Rightarrow>
             Inl \<lparr>pg_code = ''22P02'',
                  pg_message = ''invalid input syntax for type uuid: '' @ quoted s\<rparr>
         | Some (digits, left) \<Rightarrow>
             if left = (if braces then ''}'' else [])
             then Inr (uuid_out digits)
             else Inl \<lparr>pg_code = ''22P02'',
                       pg_message = ''invalid input syntax for type uuid: '' @ quoted s\<rparr>)"

definition varchar :: "nat \<Rightarrow> string \<Rightarrow> DbError + string" where
  \<comment> \<open>the handlers store trimmed text, which ends with no space the store could drop\<close>
  "varchar n s =
     (if length s \<le> n then Inr s
      else Inl \<lparr>pg_code = ''22001'',
                pg_message = ''value too long for type character varying('' @
                             string_of_nat n @ '')''\<rparr>)"

definition varchar_opt :: "nat \<Rightarrow> string option \<Rightarrow> DbError + string option" where
  \<comment> \<open>a column that may be \<^verbatim>\<open>null\<close>\<close>
  "varchar_opt n so =
     (case so of
        None \<Rightarrow> Inr None
      | Some s \<Rightarrow> (case varchar n s of Inl error \<Rightarrow> Inl error | Inr v \<Rightarrow> Inr (Some v)))"

primrec digitsText :: "nat \<Rightarrow> int \<Rightarrow> string" where
  \<comment> \<open>the decimal digits of a whole number that is not negative, as many as the first
      argument at most\<close>
  "digitsText 0 n = []"
| "digitsText (Suc k) n =
     (if n < 10 then [digit_char (nat n)]
      else digitsText k (n div 10) @ [digit_char (nat (n mod 10))])"

definition integerText :: "int \<Rightarrow> string" where
  \<comment> \<open>a whole number below \<open>10\<^sup>2\<^sup>2\<close> in size, as it is written in the body of a request\<close>
  "integerText n = (if n < 0 then ''-'' else []) @ digitsText 22 \<bar>n\<bar>"

definition integer_in :: "rat \<Rightarrow> DbError + rat" where
  \<comment> \<open>\<^verbatim>\<open>INTEGER\<close>: 32 bits, signed. The handlers pass whole numbers, which the message of a
      number out of range quotes in digits.\<close>
  "integer_in q =
     (if \<not> isInteger q
      then Inl \<lparr>pg_code = ''22P02'', pg_message = ''invalid input syntax for type integer''\<rparr>
      else if - (2 ^ 31) \<le> q \<and> q < 2 ^ 31 then Inr q
      else Inl \<lparr>pg_code = ''22003'',
                pg_message = ''value '' @ quoted (integerText \<lfloor>q\<rfloor>) @
                             '' is out of range for type integer''\<rparr>)"

definition decimal_10_2 :: "rat \<Rightarrow> DbError + rat" where
  \<comment> \<open>\<^verbatim>\<open>DECIMAL(10,2)\<close>: rounded to two decimals, a half away from zero, and then below
      \<open>10\<^sup>8\<close> in magnitude\<close>
  "decimal_10_2 q =
     (let r = sgn q * of_int \<lfloor>\<bar>q\<bar> * 100 + 1 / 2\<rfloor> / 100
      in if \<bar>r\<bar> < 10 ^ 8 then Inr r
         else Inl \<lparr>pg_code = ''22003'', pg_message = ''numeric field overflow''\<rparr>)"

definition date_opt ::
    "(string \<Rightarrow> DbError + string) \<Rightarrow> string option \<Rightarrow> DbError + string option" where
  \<comment> \<open>\<^verbatim>\<open>DATE\<close>, a column that may be \<^verbatim>\<open>null\<close>; \<open>toDate\<close> is the store reading a text as a
      date: the date as it prints it, or its error\<close>
  "date_opt toDate so =
     (case so of
        None \<Rightarrow> Inr None
      | Some s \<Rightarrow> (case toDate s of Inl error \<Rightarrow> Inl error | Inr d \<Rightarrow> Inr (Some d)))"

definition andThen :: "'e + 'a \<Rightarrow> ('a \<Rightarrow> 'e + 'b) \<Rightarrow> 'e + 'b" where
  \<comment> \<open>the next column is read when this one was accepted\<close>
  "andThen r f = (case r of Inl error \<Rightarrow> Inl error | Inr v \<Rightarrow> f v)"

record MedicineInsert =
  i_name :: string
  i_cat :: string
  i_strength :: "string option"
  i_mfg :: string
  i_stock :: rat
  i_min_stock :: rat
  i_max_stock :: rat
  i_price :: rat
  i_exp_date :: "string option"
  i_batch :: "string option"
  i_location :: "string option"

definition insert_meds ::
    "(string \<Rightarrow> DbError + string) \<Rightarrow> string \<Rightarrow> string \<Rightarrow> MedicineInsert
      \<Rightarrow> DbError + MedRow" where
  \<comment> \<open>\<^verbatim>\<open>.from('meds').insert([medicineData]).select().single()\<close>: the row as stored, with the
      column defaults of \<^verbatim>\<open>id\<close>, \<^verbatim>\<open>active\<close>, \<^verbatim>\<open>created\<close> and \<^verbatim>\<open>updated\<close>, or the error of the
      first column, in the order of the table, that rejects its value\<close>
  "insert_meds toDate uuid dbnow v =
     andThen (varchar 255 (i_name v)) (\<lambda>name.
     andThen (varchar 100 (i_cat v)) (\<lambda>cat.
     andThen (varchar_opt 50 (i_strength v)) (\<lambda>strength.
     andThen (varchar 255 (i_mfg v)) (\<lambda>mfg.
     andThen (integer_in (i_stock v)) (\<lambda>stock.
     andThen (integer_in (i_min_stock v)) (\<lambda>min_stock.
     andThen (integer_in (i_max_stock v)) (\<lambda>max_stock.
     andThen (decimal_10_2 (i_price v)) (\<lambda>price.
     andThen (date_opt toDate (i_exp_date v)) (\<lambda>exp_date.
     andThen (varchar_opt 100 (i_batch v)) (\<lambda>batch.
     andThen (varchar_opt 100 (i_location v)) (\<lambda>location.
       Inr \<lparr>r_id = uuid, r_name = name, r_cat = cat, r_strength = strength, r_mfg = mfg,
            r_stock = stock, r_min_stock = min_stock, r_max_stock = max_stock,
            r_price = price, r_exp_date = exp_date, r_batch = batch,
            r_location = location, r_active = True, r_created = dbnow,
            r_updated = dbnow\<rparr>)))))))))))"

subsection \<open>\<^verbatim>\<open>GET /medicines\<close>\<close>

definition get_medicines :: "RemoteDb option \<Rightarrow> (MedicineView list \<times> string) Reply" where
  \<comment> \<open>the body is \<^verbatim>\<open>{ medicines, dbStatus }\<close>; \<^verbatim>\<open>.order('name')\<close> by code units\<close>
  "get_medicines db =
     (case db of
        None \<Rightarrow>
          Failed 400
            (''Database not initialized with simplified schema. '' @
             ''Please run the 002_simplified_schema.sql migration.'')
      | Some d \<Rightarrow>
          Ok (map transformedMedicine (sort_key r_name (filter r_active (meds d))), ''ready''))"

subsection \<open>\<^verbatim>\<open>POST /medicines\<close>\<close>

definition leadingDigit :: "rat \<Rightarrow> int" where
  \<comment> \<open>the first significant decimal digit of a positive number that \<^verbatim>\<open>String\<close> writes in
      exponent notation (at least \<open>10\<^sup>2\<^sup>1\<close>, or below \<open>10\<^sup>-\<^sup>6\<close>)\<close>
  "leadingDigit a =
     (if a \<ge> 1 then
        (let n = nat \<lfloor>a\<rfloor> in int (n div 10 ^ (floorlog 10 n - 1)))
      else
        (let d = floorlog 10 (nat \<lfloor>1 / a\<rfloor>)
         in if a * 10 ^ (d - 1) = 1 then 1 else \<lfloor>a * 10 ^ d\<rfloor>))"

definition parseInt :: "rat \<Rightarrow> rat" where
  \<comment> \<open>\<^verbatim>\<open>parseInt(x)\<close> of a number: the integer that starts \<^verbatim>\<open>String(x)\<close>\<close>
  "parseInt q =
     (if q = 0 then 0
      else sgn q * (if 1 / 10 ^ 6 \<le> \<bar>q\<bar> \<and> \<bar>q\<bar> < 10 ^ 21 then of_int \<lfloor>\<bar>q\<bar>\<rfloor>
                    else of_int (leadingDigit \<bar>q\<bar>)))"

definition orElse :: "rat option \<Rightarrow> rat \<Rightarrow> rat" where
  \<comment> \<open>\<^verbatim>\<open>a || d\<close> for a number \<^verbatim>\<open>a\<close>; \<^term>\<open>None\<close> is \<^verbatim>\<open>NaN\<close>, what \<^verbatim>\<open>parseInt(undefined)\<close> is\<close>
  "orElse a d = (case a of None \<Rightarrow> d | Some q \<Rightarrow> if q \<noteq> 0 then q else d)"

definition trimmed :: "string option \<Rightarrow> string option" where
  \<comment> \<open>\<^verbatim>\<open>s?.trim()\<close> as the left operand of \<^verbatim>\<open>||\<close>: \<^term>\<open>None\<close> when falsy\<close>
  "trimmed so = (case so of None \<Rightarrow> None | Some s \<Rightarrow> if trim s = [] then None else Some (trim s))"

definition nonEmpty :: "string option \<Rightarrow> string option" where
  "nonEmpty so = (case so of None \<Rightarrow> None | Some s \<Rightarrow> if s = [] then None else Some s)"

definition firstOf :: "'a option \<Rightarrow> 'a option \<Rightarrow> 'a option" where
  \<comment> \<open>\<^verbatim>\<open>a || b\<close> for operands that are \<^term>\<open>None\<close> when falsy\<close>
  "firstOf a b = (case a of None \<Rightarrow> b | Some v \<Rightarrow> Some v)"

definition str :: "string option \<Rightarrow> string" where
  \<comment> \<open>a field read after the check that it is present\<close>
  "str so = (case so of None \<Rightarrow> [] | Some s \<Rightarrow> s)"

record MedicineBody =
  b_name :: "string option"
  b_category :: "string option"
  b_strength :: "string option"
  b_manufacturer :: "string option"
  b_stock :: "rat option"
  b_current_stock :: "rat option"
  b_minStock :: "rat option"
  b_minimum_stock :: "rat option"
  b_maxStock :: "rat option"
  b_maximum_stock :: "rat option"
  b_price :: "rat option"
  b_unit_price :: "rat option"
  b_expiryDate :: "string option"
  b_expiry_date :: "string option"
  b_batchNumber :: "string option"
  b_batch_number :: "string option"
  b_location :: "string option"
  b_storage_location :: "string option"

definition medicineBody :: "Medicine \<Rightarrow> MedicineBody" where
  \<comment> \<open>\<^verbatim>\<open>JSON.stringify(newMedicine)\<close> as the handler reads it\<close>
  "medicineBody m =
     \<lparr>b_name = Some (m_name m), b_category = Some (m_category m), b_strength = m_strength m,
      b_manufacturer = Some (m_manufacturer m),
      b_stock = Some (m_stock m), b_current_stock = None,
      b_minStock = Some (m_minStock m), b_minimum_stock = None,
      b_maxStock = Some (m_maxStock m), b_maximum_stock = None,
      b_price = Some (m_price m), b_unit_price = None,
      b_expiryDate = m_expiryDate m, b_expiry_date = None,
      b_batchNumber = m_batchNumber m, b_batch_number = None,
      b_location = m_location m, b_storage_location = None\<rparr>"

definition post_medicines ::
    "(string \<Rightarrow> DbError + string) \<Rightarrow> string \<Rightarrow> string \<Rightarrow> MedicineBody \<Rightarrow> RemoteDb option
      \<Rightarrow> MedicineView Reply \<times> RemoteDb option" where
  "post_medicines toDate uuid dbnow medicine db =
     (if shorter 2 (b_name medicine)
      then (Failed 400 ''Medicine name must be at least 2 characters long'', db)
      else if shorter 2 (b_category medicine)
      then (Failed 400 ''Category must be at least 2 characters long'', db)
      else if shorter 2 (b_manufacturer medicine)
      then (Failed 400 ''Manufacturer must be at least 2 characters long'', db)
      else
        (let medicineData =
               \<lparr>i_name = trim (str (b_name medicine)),
                i_cat = trim (str (b_category medicine)),
                i_strength = trimmed (b_strength medicine),
                i_mfg = trim (str (b_manufacturer medicine)),
                i_stock =
                  orElse (map_option parseInt (b_stock medicine))
                    (orElse (map_option parseInt (b_current_stock medicine)) 0),
                i_min_stock =
                  orElse (map_option parseInt (b_minStock medicine))
                    (orElse (map_option parseInt (b_minimum_stock medicine)) 10),
                i_max_stock =
                  orElse (map_option parseInt (b_maxStock medicine))
                    (orElse (map_option parseInt (b_maximum_stock medicine)) 100),
                i_price = orElse (b_price medicine) (orElse (b_unit_price medicine) 0),
                i_exp_date =
                  firstOf (nonEmpty (b_expiryDate medicine)) (nonEmpty (b_expiry_date medicine)),
                i_batch =
                  firstOf (trimmed (b_batchNumber medicine)) (trimmed (b_batch_number medicine)),
                i_location =
                  firstOf (trimmed (b_location medicine))
                    (trimmed (b_storage_location medicine))\<rparr>
         in (case db of
               None \<Rightarrow> (Failed 400 ''Database not initialized with simplified schema'', db)
             | Some d \<Rightarrow>
                 (case insert_meds toDate uuid dbnow medicineData of
                    Inl error \<Rightarrow>
                      if isTableMissingError error
                      then (Failed 400 ''Database not initialized with simplified schema'', db)
                      else (Failed 500 ''Database not initialized with simplified schema'', db)
                  | Inr data \<Rightarrow>
                      (Ok (transformedMedicine data), Some (d\<lparr>meds := meds d @ [data]\<rparr>))))))"

subsection \<open>\<^verbatim>\<open>DELETE /medicines/:id\<close>\<close>

definition delete_medicines ::
    "string \<Rightarrow> string \<Rightarrow> RemoteDb option \<Rightarrow> bool Reply \<times> RemoteDb option" where
  \<comment> \<open>the body is \<^verbatim>\<open>{ success: true }\<close>. An update that matches no row is no error; a text
      that is no id of the column's type is one\<close>
  "delete_medicines dbnow ident db =
     (case db of
        None \<Rightarrow> (Failed 400 ''Database not initialized with simplified schema'', db)
      | Some d \<Rightarrow>
          (case uuid_in ident of
             Inl error \<Rightarrow>
               if isTableMissingError error
               then (Failed 400 ''Database not initialized with simplified schema'', db)
               else (Failed 500 ''Database not initialized with simplified schema'', db)
           | Inr u \<Rightarrow>
               (Ok True,
                Some (d\<lparr>meds := update_meds dbnow u (\<lambda>r. r\<lparr>r_active := False\<rparr>) (meds d)\<rparr>))))"

subsection \<open>\<^verbatim>\<open>POST /medicines/:id/stock\<close>\<close>

definition post_stock ::
    "string \<Rightarrow> string \<Rightarrow> string \<Rightarrow> rat \<Rightarrow> string \<Rightarrow> RemoteDb option
      \<Rightarrow> MedicineView Reply \<times> RemoteDb option" where
  "post_stock snow dbnow ident quantity type db =
     (if quantity = 0 \<or> quantity \<le> 0 \<or> \<not> isInteger quantity
      then (Failed 400 ''Quantity must be a positive integer'', db)
      else if type = [] \<or> type \<notin> set [''add'', ''subtract'']
      then (Failed 400 (''Type must be '' @ [CHR 0x27] @ ''add'' @ [CHR 0x27] @ '' or '' @
                        [CHR 0x27] @ ''subtract'' @ [CHR 0x27]), db)
      else
        (case db of
           None \<Rightarrow> (Failed 400 ''Database not initialized with simplified schema'', db)
         | Some d \<Rightarrow>
             (case single (filter (\<lambda>r. r_id r = ident) (meds d)) of
                None \<Rightarrow> (Failed 404 ''Medicine not found'', db)
              | Some medicine \<Rightarrow>
                  (let previousStock = r_stock medicine;
                       newStock = (if type = ''add'' then previousStock + quantity
                                   else previousStock - quantity)
                   in if newStock < 0 then (Failed 400 ''Insufficient stock'', db)
                      else
                        (let rows = update_meds dbnow ident
                                      (\<lambda>r. r\<lparr>r_stock := newStock, r_updated := snow\<rparr>) (meds d)
                         in (case single (filter (\<lambda>r. r_id r = ident) rows) of
                               None \<Rightarrow>
                                 (Failed 500 ''Database not initialized with simplified schema'',
                                  Some (d\<lparr>meds := rows\<rparr>))
                             | Some updatedMedicine \<Rightarrow>
                                 (Ok (transformedMedicine updatedMedicine),
                                  Some (d\<lparr>meds := rows\<rparr>))))))))"

subsection \<open>\<^verbatim>\<open>POST /sales\<close>\<close>

record SaleView =
  sv_id :: string
  sv_customerName :: string
  sv_customerPhone :: string
  sv_total :: rat
  sv_paymentMethod :: string
  sv_timestamp :: string
  sv_saleNumber :: string

definition sell_item :: "string \<Rightarrow> 'z SaleItem_scheme \<Rightarrow> MedRow list \<Rightarrow> MedRow list" where
  \<comment> \<open>the body of the loop over \<^verbatim>\<open>sale.items\<close>, on the table \<^verbatim>\<open>meds\<close>\<close>
  "sell_item dbnow item rows =
     (case single (filter (\<lambda>r. r_id r = si_medicineId item) rows) of
        None \<Rightarrow> rows
      | Some medicine \<Rightarrow>
          (let newStock = r_stock medicine - si_quantity item
           in if newStock \<ge> 0
              then update_meds dbnow (si_medicineId item) (\<lambda>r. r\<lparr>r_stock := newStock\<rparr>) rows
              else rows))"

definition post_sales ::
    "string \<Rightarrow> string \<Rightarrow> string \<Rightarrow> 'z SaleItem_scheme Sale \<Rightarrow> RemoteDb option
      \<Rightarrow> SaleView Reply \<times> RemoteDb option" where
  "post_sales saleNumber uuid dbnow sale db =
     (case db of
        None \<Rightarrow> (Failed 400 ''Database not initialized with simplified schema'', db)
      | Some d \<Rightarrow>
          (let saleData =
                 \<lparr>sr_id = uuid, sr_sale_no = saleNumber,
                  sr_cust_name = s_customerName sale, sr_cust_phone = s_customerPhone sale,
                  sr_total = s_total sale,
                  sr_payment = (if s_paymentMethod sale \<noteq> [] then s_paymentMethod sale
                                else ''cash''),
                  sr_sale_date = dbnow\<rparr>
           in (Ok \<lparr>sv_id = sr_id saleData, sv_customerName = sr_cust_name saleData,
                   sv_customerPhone = sr_cust_phone saleData, sv_total = sr_total saleData,
                   sv_paymentMethod = sr_payment saleData, sv_timestamp = sr_sale_date saleData,
                   sv_saleNumber = sr_sale_no saleData\<rparr>,
               Some \<lparr>meds = fold (sell_item dbnow) (s_items sale) (meds d),
                     db_sales = db_sales d @ [saleData]\<rparr>)))"

section \<open>The two paths together\<close>

text \<open>
  A call of the data-access layer from the browser: the request reaches the handler, which
  answers from the hosted store, or the network fails with a message (\<open>offline\<close>); the
  method then returns the handler's answer or falls back to the local store. The values
  the environment supplies to one call are gathered in a record.
\<close>

record 'i System =
  remote :: "RemoteDb option"
  browser :: "'i LocalData"

record Ctx =
  c_id :: string          \<comment> \<open>\<^verbatim>\<open>generateId()\<close>\<close>
  c_now :: string         \<comment> \<open>the browser's \<^verbatim>\<open>new Date().toISOString()\<close>\<close>
  c_snow :: string        \<comment> \<open>the handler's \<^verbatim>\<open>new Date().toISOString()\<close>\<close>
  c_dbnow :: string       \<comment> \<open>the store's \<^verbatim>\<open>NOW()\<close>\<close>
  c_uuid :: string        \<comment> \<open>the store's \<^verbatim>\<open>gen_random_uuid()\<close>\<close>
  c_saleNumber :: string  \<comment> \<open>\<^verbatim>\<open>generateSaleNumber()\<close>\<close>

definition viaBackend ::
    "string option \<Rightarrow> (RemoteDb option \<Rightarrow> 'r Reply \<times> RemoteDb option)
      \<Rightarrow> (string + 'r \<Rightarrow> 'i LocalData \<Rightarrow> string + ('r, 'l) Served \<times> 'i LocalData)
      \<Rightarrow> 'i System \<Rightarrow> (string + ('r, 'l) Served) \<times> 'i System" where
  "viaBackend offline handler method sys =
     (let (fetched, db) =
            (case offline of
               Some msg \<Rightarrow> (NetworkFailure msg, remote sys)
             | None \<Rightarrow> (let (reply, db) = handler (remote sys) in (Response reply, db)))
      in (case method (tryBackend True fetched) (browser sys) of
            Inl e \<Rightarrow> (Inl e, \<lparr>remote = db, browser = browser sys\<rparr>)
          | Inr (served, st) \<Rightarrow> (Inr served, \<lparr>remote = db, browser = st\<rparr>)))"

definition call_getMedicines ::
    "string option \<Rightarrow> 'i System
      \<Rightarrow> (string + (MedicineView list \<times> string, Medicine list) Served) \<times> 'i System" where
  "call_getMedicines offline sys =
     viaBackend offline (\<lambda>db. (get_medicines db, db)) getMedicines sys"

definition call_addMedicine ::
    "string option \<Rightarrow> (string \<Rightarrow> DbError + string) \<Rightarrow> Ctx \<Rightarrow> MedicineForm \<Rightarrow> 'i System
      \<Rightarrow> (string + (MedicineView, Medicine) Served) \<times> 'i System" where
  "call_addMedicine offline toDate c medicine sys =
     viaBackend offline
       (post_medicines toDate (c_uuid c) (c_dbnow c)
          (medicineBody (newMedicine (c_id c) (c_now c) (c_now c) medicine)))
       (\<lambda>be. addMedicine be (c_id c) (c_now c) (c_now c) medicine) sys"

definition call_deleteMedicine ::
    "string option \<Rightarrow> Ctx \<Rightarrow> string \<Rightarrow> 'i System \<Rightarrow> (string + (bool, bool) Served) \<times> 'i System"
  where
  "call_deleteMedicine offline c ident sys =
     viaBackend offline (delete_medicines (c_dbnow c) ident) (\<lambda>be. deleteMedicine be ident) sys"

definition call_updateStock ::
    "string option \<Rightarrow> Ctx \<Rightarrow> string \<Rightarrow> rat \<Rightarrow> string \<Rightarrow> 'i System
      \<Rightarrow> (string + (MedicineView, Medicine option) Served) \<times> 'i System" where
  "call_updateStock offline c ident quantity type sys =
     viaBackend offline (post_stock (c_snow c) (c_dbnow c) ident quantity type)
       (\<lambda>be. updateStock be (c_now c) ident quantity type) sys"

definition call_createSale ::
    "string option \<Rightarrow> Ctx \<Rightarrow> 'z SaleItem_scheme SaleForm \<Rightarrow> 'z SaleItem_scheme System
      \<Rightarrow> (string + (SaleView, 'z SaleItem_scheme Sale) Served) \<times> 'z SaleItem_scheme System"
  where
  "call_createSale offline c sale sys =
     viaBackend offline
       (post_sales (c_saleNumber c) (c_uuid c) (c_dbnow c) (newSale (c_id c) (c_now c) sale))
       (\<lambda>be. createSale be (c_id c) (c_now c) sale) sys"

text \<open>
  The operations that write a stock: the two calls above (each with its fallback), and a
  request that reaches a handler from any other client.
\<close>

datatype 'i StockOp =
    UpdateStock "string option" string rat string
  | CreateSale "string option" "'i SaleForm"
  | StockEndpoint string rat string
  | SalesEndpoint "'i Sale"

fun stockStep :: "Ctx \<times> 'z SaleItem_scheme StockOp \<Rightarrow> 'z SaleItem_scheme System
    \<Rightarrow> 'z SaleItem_scheme System" where
  "stockStep (c, UpdateStock offline ident quantity type) sys =
     snd (call_updateStock offline c ident quantity type sys)"
| "stockStep (c, CreateSale offline sale) sys = snd (call_createSale offline c sale sys)"
| "stockStep (c, StockEndpoint ident quantity type) sys =
     sys\<lparr>remote := snd (post_stock (c_snow c) (c_dbnow c) ident quantity type (remote sys))\<rparr>"
| "stockStep (c, SalesEndpoint sale) sys =
     sys\<lparr>remote := snd (post_sales (c_saleNumber c) (c_uuid c) (c_dbnow c) sale (remote sys))\<rparr>"

definition dbMeds :: "RemoteDb option \<Rightarrow> MedRow list" where
  "dbMeds db = (case db of None \<Rightarrow> [] | Some d \<Rightarrow> meds d)"

definition remoteMeds :: "'i System \<Rightarrow> MedRow list" where
  "remoteMeds sys = dbMeds (remote sys)"

definition localMeds :: "'i System \<Rightarrow> Medicine list" where
  "localMeds sys = storage_get (medicines (browser sys))"

definition stocksNonNegative :: "'i System \<Rightarrow> bool" where
  "stocksNonNegative sys =
     ((\<forall>r \<in> set (remoteMeds sys). r_stock r \<ge> 0) \<and> (\<forall>m \<in> set (localMeds sys). m_stock m \<ge> 0))"

section \<open>Reading an entry's visible fields\<close>

text \<open>
  The fields a form submits, read back from a stored medicine.
\<close>

definition visibleFields :: "'z MedicineForm_scheme \<Rightarrow> MedicineForm" where
  "visibleFields m =
     \<lparr>m_name = m_name m, m_category = m_category m, m_strength = m_strength m,
      m_manufacturer = m_manufacturer m, m_stock = m_stock m, m_minStock = m_minStock m,
      m_maxStock = m_maxStock m, m_price = m_price m, m_expiryDate = m_expiryDate m,
      m_batchNumber = m_batchNumber m, m_location = m_location m\<rparr>"

section \<open>Sample data\<close>

text \<open>
  \<^verbatim>\<open>sampleMedicines\<close>, \<^verbatim>\<open>sampleSales\<close> and \<^verbatim>\<open>samplePrescriptions\<close> of the client, with which
  \<^verbatim>\<open>loadFromStorage\<close> fills an empty store, and the first rows the schema script inserts
  into \<^verbatim>\<open>meds\<close>. They are the concrete inputs of the examples below.
\<close>

definition sampleMedicines :: "Medicine list" where
  "sampleMedicines =
     [\<lparr>m_name = ''Paracetamol'', m_category = ''Pain Relief'', m_strength = Some ''500mg'',
       m_manufacturer = ''PharmaCorp'', m_stock = 150, m_minStock = 50, m_maxStock = 300,
       m_price = 599 / 100, m_expiryDate = Some ''2025-12-15'',
       m_batchNumber = Some ''PC240815'', m_location = Some ''A1-S2'',
       m_id = ''med_001'', m_createdAt = ''2025-01-08T10:00:00Z'',
       m_updatedAt = ''2025-01-08T10:00:00Z''\<rparr>,
      \<lparr>m_name = ''Amoxicillin'', m_category = ''Antibiotic'', m_strength = Some ''250mg'',
       m_manufacturer = ''MediLife'', m_stock = 25, m_minStock = 30, m_maxStock = 150,
       m_price = 1250 / 100, m_expiryDate = Some ''2025-06-20'',
       m_batchNumber = Some ''ML240601'', m_location = Some ''B2-S1'',
       m_id = ''med_002'', m_createdAt = ''2025-01-07T10:00:00Z'',
       m_updatedAt = ''2025-01-07T10:00:00Z''\<rparr>,
      \<lparr>m_name = ''Ibuprofen'', m_category = ''Anti-inflammatory'', m_strength = Some ''200mg'',
       m_manufacturer = ''HealthCare+'', m_stock = 200, m_minStock = 40, m_maxStock = 250,
       m_price = 875 / 100, m_expiryDate = Some ''2026-03-10'',
       m_batchNumber = Some ''HC241120'', m_location = Some ''A3-S1'',
       m_id = ''med_003'', m_createdAt = ''2025-01-08T10:00:00Z'',
       m_updatedAt = ''2025-01-08T10:00:00Z''\<rparr>,
      \<lparr>m_name = ''Aspirin'', m_category = ''Pain Relief'', m_strength = Some ''75mg'',
       m_manufacturer = ''HealthCare+'', m_stock = 8, m_minStock = 25, m_maxStock = 200,
       m_price = 650 / 100, m_expiryDate = Some ''2025-04-15'',
       m_batchNumber = Some ''HC240320'', m_location = Some ''A1-S3'',
       m_id = ''med_004'', m_createdAt = ''2025-01-06T10:00:00Z'',
       m_updatedAt = ''2025-01-06T10:00:00Z''\<rparr>,
      \<lparr>m_name = ''Metformin'', m_category = ''Diabetes'', m_strength = Some ''500mg'',
       m_manufacturer = ''MediLife'', m_stock = 5, m_minStock = 20, m_maxStock = 100,
       m_price = 18, m_expiryDate = Some ''2025-08-30'',
       m_batchNumber = Some ''ML240215'', m_location = Some ''C1-S2'',
       m_id = ''med_005'', m_createdAt = ''2025-01-05T10:00:00Z'',
       m_updatedAt = ''2025-01-05T10:00:00Z''\<rparr>]"

definition sampleSales :: "string \<Rightarrow> SaleItem Sale list" where
  "sampleSales now =
     [\<lparr>s_customerName = ''John Smith'', s_customerPhone = ''+1234567890'',
       s_items = [\<lparr>si_medicineId = ''med_001'', si_name = ''Paracetamol'', si_quantity = 2,
                   si_price = 599 / 100\<rparr>],
       s_total = 1198 / 100, s_paymentMethod = ''cash'',
       s_id = ''sale_001'', s_timestamp = now\<rparr>]"

definition samplePrescriptions :: "string \<Rightarrow> Prescription list" where
  "samplePrescriptions now =
     [\<lparr>p_patientName = ''Jane Doe'', p_patientAge = Some 35, p_patientPhone = None,
       p_doctorName = ''Dr. Smith'', p_medicines = [''Amoxicillin 250mg''], p_notes = None,
       p_id = ''presc_001'', p_status = ''pending'', p_verification = None,
       p_createdAt = now, p_updatedAt = now\<rparr>]"

definition initialData :: "string \<Rightarrow> SaleItem LocalData" where
  \<comment> \<open>\<^verbatim>\<open>loadFromStorage\<close> when the browser holds no stored data\<close>
  "initialData now =
     \<lparr>medicines = Some sampleMedicines, sales = Some (sampleSales now),
      prescriptions = Some (samplePrescriptions now), employees = Some [], tickets = Some []\<rparr>"

definition exampleTicket :: Ticket where
  \<comment> \<open>a ticket as \<^verbatim>\<open>createTicket\<close> stores it\<close>
  "exampleTicket =
     newTicket ''id_1736416800000_a1b2c3d4e'' ''2025-01-09T09:30:00.000Z''
       ''2025-01-09T09:30:00.000Z''
       \<lparr>t_title = ''Printer'', t_description = ''Receipt printer is offline'',
        t_category = ''hardware'', t_priority = ''medium'',
        t_createdBy = Some ''Current User'', t_assignedTo = None\<rparr>"

definition exampleData :: "SaleItem LocalData" where
  \<comment> \<open>the initial store after one ticket was created locally\<close>
  "exampleData = (initialData ''2025-01-09T09:00:00.000Z'')\<lparr>tickets := Some [exampleTicket]\<rparr>"

definition sampleMeds :: "MedRow list" where
  "sampleMeds =
     [\<lparr>r_id = ''00000000-0000-4000-8000-000000000001'', r_name = ''Paracetamol'', r_cat = ''Pain Relief'',
       r_strength = Some ''500mg'', r_mfg = ''PharmaCorp'', r_stock = 150, r_min_stock = 50,
       r_max_stock = 300, r_price = 599 / 100, r_exp_date = Some ''2025-12-15'',
       r_batch = Some ''PC240815'', r_location = Some ''A1-S2'', r_active = True,
       r_created = ''2025-01-01T00:00:00Z'', r_updated = ''2025-01-01T00:00:00Z''\<rparr>,
      \<lparr>r_id = ''00000000-0000-4000-8000-000000000002'', r_name = ''Amoxicillin'', r_cat = ''Antibiotic'',
       r_strength = Some ''250mg'', r_mfg = ''MediLife'', r_stock = 25, r_min_stock = 30,
       r_max_stock = 150, r_price = 1250 / 100, r_exp_date = Some ''2025-06-20'',
       r_batch = Some ''ML240601'', r_location = Some ''B2-S1'', r_active = True,
       r_created = ''2025-01-01T00:00:00Z'', r_updated = ''2025-01-01T00:00:00Z''\<rparr>]"

definition isoDate :: "string \<Rightarrow> DbError + string" where
  \<comment> \<open>the store reading the dates of the examples: a year, a month and a day in digits
      with hyphens, a time of day after them or not; the date is kept, the time dropped\<close>
  "isoDate s =
     (let d = take 10 s; t = drop 10 s
      in if length d = 10 \<and> list_all is_digit (take 4 d) \<and> d ! 4 = CHR ''-'' \<and>
            list_all is_digit (take 2 (drop 5 d)) \<and> d ! 7 = CHR ''-'' \<and>
            list_all is_digit (drop 8 d) \<and> (t = [] \<or> take 1 t = ''T'' \<or> take 1 t = '' '')
         then Inr d
         else Inl \<lparr>pg_code = ''22007'',
                   pg_message = ''invalid input syntax for type date: '' @ quoted s\<rparr>)"

definition exampleMedicine :: "rat \<Rightarrow> MedicineForm" where
  \<comment> \<open>the medicine of the specification's scenario, with a given minimum stock\<close>
  "exampleMedicine minStock =
     \<lparr>m_name = ''Test'', m_category = ''Pain Relief'', m_strength = None,
      m_manufacturer = ''Acme'', m_stock = 10, m_minStock = minStock, m_maxStock = 50,
      m_price = 999 / 100, m_expiryDate = None, m_batchNumber = None, m_location = None\<rparr>"



definition emptySystem :: "SaleItem System" where
  \<comment> \<open>a hosted store with the schema and no rows\<close>
  "emptySystem =
     \<lparr>remote = Some \<lparr>meds = [], db_sales = []\<rparr>,
      browser = initialData ''2025-01-09T09:00:00.000Z''\<rparr>"

definition sampleSystem :: "SaleItem System" where
  "sampleSystem =
     \<lparr>remote = Some \<lparr>meds = sampleMeds, db_sales = []\<rparr>,
      browser = initialData ''2025-01-09T09:00:00.000Z''\<rparr>"

definition sampleCtx :: Ctx where
  "sampleCtx =
     \<lparr>c_id = ''id_1736416800000_k3j9x2m1q'', c_now = ''2025-01-09T10:00:00.000Z'',
      c_snow = ''2025-01-09T10:00:00.100Z'', c_dbnow = ''2025-01-09T10:00:00.200Z'',
      c_uuid = ''00000000-0000-4000-8000-000000000009'', c_saleNumber = ''WF-20250109-0042''\<rparr>"

section \<open>Properties\<close>

subsection \<open>Arrays of the local store\<close>

lemma findIndex_None: "findIndex p xs = None \<longleftrightarrow> (\<forall>x \<in> set xs. \<not> p x)"
  by (induction xs) auto

lemma findIndex_less: "findIndex p xs = Some i \<Longrightarrow> i < length xs"
  by (induction xs arbitrary: i) (auto split: if_splits)

lemma find_findIndex:
  "find p xs = Some x \<Longrightarrow> \<exists>i. findIndex p xs = Some i \<and> i < length xs \<and> xs ! i = x"
  by (induction xs) (auto split: if_splits)

lemma findIndex_update_find:
  "findIndex p xs = Some i \<Longrightarrow> p y \<Longrightarrow> find p (xs[i := y]) = Some y"
  by (induction xs arbitrary: i) (auto split: if_splits)

lemma storage_update_unknown:
  "\<forall>x \<in> set (storage_get arr). idOf x \<noteq> ident \<Longrightarrow>
     storage_update idOf arr ident updates = (arr, None)"
  by (cases arr)
    (auto simp: storage_update_def storage_get_def findIndex_None[THEN iffD2] split: option.splits)

lemma storage_update_found:
  assumes "find (\<lambda>x. idOf x = ident) (storage_get arr) = Some x"
    and "\<And>y. idOf (updates y) = idOf y"
  shows "\<exists>xs. storage_update idOf arr ident updates = (Some xs, Some (updates x))
           \<and> find (\<lambda>x. idOf x = ident) xs = Some (updates x)
           \<and> length xs = length (storage_get arr)"
proof -
  from assms(1) obtain ys where arr: "arr = Some ys"
    by (cases arr) (auto simp: storage_get_def)
  with assms(1) have f: "find (\<lambda>x. idOf x = ident) ys = Some x"
    by (simp add: storage_get_def)
  then obtain i where i: "findIndex (\<lambda>x. idOf x = ident) ys = Some i" "i < length ys" "ys ! i = x"
    using find_findIndex by fastforce
  from f have "idOf x = ident" by (auto simp: find_Some_iff)
  with assms(2) have "idOf (updates x) = ident" by simp
  with i have "find (\<lambda>x. idOf x = ident) (ys[i := updates x]) = Some (updates x)"
    by (intro findIndex_update_find) auto
  with arr i show ?thesis
    by (simp add: storage_update_def storage_get_def)
qed

lemma storage_update_set:
  assumes "x \<in> set (storage_get (fst (storage_update idOf arr ident u)))"
  shows "x \<in> set (storage_get arr) \<or> (\<exists>y \<in> set (storage_get arr). x = u y)"
proof (cases arr)
  case None
  with assms show ?thesis by (simp add: storage_update_def storage_get_def)
next
  case (Some xs)
  show ?thesis
  proof (cases "findIndex (\<lambda>item. idOf item = ident) xs")
    case None
    with Some assms show ?thesis by (simp add: storage_update_def storage_get_def)
  next
    case i: (Some i)
    then have "i < length xs" by (rule findIndex_less)
    then have "xs ! i \<in> set xs" by simp
    moreover from assms Some i have "x \<in> set (xs[i := u (xs ! i)])"
      by (simp add: storage_update_def storage_get_def)
    then have "x = u (xs ! i) \<or> x \<in> set xs"
      using set_update_subset_insert[of xs i "u (xs ! i)"] by auto
    ultimately show ?thesis using Some by (auto simp: storage_get_def)
  qed
qed

subsection \<open>The local fallback of \<^verbatim>\<open>updateStock\<close>\<close>

lemma updateStock_local:
  assumes "find (\<lambda>m. m_id m = ident) (storage_get (medicines st)) = Some medicine"
  shows "\<exists>arr. updateStock (Inl e) now ident quantity type st =
           Inr (Local (Some (medicine\<lparr>m_stock := max 0 (if type = ''add''
                                 then m_stock medicine + quantity
                                 else m_stock medicine - quantity), m_updatedAt := now\<rparr>)),
                st\<lparr>medicines := Some arr\<rparr>)
         \<and> find (\<lambda>m. m_id m = ident) arr =
             Some (medicine\<lparr>m_stock := max 0 (if type = ''add''
                                 then m_stock medicine + quantity
                                 else m_stock medicine - quantity), m_updatedAt := now\<rparr>)
         \<and> length arr = length (storage_get (medicines st))"
proof -
  let ?u = "\<lambda>old. old\<lparr>m_stock := max 0 (if type = ''add'' then m_stock medicine + quantity
                                 else m_stock medicine - quantity), m_updatedAt := now\<rparr>"
  have "\<And>y. m_id (?u y) = m_id y" by simp
  from storage_update_found[OF assms, of ?u] this
  obtain xs where "storage_update m_id (medicines st) ident ?u = (Some xs, Some (?u medicine))"
    "find (\<lambda>x. m_id x = ident) xs = Some (?u medicine)"
    "length xs = length (storage_get (medicines st))"
    by blast
  with assms show ?thesis
    by (auto simp: updateStock_def orLocal_def Let_def)
qed

lemma updateStock_unknown:
  "find (\<lambda>m. m_id m = ident) (storage_get (medicines st)) = None \<Longrightarrow>
     updateStock (Inl e) now ident quantity type st = Inl ''Medicine not found''"
  by (simp add: updateStock_def orLocal_def)

lemma post_stock_rejects:
  "quantity \<le> 0 \<or> \<not> isInteger quantity \<Longrightarrow>
     post_stock snow dbnow ident quantity type db =
       (Failed 400 ''Quantity must be a positive integer'', db)"
  by (auto simp: post_stock_def)

lemma post_stock_rejects_type:
  "0 < quantity \<Longrightarrow> isInteger quantity \<Longrightarrow> type \<noteq> ''add'' \<Longrightarrow> type \<noteq> ''subtract'' \<Longrightarrow>
     post_stock snow dbnow ident quantity type db =
       (Failed 400 (''Type must be '' @ [CHR 0x27] @ ''add'' @ [CHR 0x27] @ '' or '' @
                    [CHR 0x27] @ ''subtract'' @ [CHR 0x27]), db)"
  by (simp add: post_stock_def)

lemma post_stock_checked:
  assumes "0 < quantity" and "isInteger quantity" and "type = ''add'' \<or> type = ''subtract''"
  shows "fst (post_stock snow dbnow ident quantity type db) \<noteq>
           Failed 400 ''Quantity must be a positive integer'' \<and>
         fst (post_stock snow dbnow ident quantity type db) \<noteq>
           Failed 400 (''Type must be '' @ [CHR 0x27] @ ''add'' @ [CHR 0x27] @ '' or '' @
                       [CHR 0x27] @ ''subtract'' @ [CHR 0x27])"
proof (cases db)
  case None
  with assms show ?thesis by (auto simp: post_stock_def)
next
  case d: (Some d)
  show ?thesis
  proof (cases "single (filter (\<lambda>r. r_id r = ident) (meds d))")
    case None
    with assms d show ?thesis by (auto simp: post_stock_def)
  next
    case (Some medicine)
    let ?new = "if type = ''add'' then r_stock medicine + quantity
                else r_stock medicine - quantity"
    show ?thesis
    proof (cases "?new < 0")
      case True
      with assms d Some show ?thesis by (auto simp: post_stock_def Let_def)
    next
      case False
      let ?rows = "update_meds dbnow ident (\<lambda>r. r\<lparr>r_stock := ?new, r_updated := snow\<rparr>) (meds d)"
      show ?thesis
      proof (cases "single (filter (\<lambda>r. r_id r = ident) ?rows)")
        case None
        with assms d Some False show ?thesis by (auto simp: post_stock_def Let_def)
      next
        case r: (Some updatedMedicine)
        with assms d Some False show ?thesis by (auto simp: post_stock_def Let_def)
      qed
    qed
  qed
qed

text \<open>
  Claim C10. The two checks of a stock update are made by the remote handler only. The
  handler answers 400 \<^verbatim>\<open>Quantity must be a positive integer\<close> exactly when the quantity
  is zero, negative or not an integer, and 400 \<^verbatim>\<open>Type must be 'add' or 'subtract'\<close>
  exactly when the quantity passed and the type is neither of the two; in both cases it
  writes nothing. Whenever \<^verbatim>\<open>updateStock\<close> falls back to the local store and the
  medicine is there, any quantity (zero, negative, fractional) and any type are applied
  as they are: the stock becomes \<open>max 0 (stock + q)\<close> for \<^verbatim>\<open>'add'\<close> and
  \<open>max 0 (stock - q)\<close> for \<^verbatim>\<open>'subtract'\<close> and for every other type, so a negative
  quantity subtracted raises the stock.
\<close>

theorem local_updateStock_unvalidated:
  assumes "find (\<lambda>m. m_id m = ident) (storage_get (medicines st)) = Some medicine"
  shows "\<exists>arr medicine'.
           updateStock (Inl e :: string + 'r) now ident quantity type st =
             Inr (Local (Some medicine'), st\<lparr>medicines := Some arr\<rparr>) \<and>
           find (\<lambda>m. m_id m = ident) arr = Some medicine' \<and>
           m_stock medicine' =
             (if type = ''add'' then max 0 (m_stock medicine + quantity)
              else max 0 (m_stock medicine - quantity)) \<and>
           (quantity < 0 \<and> type = ''subtract'' \<longrightarrow> m_stock medicine' > m_stock medicine) \<and>
           (quantity \<le> 0 \<or> \<not> isInteger quantity \<longrightarrow>
              post_stock snow dbnow ident quantity type db =
                (Failed 400 ''Quantity must be a positive integer'', db)) \<and>
           (0 < quantity \<and> isInteger quantity \<and> type \<noteq> ''add'' \<and> type \<noteq> ''subtract'' \<longrightarrow>
              post_stock snow dbnow ident quantity type db =
                (Failed 400 (''Type must be '' @ [CHR 0x27] @ ''add'' @ [CHR 0x27] @ '' or '' @
                             [CHR 0x27] @ ''subtract'' @ [CHR 0x27]), db)) \<and>
           (0 < quantity \<and> isInteger quantity \<and> (type = ''add'' \<or> type = ''subtract'') \<longrightarrow>
              fst (post_stock snow dbnow ident quantity type db) \<noteq>
                Failed 400 ''Quantity must be a positive integer'' \<and>
              fst (post_stock snow dbnow ident quantity type db) \<noteq>
                Failed 400 (''Type must be '' @ [CHR 0x27] @ ''add'' @ [CHR 0x27] @ '' or '' @
                            [CHR 0x27] @ ''subtract'' @ [CHR 0x27]))"
proof -
  define medicine' where "medicine' =
    medicine\<lparr>m_stock := max 0 (if type = ''add'' then m_stock medicine + quantity
                               else m_stock medicine - quantity), m_updatedAt := now\<rparr>"
  from updateStock_local[OF assms, of "e" now quantity type]
  obtain arr where a: "updateStock (Inl e :: string + 'r) now ident quantity type st =
           Inr (Local (Some medicine'), st\<lparr>medicines := Some arr\<rparr>)"
     "find (\<lambda>m. m_id m = ident) arr = Some medicine'"
    unfolding medicine'_def by blast
  have s: "m_stock medicine' =
             (if type = ''add'' then max 0 (m_stock medicine + quantity)
              else max 0 (m_stock medicine - quantity))"
    by (simp add: medicine'_def)
  have n: "quantity < 0 \<and> type = ''subtract'' \<longrightarrow> m_stock medicine' > m_stock medicine"
    by (auto simp: medicine'_def max_def)
  have t: "0 < quantity \<and> isInteger quantity \<and> type \<noteq> ''add'' \<and> type \<noteq> ''subtract'' \<longrightarrow>
      post_stock snow dbnow ident quantity type db =
        (Failed 400 (''Type must be '' @ [CHR 0x27] @ ''add'' @ [CHR 0x27] @ '' or '' @
                     [CHR 0x27] @ ''subtract'' @ [CHR 0x27]), db)"
    using post_stock_rejects_type[of quantity type snow dbnow ident db] by blast
  have c: "0 < quantity \<and> isInteger quantity \<and> (type = ''add'' \<or> type = ''subtract'') \<longrightarrow>
      fst (post_stock snow dbnow ident quantity type db) \<noteq>
        Failed 400 ''Quantity must be a positive integer'' \<and>
      fst (post_stock snow dbnow ident quantity type db) \<noteq>
        Failed 400 (''Type must be '' @ [CHR 0x27] @ ''add'' @ [CHR 0x27] @ '' or '' @
                    [CHR 0x27] @ ''subtract'' @ [CHR 0x27])"
    using post_stock_checked[of quantity type snow dbnow ident db] by blast
  from a s n t c post_stock_rejects[of quantity snow dbnow ident type db] show ?thesis
    by blast
qed

theorem local_updateStock_unvalidated_witness:
  "find (\<lambda>m. m_id m = ''med_004'') (storage_get (medicines (initialData ''t0''))) =
     Some (sampleMedicines ! 3) \<and>
   (\<exists>arr medicine'.
      updateStock (Inl ''offline'' :: string + unit) ''t1'' ''med_004'' (- 5 / 2) ''subtract''
          (initialData ''t0'') =
        Inr (Local (Some medicine'), (initialData ''t0'')\<lparr>medicines := Some arr\<rparr>) \<and>
      find (\<lambda>m. m_id m = ''med_004'') arr = Some medicine' \<and>
      m_stock medicine' = 21 / 2 \<and>
      post_stock ''t2'' ''t3'' ''med_004'' (- 5 / 2) ''subtract'' None =
        (Failed 400 ''Quantity must be a positive integer'', None)) \<and>
   (\<exists>arr medicine'.
      updateStock (Inl ''offline'' :: string + unit) ''t1'' ''med_004'' 5 ''remove''
          (initialData ''t0'') =
        Inr (Local (Some medicine'), (initialData ''t0'')\<lparr>medicines := Some arr\<rparr>) \<and>
      find (\<lambda>m. m_id m = ''med_004'') arr = Some medicine' \<and>
      m_stock medicine' = 3 \<and>
      post_stock ''t2'' ''t3'' ''med_004'' 5 ''remove'' None =
        (Failed 400 (''Type must be '' @ [CHR 0x27] @ ''add'' @ [CHR 0x27] @ '' or '' @
                     [CHR 0x27] @ ''subtract'' @ [CHR 0x27]), None)) \<and>
   fst (post_stock ''t2'' ''t3'' ''med_004'' 5 ''subtract'' None) \<noteq>
     Failed 400 ''Quantity must be a positive integer'' \<and>
   fst (post_stock ''t2'' ''t3'' ''med_004'' 5 ''subtract'' None) \<noteq>
     Failed 400 (''Type must be '' @ [CHR 0x27] @ ''add'' @ [CHR 0x27] @ '' or '' @
                 [CHR 0x27] @ ''subtract'' @ [CHR 0x27])"
proof -
  have h: "find (\<lambda>m. m_id m = ''med_004'') (storage_get (medicines (initialData ''t0''))) =
     Some (sampleMedicines ! 3)"
    by (simp add: initialData_def storage_get_def sampleMedicines_def)
  have s: "m_stock (sampleMedicines ! 3) = 8"
    by (simp add: sampleMedicines_def)
  have i: "isInteger 5"
    by (simp add: isInteger_def)
  from local_updateStock_unvalidated[OF h, of "''offline''" "''t1''" "- 5 / 2" "''subtract''"
      "''t2''" "''t3''" None, where ?'r = unit] s
  have 1: "\<exists>arr medicine'.
      updateStock (Inl ''offline'' :: string + unit) ''t1'' ''med_004'' (- 5 / 2) ''subtract''
          (initialData ''t0'') =
        Inr (Local (Some medicine'), (initialData ''t0'')\<lparr>medicines := Some arr\<rparr>) \<and>
      find (\<lambda>m. m_id m = ''med_004'') arr = Some medicine' \<and>
      m_stock medicine' = 21 / 2 \<and>
      post_stock ''t2'' ''t3'' ''med_004'' (- 5 / 2) ''subtract'' None =
        (Failed 400 ''Quantity must be a positive integer'', None)"
    by (simp add: max_def) blast
  from local_updateStock_unvalidated[OF h, of "''offline''" "''t1''" 5 "''remove''"
      "''t2''" "''t3''" None, where ?'r = unit] s i
  have 2: "\<exists>arr medicine'.
      updateStock (Inl ''offline'' :: string + unit) ''t1'' ''med_004'' 5 ''remove''
          (initialData ''t0'') =
        Inr (Local (Some medicine'), (initialData ''t0'')\<lparr>medicines := Some arr\<rparr>) \<and>
      find (\<lambda>m. m_id m = ''med_004'') arr = Some medicine' \<and>
      m_stock medicine' = 3 \<and>
      post_stock ''t2'' ''t3'' ''med_004'' 5 ''remove'' None =
        (Failed 400 (''Type must be '' @ [CHR 0x27] @ ''add'' @ [CHR 0x27] @ '' or '' @
                     [CHR 0x27] @ ''subtract'' @ [CHR 0x27]), None)"
    by (simp add: max_def)
  from local_updateStock_unvalidated[OF h, of "''offline''" "''t1''" 5 "''subtract''"
      "''t2''" "''t3''" None, where ?'r = unit] i
  have 3: "fst (post_stock ''t2'' ''t3'' ''med_004'' 5 ''subtract'' None) \<noteq>
      Failed 400 ''Quantity must be a positive integer'' \<and>
    fst (post_stock ''t2'' ''t3'' ''med_004'' 5 ''subtract'' None) \<noteq>
      Failed 400 (''Type must be '' @ [CHR 0x27] @ ''add'' @ [CHR 0x27] @ '' or '' @
                  [CHR 0x27] @ ''subtract'' @ [CHR 0x27])"
    by simp blast
  from h 1 2 3 show ?thesis by (intro conjI) simp_all
qed


subsection \<open>Updates of an unknown id\<close>

text \<open>
  Claim C9. For the array under any key and an id none of its items has,
  \<^verbatim>\<open>LocalStorageManager.update\<close> returns \<^verbatim>\<open>null\<close> and leaves the array as it is (also when
  the key is missing). So, on the local-fallback path, \<^verbatim>\<open>updateMedicine\<close>,
  \<^verbatim>\<open>updatePrescriptionStatus\<close>, \<^verbatim>\<open>verifyPrescription\<close> and \<^verbatim>\<open>updateTicketStatus\<close> called with
  an unknown id return a result whose entity is \<^verbatim>\<open>null\<close>, throw nothing and leave the store
  unchanged.
\<close>

theorem update_unknown_id_returns_null:
  "((\<forall>x \<in> set (storage_get arr). idOf x \<noteq> ident) \<longrightarrow>
      storage_update idOf arr ident updates = (arr, None)) \<and>
   ((\<forall>m \<in> set (storage_get (medicines st)). m_id m \<noteq> ident) \<longrightarrow>
      updateMedicine (Inl e :: string + 'r) now ident form st = Inr (Local None, st)) \<and>
   ((\<forall>p \<in> set (storage_get (prescriptions st)). p_id p \<noteq> ident) \<longrightarrow>
      updatePrescriptionStatus (Inl e :: string + 'r) now ident status st = Inr (Local None, st) \<and>
      verifyPrescription (Inl e :: string + 'r) t1 t2 ident verification st = Inr (Local None, st)) \<and>
   ((\<forall>t \<in> set (storage_get (tickets st)). t_id t \<noteq> ident) \<longrightarrow>
      updateTicketStatus (Inl e :: string + 'r) now ident status st = Inr (Local None, st))"
  by (simp add: storage_update_unknown updateMedicine_def updatePrescriptionStatus_def
        verifyPrescription_def updateTicketStatus_def orLocal_def)

theorem update_unknown_id_returns_null_witness:
  "storage_update m_id (medicines (initialData ''t0'')) ''med_999''
       (\<lambda>old. old\<lparr>m_stock := 0\<rparr>) = (medicines (initialData ''t0''), None) \<and>
   updateMedicine (Inl ''offline'' :: string + unit) ''t1'' ''med_999''
       (MedicineForm.truncate (sampleMedicines ! 0)) (initialData ''t0'') =
     Inr (Local None, initialData ''t0'') \<and>
   updatePrescriptionStatus (Inl ''offline'' :: string + unit) ''t1'' ''med_999'' ''verified''
       (initialData ''t0'') = Inr (Local None, initialData ''t0'') \<and>
   verifyPrescription (Inl ''offline'' :: string + unit) ''t1'' ''t2'' ''med_999''
       \<lparr>v_approved = True, v_notes = None, v_verifiedBy = Some ''Current Pharmacist''\<rparr>
       (initialData ''t0'') = Inr (Local None, initialData ''t0'') \<and>
   updateTicketStatus (Inl ''offline'' :: string + unit) ''t1'' ''med_999'' ''resolved''
       (initialData ''t0'') = Inr (Local None, initialData ''t0'')"
proof -
  have m: "\<forall>m \<in> set (storage_get (medicines (initialData ''t0''))). m_id m \<noteq> ''med_999''"
    by (simp add: initialData_def storage_get_def sampleMedicines_def)
  have p: "\<forall>p \<in> set (storage_get (prescriptions (initialData ''t0''))). p_id p \<noteq> ''med_999''"
    by (simp add: initialData_def storage_get_def samplePrescriptions_def)
  have t: "\<forall>t \<in> set (storage_get (tickets (initialData ''t0''))). t_id t \<noteq> ''med_999''"
    by (simp add: initialData_def storage_get_def)
  from m p t
    update_unknown_id_returns_null[of "medicines (initialData ''t0'')" m_id "''med_999''"
      "\<lambda>old. old\<lparr>m_stock := 0\<rparr>" "initialData ''t0''" "''offline''" "''t1''"
      "MedicineForm.truncate (sampleMedicines ! 0)" "''verified''" "''t1''" "''t2''"
      "\<lparr>v_approved = True, v_notes = None, v_verifiedBy = Some ''Current Pharmacist''\<rparr>",
      where ?'r = unit]
    update_unknown_id_returns_null[of "tickets (initialData ''t0'')" t_id "''med_999''"
      id "initialData ''t0''" "''offline''" "''t1''"
      "MedicineForm.truncate (sampleMedicines ! 0)" "''resolved''" "''t1''" "''t2''"
      "\<lparr>v_approved = True, v_notes = None, v_verifiedBy = Some ''Current Pharmacist''\<rparr>",
      where ?'r = unit]
  show ?thesis by simp
qed

subsection \<open>The validator\<close>

lemma err_Nil: "err c msg = [] \<longleftrightarrow> \<not> c"
  by (simp add: err_def)

text \<open>The validator accepts the records of the repository's own test page.\<close>

lemma validateMedicine_accepts:
  "isValid (validateMedicine (\<lambda>s. None) 0
     \<lparr>md_name = Some ''Valid Medicine'', md_category = Some ''Valid'', md_strength = None,
      md_manufacturer = Some ''Valid'', md_stock = Some 10, md_minStock = None,
      md_maxStock = None, md_price = Some (599 / 100), md_expiryDate = None,
      md_batchNumber = None, md_location = None\<rparr>)"
  by (simp add: validateMedicine_def err_def shorter_def trim_def is_space_def isInteger_def)

lemma validateEmployee_accepts:
  "isValid (validateEmployee (\<lambda>s. None)
     \<lparr>ed_name = Some ''Test Employee'', ed_email = Some ''test@example.com'',
      ed_phone = Some ''+1234567890'', ed_role = Some ''Pharmacist'',
      ed_department = Some ''Pharmacy'', ed_salary = None, ed_hireDate = None\<rparr>)"
  by code_simp

lemma validatePrescription_accepts:
  "isValid (validatePrescription
     \<lparr>pd_patientName = Some ''Test Patient'', pd_patientAge = Some 30,
      pd_doctorName = Some ''Dr. Test'', pd_medicines = Some [''Test Medicine'']\<rparr>)"
  by code_simp

text \<open>
  Claim C6. For every field bag: \<^verbatim>\<open>validateMedicine\<close> answers \<^verbatim>\<open>isValid = false\<close> whenever
  \<^verbatim>\<open>minStock >= maxStock\<close>; \<^verbatim>\<open>validatePrescription\<close> whenever the medicines list is empty
  (or missing); \<^verbatim>\<open>validateEmployee\<close> whenever the email is missing or does not match the
  email pattern.
\<close>

theorem validators_reject:
  "(md_minStock m = Some lo \<and> md_maxStock m = Some hi \<and> lo \<ge> hi \<longrightarrow>
      \<not> isValid (validateMedicine parseDate now m)) \<and>
   (pd_medicines p = Some [] \<or> pd_medicines p = None \<longrightarrow>
      \<not> isValid (validatePrescription p)) \<and>
   ((case ed_email e of None \<Rightarrow> True | Some email \<Rightarrow> \<not> validateEmail email) \<longrightarrow>
      \<not> isValid (validateEmployee parseDate e))"
  by (auto simp: validateMedicine_def validatePrescription_def validateEmployee_def err_def
      split: option.splits)

theorem validators_reject_witness:
  "\<not> isValid (validateMedicine (\<lambda>s. None) 0
        \<lparr>md_name = Some ''Test'', md_category = Some ''Pain Relief'', md_strength = None,
         md_manufacturer = Some ''Acme'', md_stock = Some 10, md_minStock = Some 50,
         md_maxStock = Some 50, md_price = Some (999 / 100), md_expiryDate = None,
         md_batchNumber = None, md_location = None\<rparr>) \<and>
   \<not> isValid (validatePrescription
        \<lparr>pd_patientName = Some ''Test Patient'', pd_patientAge = Some 30,
         pd_doctorName = Some ''Dr. Test'', pd_medicines = Some []\<rparr>) \<and>
   \<not> validateEmail ''test.example.com'' \<and>
   \<not> isValid (validateEmployee (\<lambda>s. None)
        \<lparr>ed_name = Some ''Test Employee'', ed_email = Some ''test.example.com'',
         ed_phone = Some ''+1234567890'', ed_role = Some ''Pharmacist'',
         ed_department = Some ''Pharmacy'', ed_salary = None, ed_hireDate = None\<rparr>)"
proof -
  have e: "\<not> validateEmail ''test.example.com''"
    by code_simp
  from e
    validators_reject[of
      "\<lparr>md_name = Some ''Test'', md_category = Some ''Pain Relief'', md_strength = None,
         md_manufacturer = Some ''Acme'', md_stock = Some 10, md_minStock = Some 50,
         md_maxStock = Some 50, md_price = Some (999 / 100), md_expiryDate = None,
         md_batchNumber = None, md_location = None\<rparr>" 50 50 "\<lambda>s. None" 0
      "\<lparr>pd_patientName = Some ''Test Patient'', pd_patientAge = Some 30,
         pd_doctorName = Some ''Dr. Test'', pd_medicines = Some []\<rparr>"
      "\<lparr>ed_name = Some ''Test Employee'', ed_email = Some ''test.example.com'',
         ed_phone = Some ''+1234567890'', ed_role = Some ''Pharmacist'',
         ed_department = Some ''Pharmacy'', ed_salary = None, ed_hireDate = None\<rparr>"]
  show ?thesis by simp
qed

subsection \<open>Stocks stay non-negative\<close>

lemma update_meds_nonneg:
  assumes "\<forall>r \<in> set rows. 0 \<le> r_stock r" and "\<And>r. 0 \<le> r_stock (values r)"
  shows "\<forall>r \<in> set (update_meds dbnow ident values rows). 0 \<le> r_stock r"
  using assms by (auto simp: update_meds_def)

lemma sell_item_nonneg:
  assumes "\<forall>r \<in> set rows. 0 \<le> r_stock r"
  shows "\<forall>r \<in> set (sell_item dbnow item rows). 0 \<le> r_stock r"
proof (cases "single (filter (\<lambda>r. r_id r = si_medicineId item) rows)")
  case None
  with assms show ?thesis by (simp add: sell_item_def)
next
  case (Some medicine)
  show ?thesis
  proof (cases "0 \<le> r_stock medicine - si_quantity item")
    case True
    have "\<forall>r \<in> set (update_meds dbnow (si_medicineId item)
             (\<lambda>r. r\<lparr>r_stock := r_stock medicine - si_quantity item\<rparr>) rows). 0 \<le> r_stock r"
      using assms True by (intro update_meds_nonneg) simp_all
    with Some True show ?thesis by (simp add: sell_item_def)
  next
    case False
    with Some assms show ?thesis by (simp add: sell_item_def)
  qed
qed

lemma fold_sell_item_nonneg:
  "\<forall>r \<in> set rows. 0 \<le> r_stock r \<Longrightarrow>
     \<forall>r \<in> set (fold (sell_item dbnow) items rows). 0 \<le> r_stock r"
proof (induction items arbitrary: rows)
  case Nil
  then show ?case by simp
next
  case (Cons item items)
  from Cons.prems have "\<forall>r \<in> set (sell_item dbnow item rows). 0 \<le> r_stock r"
    by (rule sell_item_nonneg)
  then have "\<forall>r \<in> set (fold (sell_item dbnow) items (sell_item dbnow item rows)). 0 \<le> r_stock r"
    by (rule Cons.IH)
  then show ?case by simp
qed

lemma post_sales_nonneg:
  assumes "\<forall>r \<in> set (dbMeds db). 0 \<le> r_stock r"
  shows "\<forall>r \<in> set (dbMeds (snd (post_sales saleNumber uuid dbnow sale db))). 0 \<le> r_stock r"
proof (cases db)
  case None
  then show ?thesis by (simp add: post_sales_def dbMeds_def)
next
  case (Some d)
  with assms have "\<forall>r \<in> set (meds d). 0 \<le> r_stock r" by (simp add: dbMeds_def)
  then have "\<forall>r \<in> set (fold (sell_item dbnow) (s_items sale) (meds d)). 0 \<le> r_stock r"
    by (rule fold_sell_item_nonneg)
  with Some show ?thesis by (simp add: post_sales_def dbMeds_def Let_def)
qed

lemma post_stock_cases:
  "snd (post_stock snow dbnow ident quantity type db) = db \<or>
   (\<exists>d v. db = Some d \<and> 0 \<le> v \<and>
      snd (post_stock snow dbnow ident quantity type db) =
        Some (d\<lparr>meds := update_meds dbnow ident
                          (\<lambda>r. r\<lparr>r_stock := v, r_updated := snow\<rparr>) (meds d)\<rparr>))"
proof (cases db)
  case None
  then show ?thesis by (simp add: post_stock_def)
next
  case d: (Some d)
  show ?thesis
  proof (cases "single (filter (\<lambda>r. r_id r = ident) (meds d))")
    case None
    with d show ?thesis by (simp add: post_stock_def)
  next
    case (Some medicine)
    show ?thesis
    proof (cases "type = ''add''")
      case True
      show ?thesis
      proof (cases "r_stock medicine + quantity < 0")
        case neg: True
        with Some d True show ?thesis by (simp add: post_stock_def Let_def)
      next
        case False
        then have "0 \<le> r_stock medicine + quantity" by simp
        moreover have "snd (post_stock snow dbnow ident quantity type db) = db \<or>
          snd (post_stock snow dbnow ident quantity type db) =
            Some (d\<lparr>meds := update_meds dbnow ident
              (\<lambda>r. r\<lparr>r_stock := r_stock medicine + quantity, r_updated := snow\<rparr>) (meds d)\<rparr>)"
          using Some d True False by (simp add: post_stock_def Let_def split: option.split)
        ultimately show ?thesis using d by blast
      qed
    next
      case notadd: False
      show ?thesis
      proof (cases "r_stock medicine - quantity < 0")
        case True
        with Some d notadd show ?thesis by (simp add: post_stock_def Let_def)
      next
        case False
        then have "0 \<le> r_stock medicine - quantity" by simp
        moreover have "snd (post_stock snow dbnow ident quantity type db) = db \<or>
          snd (post_stock snow dbnow ident quantity type db) =
            Some (d\<lparr>meds := update_meds dbnow ident
              (\<lambda>r. r\<lparr>r_stock := r_stock medicine - quantity, r_updated := snow\<rparr>) (meds d)\<rparr>)"
          using Some d notadd False by (simp add: post_stock_def Let_def split: option.split)
        ultimately show ?thesis using d by blast
      qed
    qed
  qed
qed

lemma post_stock_nonneg:
  assumes "\<forall>r \<in> set (dbMeds db). 0 \<le> r_stock r"
  shows "\<forall>r \<in> set (dbMeds (snd (post_stock snow dbnow ident quantity type db))). 0 \<le> r_stock r"
  using post_stock_cases[of snow dbnow ident quantity type db]
proof (elim disjE exE conjE)
  assume "snd (post_stock snow dbnow ident quantity type db) = db"
  with assms show ?thesis by simp
next
  fix d v
  assume d: "db = Some d" and v: "0 \<le> v"
    and eq: "snd (post_stock snow dbnow ident quantity type db) =
        Some (d\<lparr>meds := update_meds dbnow ident
                          (\<lambda>r. r\<lparr>r_stock := v, r_updated := snow\<rparr>) (meds d)\<rparr>)"
  from assms d have "\<forall>r \<in> set (meds d). 0 \<le> r_stock r" by (simp add: dbMeds_def)
  then have "\<forall>r \<in> set (update_meds dbnow ident
                (\<lambda>r. r\<lparr>r_stock := v, r_updated := snow\<rparr>) (meds d)). 0 \<le> r_stock r"
    using v by (intro update_meds_nonneg) simp_all
  with eq show ?thesis by (simp add: dbMeds_def)
qed

lemma updateStock_nonneg:
  assumes inv: "\<forall>m \<in> set (storage_get (medicines st)). 0 \<le> m_stock m"
    and run: "updateStock be now ident quantity type st = Inr (served, st')"
  shows "\<forall>m \<in> set (storage_get (medicines st')). 0 \<le> m_stock m"
proof (cases be)
  case (Inr r)
  with run have "st' = st" by (simp add: updateStock_def orLocal_def)
  with inv show ?thesis by simp
next
  case (Inl e)
  show ?thesis
  proof (cases "find (\<lambda>m. m_id m = ident) (storage_get (medicines st))")
    case None
    with Inl run show ?thesis by (simp add: updateStock_def orLocal_def)
  next
    case (Some medicine)
    define v where "v = max 0 (if type = ''add'' then m_stock medicine + quantity
                               else m_stock medicine - quantity)"
    define u where "u = (\<lambda>old :: Medicine. old\<lparr>m_stock := v, m_updatedAt := now\<rparr>)"
    have v: "0 \<le> v" by (simp add: v_def)
    from Inl Some run
    have st': "st' = st\<lparr>medicines := fst (storage_update m_id (medicines st) ident u)\<rparr>"
      by (auto simp: updateStock_def orLocal_def Let_def u_def v_def split: prod.splits)
    show ?thesis
    proof
      fix m assume "m \<in> set (storage_get (medicines st'))"
      with st' have "m \<in> set (storage_get (fst (storage_update m_id (medicines st) ident u)))"
        by simp
      then have "m \<in> set (storage_get (medicines st))
                 \<or> (\<exists>y \<in> set (storage_get (medicines st)). m = u y)"
        by (rule storage_update_set)
      with inv v show "0 \<le> m_stock m" by (auto simp: u_def)
    qed
  qed
qed

lemma createSale_medicines:
  "createSale be gid now sale st = Inr (served, st') \<Longrightarrow> medicines st' = medicines st"
  by (cases be) (auto simp: createSale_def orLocal_def storage_add_def)

lemma viaBackend_remote:
  "remote (snd (viaBackend offline handler method sys)) =
     (case offline of Some msg \<Rightarrow> remote sys | None \<Rightarrow> snd (handler (remote sys)))"
  by (simp add: viaBackend_def Let_def split: option.split prod.split sum.split)

lemma viaBackend_browser:
  "browser (snd (viaBackend offline handler method sys)) = browser sys \<or>
   (\<exists>be served. method be (browser sys) =
      Inr (served, browser (snd (viaBackend offline handler method sys))))"
  by (simp add: viaBackend_def Let_def split: option.split prod.split sum.split) blast

lemma stockStep_nonneg:
  assumes inv: "stocksNonNegative sys"
  shows "stocksNonNegative (stockStep cop sys)"
proof -
  from inv have r: "\<forall>r \<in> set (dbMeds (remote sys)). 0 \<le> r_stock r"
    and l: "\<forall>m \<in> set (storage_get (medicines (browser sys))). 0 \<le> m_stock m"
    by (simp_all add: stocksNonNegative_def remoteMeds_def localMeds_def)
  obtain c op where cop: "cop = (c, op)" by (cases cop)
  show ?thesis
  proof (cases op)
    case (UpdateStock offline ident quantity type)
    let ?h = "post_stock (c_snow c) (c_dbnow c) ident quantity type"
    let ?m = "\<lambda>be. updateStock be (c_now c) ident quantity type"
    let ?sys = "snd (viaBackend offline ?h ?m sys)"
    have "\<forall>r \<in> set (dbMeds (remote ?sys)). 0 \<le> r_stock r"
      using r post_stock_nonneg[OF r, of "c_snow c" "c_dbnow c" ident quantity type]
      by (simp add: viaBackend_remote split: option.split)
    moreover have "\<forall>m \<in> set (storage_get (medicines (browser ?sys))). 0 \<le> m_stock m"
      using viaBackend_browser[of offline ?h ?m sys] l updateStock_nonneg[OF l] by metis
    ultimately show ?thesis
      using cop UpdateStock
      by (simp add: stocksNonNegative_def remoteMeds_def localMeds_def call_updateStock_def)
  next
    case (CreateSale offline sale)
    let ?h = "post_sales (c_saleNumber c) (c_uuid c) (c_dbnow c)
                (newSale (c_id c) (c_now c) sale)"
    let ?m = "\<lambda>be. createSale be (c_id c) (c_now c) sale"
    let ?sys = "snd (viaBackend offline ?h ?m sys)"
    have "\<forall>r \<in> set (dbMeds (remote ?sys)). 0 \<le> r_stock r"
      using r post_sales_nonneg[OF r, of "c_saleNumber c" "c_uuid c" "c_dbnow c"
                "newSale (c_id c) (c_now c) sale"]
      by (simp add: viaBackend_remote split: option.split)
    moreover have "medicines (browser ?sys) = medicines (browser sys)"
      using viaBackend_browser[of offline ?h ?m sys] createSale_medicines by metis
    ultimately show ?thesis
      using cop CreateSale l
      by (simp add: stocksNonNegative_def remoteMeds_def localMeds_def call_createSale_def)
  next
    case (StockEndpoint ident quantity type)
    with cop l post_stock_nonneg[OF r, of "c_snow c" "c_dbnow c" ident quantity type]
    show ?thesis
      by (simp add: stocksNonNegative_def remoteMeds_def localMeds_def)
  next
    case (SalesEndpoint sale)
    with cop l post_sales_nonneg[OF r, of "c_saleNumber c" "c_uuid c" "c_dbnow c" sale]
    show ?thesis
      by (simp add: stocksNonNegative_def remoteMeds_def localMeds_def)
  qed
qed

lemma fold_stockStep_nonneg:
  "stocksNonNegative sys \<Longrightarrow> stocksNonNegative (fold stockStep ops sys)"
  by (induction ops arbitrary: sys) (simp_all add: stockStep_nonneg)

text \<open>
  Claim C5. No stock is negative after any operation of any sequence of stock-writing
  operations (the stock endpoint, the creation of a sale, and their local fallbacks), on
  a system whose stocks are not negative to begin with: the invariant holds after every
  prefix of the sequence, for every medicine of the hosted store and of the local store.
\<close>

theorem stock_never_negative:
  assumes "stocksNonNegative sys"
  shows "\<forall>k \<le> length ops. stocksNonNegative (fold stockStep (take k ops) sys)"
  using assms by (simp add: fold_stockStep_nonneg)

lemma sampleSystem_nonneg: "stocksNonNegative sampleSystem"
  by (simp add: stocksNonNegative_def sampleSystem_def remoteMeds_def dbMeds_def localMeds_def
      initialData_def storage_get_def sampleMeds_def sampleMedicines_def)

theorem stock_never_negative_witness:
  "stocksNonNegative sampleSystem \<and>
   stocksNonNegative
     (fold stockStep
        (take 3
          [(sampleCtx, UpdateStock None ''00000000-0000-4000-8000-000000000002'' 40 ''subtract''),
           (sampleCtx, UpdateStock (Some ''Failed to fetch'') ''med_005'' 9 ''subtract''),
           (sampleCtx, StockEndpoint ''00000000-0000-4000-8000-000000000001'' 150 ''subtract'')])
        sampleSystem)"
proof -
  let ?ops = "[(sampleCtx, UpdateStock None ''00000000-0000-4000-8000-000000000002'' 40 ''subtract''),
               (sampleCtx, UpdateStock (Some ''Failed to fetch'') ''med_005'' 9 ''subtract''),
               (sampleCtx, StockEndpoint ''00000000-0000-4000-8000-000000000001'' 150 ''subtract'')]"
  have "3 \<le> length ?ops" by simp
  with stock_never_negative[OF sampleSystem_nonneg, of ?ops]
  have "stocksNonNegative (fold stockStep (take 3 ?ops) sampleSystem)" by blast
  with sampleSystem_nonneg show ?thesis by (intro conjI)
qed

lemma stock_sequence_example:
  "map r_stock (remoteMeds
     (fold stockStep
        [(sampleCtx, UpdateStock None ''00000000-0000-4000-8000-000000000002'' 40 ''subtract''),
         (sampleCtx, UpdateStock (Some ''Failed to fetch'') ''med_005'' 9 ''subtract''),
         (sampleCtx, StockEndpoint ''00000000-0000-4000-8000-000000000001'' 150 ''subtract'')]
        sampleSystem)) = [0, 25] \<and>
   map m_stock (localMeds
     (fold stockStep
        [(sampleCtx, UpdateStock None ''00000000-0000-4000-8000-000000000002'' 40 ''subtract''),
         (sampleCtx, UpdateStock (Some ''Failed to fetch'') ''med_005'' 9 ''subtract''),
         (sampleCtx, StockEndpoint ''00000000-0000-4000-8000-000000000001'' 150 ''subtract'')]
        sampleSystem)) = [150, 25, 200, 8, 0]"
  by code_simp


subsection \<open>The stock endpoint and its fallback\<close>

lemma single_Some: "single rows = Some r \<longleftrightarrow> rows = [r]"
  by (cases rows rule: list.exhaust[case_product list.exhaust, of _ "tl rows"])
     (auto simp: single_def split: list.splits)

lemma filter_update_meds:
  assumes "\<And>r. r_id (values r) = r_id r"
  shows "filter (\<lambda>r. r_id r = i) (update_meds dbnow ident values rows) =
         map (\<lambda>r. if r_id r = ident then (values r)\<lparr>r_updated := dbnow\<rparr> else r)
           (filter (\<lambda>r. r_id r = i) rows)"
  using assms by (induction rows) (auto simp: update_meds_def)

lemma post_stock_insufficient:
  assumes "0 < quantity" and "isInteger quantity"
    and "single (filter (\<lambda>r. r_id r = ident) (meds d)) = Some row"
    and "r_stock row < quantity"
  shows "post_stock snow dbnow ident quantity ''subtract'' (Some d) =
           (Failed 400 ''Insufficient stock'', Some d)"
  using assms by (simp add: post_stock_def)

lemma post_stock_subtracts:
  assumes "0 < quantity" and "isInteger quantity"
    and "single (filter (\<lambda>r. r_id r = ident) (meds d)) = Some row"
    and "quantity \<le> r_stock row"
  shows "post_stock snow dbnow ident quantity ''subtract'' (Some d) =
           (Ok (transformedMedicine (row\<lparr>r_stock := r_stock row - quantity, r_updated := dbnow\<rparr>)),
            Some (d\<lparr>meds := update_meds dbnow ident
                    (\<lambda>r. r\<lparr>r_stock := r_stock row - quantity, r_updated := snow\<rparr>) (meds d)\<rparr>))"
    and "single (filter (\<lambda>r. r_id r = ident)
           (update_meds dbnow ident
              (\<lambda>r. r\<lparr>r_stock := r_stock row - quantity, r_updated := snow\<rparr>) (meds d))) =
         Some (row\<lparr>r_stock := r_stock row - quantity, r_updated := dbnow\<rparr>)"
proof -
  from assms(3) have f: "filter (\<lambda>r. r_id r = ident) (meds d) = [row]"
    by (simp add: single_Some)
  then have "row \<in> set (filter (\<lambda>r. r_id r = ident) (meds d))" by simp
  then have i: "r_id row = ident" by simp
  have "filter (\<lambda>r. r_id r = ident)
          (update_meds dbnow ident
             (\<lambda>r. r\<lparr>r_stock := r_stock row - quantity, r_updated := snow\<rparr>) (meds d)) =
        [row\<lparr>r_stock := r_stock row - quantity, r_updated := dbnow\<rparr>]"
    using f i by (simp add: filter_update_meds)
  then show s: "single (filter (\<lambda>r. r_id r = ident)
           (update_meds dbnow ident
              (\<lambda>r. r\<lparr>r_stock := r_stock row - quantity, r_updated := snow\<rparr>) (meds d))) =
         Some (row\<lparr>r_stock := r_stock row - quantity, r_updated := dbnow\<rparr>)"
    by (simp add: single_def)
  from assms s show "post_stock snow dbnow ident quantity ''subtract'' (Some d) =
           (Ok (transformedMedicine (row\<lparr>r_stock := r_stock row - quantity, r_updated := dbnow\<rparr>)),
            Some (d\<lparr>meds := update_meds dbnow ident
                    (\<lambda>r. r\<lparr>r_stock := r_stock row - quantity, r_updated := snow\<rparr>) (meds d)\<rparr>))"
    by (simp add: post_stock_def Let_def)
qed

text \<open>
  Claim C1. For a positive integer quantity \<open>q\<close> subtracted from a medicine whose stock
  is \<open>stock_before\<close>: the local fallback stores \<open>max 0 (stock_before - q)\<close> and reports
  no error; the remote handler answers 400 \<^verbatim>\<open>Insufficient stock\<close> and writes nothing when
  \<open>q > stock_before\<close>, and stores \<open>stock_before - q\<close> (which is
  \<open>max 0 (stock_before - q)\<close> there) otherwise.
\<close>

theorem updateStock_subtract_contract:
  assumes "0 < quantity" and "isInteger quantity"
  shows
    "(find (\<lambda>m. m_id m = ident) (storage_get (medicines st)) = Some medicine \<longrightarrow>
        (\<exists>arr medicine'.
           updateStock (Inl e :: string + 'r) now ident quantity ''subtract'' st =
             Inr (Local (Some medicine'), st\<lparr>medicines := Some arr\<rparr>) \<and>
           find (\<lambda>m. m_id m = ident) arr = Some medicine' \<and>
           m_stock medicine' = max 0 (m_stock medicine - quantity))) \<and>
     (single (filter (\<lambda>r. r_id r = uuid) (meds d)) = Some row \<longrightarrow>
        (if quantity > r_stock row
         then post_stock snow dbnow uuid quantity ''subtract'' (Some d) =
                (Failed 400 ''Insufficient stock'', Some d)
         else (\<exists>d' row'.
                 post_stock snow dbnow uuid quantity ''subtract'' (Some d) =
                   (Ok (transformedMedicine row'), Some d') \<and>
                 single (filter (\<lambda>r. r_id r = uuid) (meds d')) = Some row' \<and>
                 r_stock row' = r_stock row - quantity \<and>
                 r_stock row' = max 0 (r_stock row - quantity))))"
proof (intro conjI impI)
  assume f: "find (\<lambda>m. m_id m = ident) (storage_get (medicines st)) = Some medicine"
  define medicine' where
    "medicine' = medicine\<lparr>m_stock := max 0 (m_stock medicine - quantity), m_updatedAt := now\<rparr>"
  from updateStock_local[OF f, of "e" now quantity "''subtract''"]
  obtain arr where
    "updateStock (Inl e :: string + 'r) now ident quantity ''subtract'' st =
       Inr (Local (Some medicine'), st\<lparr>medicines := Some arr\<rparr>)"
    "find (\<lambda>m. m_id m = ident) arr = Some medicine'"
    unfolding medicine'_def by auto
  moreover have "m_stock medicine' = max 0 (m_stock medicine - quantity)"
    by (simp add: medicine'_def)
  ultimately show "\<exists>arr medicine'.
           updateStock (Inl e :: string + 'r) now ident quantity ''subtract'' st =
             Inr (Local (Some medicine'), st\<lparr>medicines := Some arr\<rparr>) \<and>
           find (\<lambda>m. m_id m = ident) arr = Some medicine' \<and>
           m_stock medicine' = max 0 (m_stock medicine - quantity)"
    by blast
next
  assume s: "single (filter (\<lambda>r. r_id r = uuid) (meds d)) = Some row"
  show "if quantity > r_stock row
         then post_stock snow dbnow uuid quantity ''subtract'' (Some d) =
                (Failed 400 ''Insufficient stock'', Some d)
         else (\<exists>d' row'.
                 post_stock snow dbnow uuid quantity ''subtract'' (Some d) =
                   (Ok (transformedMedicine row'), Some d') \<and>
                 single (filter (\<lambda>r. r_id r = uuid) (meds d')) = Some row' \<and>
                 r_stock row' = r_stock row - quantity \<and>
                 r_stock row' = max 0 (r_stock row - quantity))"
  proof (cases "quantity > r_stock row")
    case True
    with post_stock_insufficient[OF assms s] show ?thesis by simp
  next
    case False
    then have le: "quantity \<le> r_stock row" by simp
    let ?row = "row\<lparr>r_stock := r_stock row - quantity, r_updated := dbnow\<rparr>"
    let ?d = "d\<lparr>meds := update_meds dbnow uuid
                    (\<lambda>r. r\<lparr>r_stock := r_stock row - quantity, r_updated := snow\<rparr>) (meds d)\<rparr>"
    from post_stock_subtracts[OF assms s le, where snow = snow and dbnow = dbnow]
    have "post_stock snow dbnow uuid quantity ''subtract'' (Some d) =
            (Ok (transformedMedicine ?row), Some ?d)"
      and "single (filter (\<lambda>r. r_id r = uuid) (meds ?d)) = Some ?row"
      by simp_all
    moreover from le have "r_stock ?row = r_stock row - quantity"
      and "r_stock ?row = max 0 (r_stock row - quantity)"
      by simp_all
    ultimately show ?thesis using False by (simp only: if_False) blast
  qed
qed

theorem updateStock_subtract_contract_witness:
  "(0 :: rat) < 10 \<and> isInteger 10 \<and>
   find (\<lambda>m. m_id m = ''med_004'') (storage_get (medicines (initialData ''t0''))) =
     Some (sampleMedicines ! 3) \<and>
   (\<exists>arr medicine'.
      updateStock (Inl ''offline'' :: string + unit) ''t1'' ''med_004'' 10 ''subtract''
          (initialData ''t0'') =
        Inr (Local (Some medicine'), (initialData ''t0'')\<lparr>medicines := Some arr\<rparr>) \<and>
      find (\<lambda>m. m_id m = ''med_004'') arr = Some medicine' \<and>
      m_stock medicine' = 0) \<and>
   single (filter (\<lambda>r. r_id r = ''00000000-0000-4000-8000-000000000002'') (meds \<lparr>meds = sampleMeds, db_sales = []\<rparr>)) =
     Some (sampleMeds ! 1) \<and>
   (\<exists>d' row'.
      post_stock ''t2'' ''t3'' ''00000000-0000-4000-8000-000000000002'' 10 ''subtract''
          (Some \<lparr>meds = sampleMeds, db_sales = []\<rparr>) =
        (Ok (transformedMedicine row'), Some d') \<and>
      single (filter (\<lambda>r. r_id r = ''00000000-0000-4000-8000-000000000002'') (meds d')) = Some row' \<and>
      r_stock row' = 15)"
proof -
  have q: "(0 :: rat) < 10" "isInteger 10"
    by (simp_all add: isInteger_def)
  have f: "find (\<lambda>m. m_id m = ''med_004'') (storage_get (medicines (initialData ''t0''))) =
     Some (sampleMedicines ! 3)"
    by (simp add: initialData_def storage_get_def sampleMedicines_def)
  have s: "single (filter (\<lambda>r. r_id r = ''00000000-0000-4000-8000-000000000002'') (meds \<lparr>meds = sampleMeds, db_sales = []\<rparr>)) =
     Some (sampleMeds ! 1)"
    by (simp add: sampleMeds_def single_def)
  have v: "m_stock (sampleMedicines ! 3) = 8" "r_stock (sampleMeds ! 1) = 25"
    by (simp_all add: sampleMedicines_def sampleMeds_def)
  from updateStock_subtract_contract[OF q, where ident = "''med_004''"
      and st = "initialData ''t0''" and medicine = "sampleMedicines ! 3" and e = "''offline''"
      and now = "''t1''" and uuid = "''00000000-0000-4000-8000-000000000002''" and d = "\<lparr>meds = sampleMeds, db_sales = []\<rparr>"
      and row = "sampleMeds ! 1" and snow = "''t2''" and dbnow = "''t3''", where ?'r = unit]
    f s v
  have "(\<exists>arr medicine'.
      updateStock (Inl ''offline'' :: string + unit) ''t1'' ''med_004'' 10 ''subtract''
          (initialData ''t0'') =
        Inr (Local (Some medicine'), (initialData ''t0'')\<lparr>medicines := Some arr\<rparr>) \<and>
      find (\<lambda>m. m_id m = ''med_004'') arr = Some medicine' \<and>
      m_stock medicine' = 0) \<and>
   (\<exists>d' row'.
      post_stock ''t2'' ''t3'' ''00000000-0000-4000-8000-000000000002'' 10 ''subtract''
          (Some \<lparr>meds = sampleMeds, db_sales = []\<rparr>) =
        (Ok (transformedMedicine row'), Some d') \<and>
      single (filter (\<lambda>r. r_id r = ''00000000-0000-4000-8000-000000000002'') (meds d')) = Some row' \<and>
      r_stock row' = 15)"
    by simp
  with q f s show ?thesis by simp
qed

text \<open>
  What the browser's call does when the handler reports insufficient stock: the error is
  caught like any other and the call falls back to the local store, where the id of the
  hosted row is unknown here, so the call throws \<^verbatim>\<open>Medicine not found\<close>.
\<close>

lemma call_updateStock_insufficient_example:
  "call_updateStock None sampleCtx ''00000000-0000-4000-8000-000000000002'' 40 ''subtract'' sampleSystem =
     (Inl ''Medicine not found'', sampleSystem)"
  by code_simp


subsection \<open>Deleting a medicine\<close>

lemma update_meds_map:
  "update_meds dbnow ident values rows =
     map (\<lambda>r. if r_id r = ident then (values r)\<lparr>r_updated := dbnow\<rparr> else r) rows"
  by (simp add: update_meds_def)

lemma mv_id_transformedMedicine: "mv_id (transformedMedicine r) = r_id r"
  by (simp add: transformedMedicine_def)

lemma deleted_not_listed:
  assumes "v \<in> set (map transformedMedicine (sort_key r_name (filter r_active
        (map (\<lambda>r. if r_id r = ident then r\<lparr>r_active := False, r_updated := dbnow\<rparr> else r) rows))))"
  shows "mv_id v \<noteq> ident"
proof -
  let ?f = "\<lambda>r. if r_id r = ident then r\<lparr>r_active := False, r_updated := dbnow\<rparr> else r"
  from assms obtain r where r: "r \<in> set (map ?f rows)" "r_active r" "v = transformedMedicine r"
    by (auto simp only: set_map set_sort set_filter)
  from r(1) have "r \<in> ?f ` set rows" by (simp only: set_map)
  then obtain r0 where r0: "r = ?f r0" by (rule imageE)
  have "r_id r \<noteq> ident"
  proof (cases "r_id r0 = ident")
    case True
    with r0 have "\<not> r_active r" by simp
    with r(2) show ?thesis by simp
  next
    case False
    with r0 show ?thesis by simp
  qed
  with r(3) show ?thesis by (simp add: mv_id_transformedMedicine)
qed

lemma storage_delete_medicines:
  "fst (storage_delete m_id arr ident) = map_option (filter (\<lambda>m. m_id m \<noteq> ident)) arr"
  by (cases arr) (simp_all add: storage_delete_def)

lemma deleteMedicine_local:
  "deleteMedicine (Inl e) ident st =
     Inr (Local True, st\<lparr>medicines := map_option (filter (\<lambda>m. m_id m \<noteq> ident)) (medicines st)\<rparr>)"
  by (cases "medicines st") (simp_all add: deleteMedicine_def orLocal_def storage_delete_def)

lemma delete_medicines_uuid:
  "uuid_in ident = Inr u \<Longrightarrow>
     delete_medicines dbnow ident (Some d) =
       (Ok True,
        Some (d\<lparr>meds :=
          map (\<lambda>r. if r_id r = u then r\<lparr>r_active := False, r_updated := dbnow\<rparr> else r)
            (meds d)\<rparr>))"
  by (simp add: delete_medicines_def update_meds_map)

lemma delete_medicines_rejects:
  "uuid_in ident = Inl error \<Longrightarrow>
     delete_medicines dbnow ident (Some d) =
       (Failed (if isTableMissingError error then 400 else 500)
          ''Database not initialized with simplified schema'', Some d)"
  by (simp add: delete_medicines_def)

lemma call_deleteMedicine_rejected:
  assumes "delete_medicines (c_dbnow c) ident (remote sys) = (Failed status msg, remote sys)"
  shows "call_deleteMedicine None c ident sys =
           (Inr (Local True),
            \<lparr>remote = remote sys,
             browser = (browser sys)\<lparr>medicines :=
               map_option (filter (\<lambda>m. m_id m \<noteq> ident)) (medicines (browser sys))\<rparr>\<rparr>)"
  using assms
  by (simp add: call_deleteMedicine_def viaBackend_def tryBackend_def deleteMedicine_local)

text \<open>
  Claim C8, as amended. The handler serves \<^verbatim>\<open>deleteMedicine\<close> when the hosted store has
  the schema and the id is the text of a UUID, the type of \<^verbatim>\<open>meds.id\<close>. It then keeps every
  row: it sets the \<^verbatim>\<open>active\<close> flag of the row with the id to false, the store's update
  trigger sets that row's \<^verbatim>\<open>updated\<close> to the time of the statement, every other field and
  every other row stays as it was, the local store is not touched, and \<^verbatim>\<open>GET /medicines\<close>
  no longer lists the id. For an id that is no UUID the statement fails: the handler
  answers with an error and writes nothing, and the client falls back, as it does when
  the hosted store has no schema. On the local-fallback path, whatever made the remote
  call fail, the items with the id are removed from the \<^verbatim>\<open>medicines\<close> array and the other
  arrays of the local store stay as they were.
\<close>

theorem deleteMedicine_soft_remote_hard_local:
  "(remote sys = Some d \<and> uuid_in ident = Inr u \<longrightarrow>
      call_deleteMedicine None c ident sys =
        (Inr (Remote True),
         \<lparr>remote = Some (d\<lparr>meds :=
              map (\<lambda>r. if r_id r = u then r\<lparr>r_active := False, r_updated := c_dbnow c\<rparr> else r)
                (meds d)\<rparr>),
          browser = browser sys\<rparr>) \<and>
      (\<exists>views. get_medicines (remote (snd (call_deleteMedicine None c ident sys))) =
                  Ok (views, ''ready'') \<and>
               (\<forall>v \<in> set views. mv_id v \<noteq> u))) \<and>
   (remote sys = None \<or> (\<exists>error. uuid_in ident = Inl error) \<longrightarrow>
      call_deleteMedicine None c ident sys =
        (Inr (Local True),
         \<lparr>remote = remote sys,
          browser = (browser sys)\<lparr>medicines :=
            map_option (filter (\<lambda>m. m_id m \<noteq> ident)) (medicines (browser sys))\<rparr>\<rparr>)) \<and>
   deleteMedicine (Inl e :: string + bool) ident st =
     Inr (Local True,
          st\<lparr>medicines := map_option (filter (\<lambda>m. m_id m \<noteq> ident)) (medicines st)\<rparr>) \<and>
   (\<forall>m \<in> set (storage_get (medicines (storeAfter
        (deleteMedicine (Inl e :: string + bool) ident st) st))). m_id m \<noteq> ident)"
proof (intro conjI impI)
  assume "remote sys = Some d \<and> uuid_in ident = Inr u"
  then have d: "remote sys = Some d" and u: "uuid_in ident = Inr u" by simp_all
  from d delete_medicines_uuid[OF u, of "c_dbnow c" d]
  show r: "call_deleteMedicine None c ident sys =
        (Inr (Remote True),
         \<lparr>remote = Some (d\<lparr>meds :=
              map (\<lambda>r. if r_id r = u then r\<lparr>r_active := False, r_updated := c_dbnow c\<rparr> else r)
                (meds d)\<rparr>),
          browser = browser sys\<rparr>)"
    by (simp add: call_deleteMedicine_def viaBackend_def tryBackend_def deleteMedicine_def
        orLocal_def)
  show "\<exists>views. get_medicines (remote (snd (call_deleteMedicine None c ident sys))) =
                  Ok (views, ''ready'') \<and>
               (\<forall>v \<in> set views. mv_id v \<noteq> u)"
    unfolding r using deleted_not_listed[of _ u "c_dbnow c" "meds d"]
    by (simp add: get_medicines_def)
next
  assume a: "remote sys = None \<or> (\<exists>error. uuid_in ident = Inl error)"
  show "call_deleteMedicine None c ident sys =
        (Inr (Local True),
         \<lparr>remote = remote sys,
          browser = (browser sys)\<lparr>medicines :=
            map_option (filter (\<lambda>m. m_id m \<noteq> ident)) (medicines (browser sys))\<rparr>\<rparr>)"
  proof (cases "remote sys")
    case None
    then have "delete_medicines (c_dbnow c) ident (remote sys) =
        (Failed 400 ''Database not initialized with simplified schema'', remote sys)"
      by (simp add: delete_medicines_def)
    then show ?thesis by (rule call_deleteMedicine_rejected)
  next
    case (Some d')
    with a obtain error where "uuid_in ident = Inl error" by auto
    from delete_medicines_rejects[OF this, of "c_dbnow c" d'] Some
    have "delete_medicines (c_dbnow c) ident (remote sys) =
        (Failed (if isTableMissingError error then 400 else 500)
           ''Database not initialized with simplified schema'', remote sys)"
      by simp
    then show ?thesis by (rule call_deleteMedicine_rejected)
  qed
next
  show l: "deleteMedicine (Inl e :: string + bool) ident st =
     Inr (Local True,
          st\<lparr>medicines := map_option (filter (\<lambda>m. m_id m \<noteq> ident)) (medicines st)\<rparr>)"
    by (rule deleteMedicine_local)
  show "\<forall>m \<in> set (storage_get (medicines (storeAfter
        (deleteMedicine (Inl e :: string + bool) ident st) st))). m_id m \<noteq> ident"
    unfolding l by (cases "medicines st") (simp_all add: storeAfter_def storage_get_def)
qed

theorem deleteMedicine_soft_remote_hard_local_witness:
  "remote sampleSystem = Some \<lparr>meds = sampleMeds, db_sales = []\<rparr> \<and>
   uuid_in ''00000000-0000-4000-8000-000000000001'' =
     Inr ''00000000-0000-4000-8000-000000000001'' \<and>
   call_deleteMedicine None sampleCtx ''00000000-0000-4000-8000-000000000001'' sampleSystem =
     (Inr (Remote True),
      \<lparr>remote = Some (\<lparr>meds = sampleMeds, db_sales = []\<rparr>\<lparr>meds :=
           map (\<lambda>r. if r_id r = ''00000000-0000-4000-8000-000000000001''
                     then r\<lparr>r_active := False, r_updated := c_dbnow sampleCtx\<rparr> else r)
             (meds \<lparr>meds = sampleMeds, db_sales = []\<rparr>)\<rparr>),
       browser = browser sampleSystem\<rparr>) \<and>
   uuid_in ''med_002'' =
     Inl \<lparr>pg_code = ''22P02'',
          pg_message = ''invalid input syntax for type uuid: '' @ quoted ''med_002''\<rparr> \<and>
   call_deleteMedicine None sampleCtx ''med_002'' sampleSystem =
     (Inr (Local True),
      \<lparr>remote = remote sampleSystem,
       browser = (browser sampleSystem)\<lparr>medicines :=
         map_option (filter (\<lambda>m. m_id m \<noteq> ''med_002'')) (medicines (browser sampleSystem))\<rparr>\<rparr>)"
proof -
  have r: "remote sampleSystem = Some \<lparr>meds = sampleMeds, db_sales = []\<rparr>"
    by (simp add: sampleSystem_def)
  have u: "uuid_in ''00000000-0000-4000-8000-000000000001'' =
      Inr ''00000000-0000-4000-8000-000000000001''"
    by code_simp
  have n: "uuid_in ''med_002'' =
      Inl \<lparr>pg_code = ''22P02'',
           pg_message = ''invalid input syntax for type uuid: '' @ quoted ''med_002''\<rparr>"
    by code_simp
  from r u
    deleteMedicine_soft_remote_hard_local[where sys = sampleSystem
      and d = "\<lparr>meds = sampleMeds, db_sales = []\<rparr>" and c = sampleCtx
      and ident = "''00000000-0000-4000-8000-000000000001''"
      and u = "''00000000-0000-4000-8000-000000000001''"]
  have 1: "call_deleteMedicine None sampleCtx ''00000000-0000-4000-8000-000000000001''
        sampleSystem =
     (Inr (Remote True),
      \<lparr>remote = Some (\<lparr>meds = sampleMeds, db_sales = []\<rparr>\<lparr>meds :=
           map (\<lambda>r. if r_id r = ''00000000-0000-4000-8000-000000000001''
                     then r\<lparr>r_active := False, r_updated := c_dbnow sampleCtx\<rparr> else r)
             (meds \<lparr>meds = sampleMeds, db_sales = []\<rparr>)\<rparr>),
       browser = browser sampleSystem\<rparr>)"
    by blast
  from n
    deleteMedicine_soft_remote_hard_local[where sys = sampleSystem and c = sampleCtx
      and ident = "''med_002''"]
  have 2: "call_deleteMedicine None sampleCtx ''med_002'' sampleSystem =
     (Inr (Local True),
      \<lparr>remote = remote sampleSystem,
       browser = (browser sampleSystem)\<lparr>medicines :=
         map_option (filter (\<lambda>m. m_id m \<noteq> ''med_002'')) (medicines (browser sampleSystem))\<rparr>\<rparr>)"
    by blast
  from r u 1 n 2 show ?thesis by (intro conjI)
qed

text \<open>
  The claim as stated fails in two ways. On the first row of the sample store more than
  the \<^verbatim>\<open>active\<close> flag changes: after the deletion its \<^verbatim>\<open>updated\<close> column holds the time
  of the statement. And for \<^verbatim>\<open>med_001\<close>, an id of the local store and no UUID, the
  handler answers with an error, the hosted rows stay as they were, and the client
  removes the medicine from the local array.
\<close>

theorem remote_delete_touches_updated:
  "map r_updated (remoteMeds sampleSystem) =
     [''2025-01-01T00:00:00Z'', ''2025-01-01T00:00:00Z''] \<and>
   map r_updated (remoteMeds (snd (call_deleteMedicine None sampleCtx
     ''00000000-0000-4000-8000-000000000001'' sampleSystem))) =
     [''2025-01-09T10:00:00.200Z'', ''2025-01-01T00:00:00Z''] \<and>
   remoteMeds (snd (call_deleteMedicine None sampleCtx
     ''00000000-0000-4000-8000-000000000001'' sampleSystem)) \<noteq>
     map (\<lambda>r. if r_id r = ''00000000-0000-4000-8000-000000000001''
               then r\<lparr>r_active := False\<rparr> else r) (remoteMeds sampleSystem) \<and>
   fst (delete_medicines ''2025-01-09T10:00:00.200Z'' ''med_001'' (remote sampleSystem)) =
     Failed 500 ''Database not initialized with simplified schema'' \<and>
   fst (call_deleteMedicine None sampleCtx ''med_001'' sampleSystem) = Inr (Local True) \<and>
   remoteMeds (snd (call_deleteMedicine None sampleCtx ''med_001'' sampleSystem)) =
     remoteMeds sampleSystem \<and>
   map m_id (localMeds sampleSystem) =
     [''med_001'', ''med_002'', ''med_003'', ''med_004'', ''med_005''] \<and>
   map m_id (localMeds (snd (call_deleteMedicine None sampleCtx ''med_001'' sampleSystem))) =
     [''med_002'', ''med_003'', ''med_004'', ''med_005'']"
  by code_simp

subsection \<open>Updating a status twice\<close>

lemma findIndex_update_same:
  "findIndex p xs = Some i \<Longrightarrow> p y \<Longrightarrow> findIndex p (xs[i := y]) = Some i"
  by (induction xs arbitrary: i) (auto split: if_splits)

lemma findIndex_holds: "findIndex p xs = Some i \<Longrightarrow> p (xs ! i)"
  by (induction xs arbitrary: i) (auto split: if_splits)

lemma storage_update_again:
  assumes ident: "\<And>y. idOf (u1 y) = idOf y"
    and acts: "\<And>y. u2 (u1 y) = w (u1 y)"
  shows "storage_update idOf (fst (storage_update idOf arr ident u1)) ident u2 =
         storage_update idOf (fst (storage_update idOf arr ident u1)) ident w"
proof (cases arr)
  case None
  then show ?thesis by (simp add: storage_update_def)
next
  case (Some xs)
  show ?thesis
  proof (cases "findIndex (\<lambda>item. idOf item = ident) xs")
    case None
    with Some show ?thesis by (simp add: storage_update_def)
  next
    case i: (Some i)
    then have less: "i < length xs" by (rule findIndex_less)
    from i have "idOf (xs ! i) = ident" by (rule findIndex_holds)
    with ident have "idOf (u1 (xs ! i)) = ident" by simp
    with i have "findIndex (\<lambda>item. idOf item = ident) (xs[i := u1 (xs ! i)]) = Some i"
      by (intro findIndex_update_same)
    with Some i less acts show ?thesis by (simp add: storage_update_def)
  qed
qed

lemma storage_update_id: "fst (storage_update idOf arr ident (\<lambda>x. x)) = arr"
  by (simp add: storage_update_def split: option.split)

lemma length_storage_update:
  "length (storage_get (fst (storage_update idOf arr ident u))) = length (storage_get arr)"
  by (simp add: storage_update_def storage_get_def split: option.split)

lemma storage_update_result:
  "snd (storage_update idOf arr ident u) = Some x \<Longrightarrow> \<exists>y. x = u y"
  by (auto simp: storage_update_def split: option.splits)

lemma storage_update_find:
  assumes "\<And>y. idOf (u y) = idOf y"
  shows "find (\<lambda>x. idOf x = ident) (storage_get (fst (storage_update idOf arr ident u))) =
         snd (storage_update idOf arr ident u)"
proof (cases "find (\<lambda>x. idOf x = ident) (storage_get arr)")
  case None
  then have "\<forall>x \<in> set (storage_get arr). idOf x \<noteq> ident"
    by (simp add: find_None_iff)
  then have "storage_update idOf arr ident u = (arr, None)"
    by (rule storage_update_unknown)
  with None show ?thesis by simp
next
  case (Some x)
  from storage_update_found[OF Some, of u] assms show ?thesis
    by (auto simp: storage_get_def)
qed

lemma storage_update_none_iff:
  "snd (storage_update idOf (fst (storage_update idOf arr ident u1)) ident u2) = None \<longleftrightarrow>
   snd (storage_update idOf arr ident u1) = None" if "\<And>y. idOf (u1 y) = idOf y"
proof (cases arr)
  case None
  then show ?thesis by (simp add: storage_update_def)
next
  case (Some xs)
  show ?thesis
  proof (cases "findIndex (\<lambda>item. idOf item = ident) xs")
    case None
    with Some show ?thesis by (simp add: storage_update_def)
  next
    case i: (Some i)
    from i have "idOf (xs ! i) = ident" by (rule findIndex_holds)
    with that have "idOf (u1 (xs ! i)) = ident" by simp
    with i have "findIndex (\<lambda>item. idOf item = ident) (xs[i := u1 (xs ! i)]) = Some i"
      by (intro findIndex_update_same)
    with Some i show ?thesis by (simp add: storage_update_def)
  qed
qed

lemma updatePrescriptionStatus_local:
  "updatePrescriptionStatus (Inl e) t ident s st =
     Inr (Local (snd (storage_update p_id (prescriptions st) ident
                        (\<lambda>old. old\<lparr>p_status := s, p_updatedAt := t\<rparr>))),
          st\<lparr>prescriptions := fst (storage_update p_id (prescriptions st) ident
                                      (\<lambda>old. old\<lparr>p_status := s, p_updatedAt := t\<rparr>))\<rparr>)"
  by (simp add: updatePrescriptionStatus_def orLocal_def split_beta)

lemma updateTicketStatus_local:
  "updateTicketStatus (Inl e) t ident s st =
     Inr (Local (snd (storage_update t_id (tickets st) ident
                        (\<lambda>old. old\<lparr>t_status := s, t_updatedAt := t\<rparr>))),
          st\<lparr>tickets := fst (storage_update t_id (tickets st) ident
                                (\<lambda>old. old\<lparr>t_status := s, t_updatedAt := t\<rparr>))\<rparr>)"
  by (simp add: updateTicketStatus_def orLocal_def split_beta)

lemma prescription_status_twice:
  assumes first: "updatePrescriptionStatus (Inl e1 :: string + 'r) t1 ident s st = Inr (served1, st1)"
  shows "\<exists>p2 st2.
           updatePrescriptionStatus (Inl e2 :: string + 'r) t2 ident s st1 = Inr (Local p2, st2) \<and>
           find (\<lambda>p. p_id p = ident) (storage_get (prescriptions st2)) = p2 \<and>
           (\<forall>p. p2 = Some p \<longrightarrow> p_status p = s) \<and>
           (p2 = None \<longleftrightarrow> served1 = Local None) \<and>
           st2 = st1\<lparr>prescriptions :=
                   fst (storage_update p_id (prescriptions st1) ident
                          (\<lambda>old. old\<lparr>p_updatedAt := t2\<rparr>))\<rparr> \<and>
           length (storage_get (prescriptions st2)) = length (storage_get (prescriptions st1)) \<and>
           (t2 = t1 \<longrightarrow> st2 = st1)"
proof -
  let ?u = "\<lambda>t (old :: Prescription). old\<lparr>p_status := s, p_updatedAt := t\<rparr>"
  let ?w = "\<lambda>(old :: Prescription). old\<lparr>p_updatedAt := t2\<rparr>"
  let ?X = "storage_update p_id (prescriptions st) ident (?u t1)"
  let ?Y = "storage_update p_id (fst ?X) ident (?u t2)"
  have ident: "\<And>t y. p_id (?u t y) = p_id y" by simp
  from first have served1: "served1 = Local (snd ?X)" and st1: "st1 = st\<lparr>prescriptions := fst ?X\<rparr>"
    by (simp_all add: updatePrescriptionStatus_local)
  then have arr1: "prescriptions st1 = fst ?X" by simp
  have second: "updatePrescriptionStatus (Inl e2 :: string + 'r) t2 ident s st1 =
                  Inr (Local (snd ?Y), st1\<lparr>prescriptions := fst ?Y\<rparr>)"
    by (simp add: updatePrescriptionStatus_local arr1)
  have found: "find (\<lambda>p. p_id p = ident) (storage_get (prescriptions (st1\<lparr>prescriptions := fst ?Y\<rparr>)))
                 = snd ?Y"
    using storage_update_find[where u = "?u t2" and idOf = p_id and ident = ident and arr = "fst ?X"]
    by simp
  have status: "\<forall>p. snd ?Y = Some p \<longrightarrow> p_status p = s"
    using storage_update_result[where idOf = p_id and arr = "fst ?X" and ident = ident and u = "?u t2"]
    by auto
  have none: "snd ?Y = None \<longleftrightarrow> served1 = Local None"
    using storage_update_none_iff[where idOf = p_id and ?u1.0 = "?u t1"
        and arr = "prescriptions st" and ident = ident and ?u2.0 = "?u t2"] served1
    by simp
  have "?Y = storage_update p_id (fst ?X) ident ?w"
    by (rule storage_update_again) simp_all
  then have touch: "st1\<lparr>prescriptions := fst ?Y\<rparr> =
      st1\<lparr>prescriptions := fst (storage_update p_id (prescriptions st1) ident ?w)\<rparr>"
    by (simp add: arr1)
  have len: "length (storage_get (prescriptions (st1\<lparr>prescriptions := fst ?Y\<rparr>))) =
             length (storage_get (prescriptions st1))"
    by (simp add: length_storage_update arr1)
  have same: "t2 = t1 \<longrightarrow> st1\<lparr>prescriptions := fst ?Y\<rparr> = st1"
  proof
    assume "t2 = t1"
    then have "?Y = storage_update p_id (fst ?X) ident (\<lambda>x. x)"
      by (intro storage_update_again) simp_all
    then have "fst ?Y = fst ?X" by (simp add: storage_update_id)
    then show "st1\<lparr>prescriptions := fst ?Y\<rparr> = st1" by (simp add: st1)
  qed
  from second found status none touch len same show ?thesis
    by (intro exI conjI) assumption+
qed

lemma ticket_status_twice:
  assumes first: "updateTicketStatus (Inl e1 :: string + 'r) t1 ident s st = Inr (served1, st1)"
  shows "\<exists>k2 st2.
           updateTicketStatus (Inl e2 :: string + 'r) t2 ident s st1 = Inr (Local k2, st2) \<and>
           find (\<lambda>k. t_id k = ident) (storage_get (tickets st2)) = k2 \<and>
           (\<forall>k. k2 = Some k \<longrightarrow> t_status k = s) \<and>
           (k2 = None \<longleftrightarrow> served1 = Local None) \<and>
           st2 = st1\<lparr>tickets :=
                   fst (storage_update t_id (tickets st1) ident
                          (\<lambda>old. old\<lparr>t_updatedAt := t2\<rparr>))\<rparr> \<and>
           length (storage_get (tickets st2)) = length (storage_get (tickets st1)) \<and>
           (t2 = t1 \<longrightarrow> st2 = st1)"
proof -
  let ?u = "\<lambda>t (old :: Ticket). old\<lparr>t_status := s, t_updatedAt := t\<rparr>"
  let ?w = "\<lambda>(old :: Ticket). old\<lparr>t_updatedAt := t2\<rparr>"
  let ?X = "storage_update t_id (tickets st) ident (?u t1)"
  let ?Y = "storage_update t_id (fst ?X) ident (?u t2)"
  from first have served1: "served1 = Local (snd ?X)" and st1: "st1 = st\<lparr>tickets := fst ?X\<rparr>"
    by (simp_all add: updateTicketStatus_local)
  then have arr1: "tickets st1 = fst ?X" by simp
  have second: "updateTicketStatus (Inl e2 :: string + 'r) t2 ident s st1 =
                  Inr (Local (snd ?Y), st1\<lparr>tickets := fst ?Y\<rparr>)"
    by (simp add: updateTicketStatus_local arr1)
  have found: "find (\<lambda>k. t_id k = ident) (storage_get (tickets (st1\<lparr>tickets := fst ?Y\<rparr>)))
                 = snd ?Y"
    using storage_update_find[where u = "?u t2" and idOf = t_id and ident = ident and arr = "fst ?X"]
    by simp
  have status: "\<forall>k. snd ?Y = Some k \<longrightarrow> t_status k = s"
    using storage_update_result[where idOf = t_id and arr = "fst ?X" and ident = ident and u = "?u t2"]
    by auto
  have none: "snd ?Y = None \<longleftrightarrow> served1 = Local None"
    using storage_update_none_iff[where idOf = t_id and ?u1.0 = "?u t1"
        and arr = "tickets st" and ident = ident and ?u2.0 = "?u t2"] served1
    by simp
  have "?Y = storage_update t_id (fst ?X) ident ?w"
    by (rule storage_update_again) simp_all
  then have touch: "st1\<lparr>tickets := fst ?Y\<rparr> =
      st1\<lparr>tickets := fst (storage_update t_id (tickets st1) ident ?w)\<rparr>"
    by (simp add: arr1)
  have len: "length (storage_get (tickets (st1\<lparr>tickets := fst ?Y\<rparr>))) =
             length (storage_get (tickets st1))"
    by (simp add: length_storage_update arr1)
  have same: "t2 = t1 \<longrightarrow> st1\<lparr>tickets := fst ?Y\<rparr> = st1"
  proof
    assume "t2 = t1"
    then have "?Y = storage_update t_id (fst ?X) ident (\<lambda>x. x)"
      by (intro storage_update_again) simp_all
    then have "fst ?Y = fst ?X" by (simp add: storage_update_id)
    then show "st1\<lparr>tickets := fst ?Y\<rparr> = st1" by (simp add: st1)
  qed
  from second found status none touch len same show ?thesis
    by (intro exI conjI) assumption+
qed

text \<open>
  Claim C7, as amended. Both status updates are served by the local store (the remote
  handlers have no such route). Calling one twice with the same target status \<open>s\<close>
  leaves the entity with status \<open>s\<close>; the second call returns the entity when the first
  did, adds and removes no entry, and changes the store in one place only: it sets the
  entity's \<^verbatim>\<open>updatedAt\<close> to the time of the second call. When both calls read the same time
  the second call changes nothing.
\<close>

theorem status_update_twice:
  "(updatePrescriptionStatus (Inl e1 :: string + 'r) t1 ident s st = Inr (served1, st1) \<longrightarrow>
      (\<exists>p2 st2.
         updatePrescriptionStatus (Inl e2 :: string + 'r) t2 ident s st1 = Inr (Local p2, st2) \<and>
         find (\<lambda>p. p_id p = ident) (storage_get (prescriptions st2)) = p2 \<and>
         (\<forall>p. p2 = Some p \<longrightarrow> p_status p = s) \<and>
         (p2 = None \<longleftrightarrow> served1 = Local None) \<and>
         st2 = st1\<lparr>prescriptions :=
                 fst (storage_update p_id (prescriptions st1) ident
                        (\<lambda>old. old\<lparr>p_updatedAt := t2\<rparr>))\<rparr> \<and>
         length (storage_get (prescriptions st2)) = length (storage_get (prescriptions st1)) \<and>
         (t2 = t1 \<longrightarrow> st2 = st1))) \<and>
   (updateTicketStatus (Inl e1 :: string + 'r) t1 ident s st = Inr (tserved1, tst1) \<longrightarrow>
      (\<exists>k2 st2.
         updateTicketStatus (Inl e2 :: string + 'r) t2 ident s tst1 = Inr (Local k2, st2) \<and>
         find (\<lambda>k. t_id k = ident) (storage_get (tickets st2)) = k2 \<and>
         (\<forall>k. k2 = Some k \<longrightarrow> t_status k = s) \<and>
         (k2 = None \<longleftrightarrow> tserved1 = Local None) \<and>
         st2 = tst1\<lparr>tickets :=
                 fst (storage_update t_id (tickets tst1) ident
                        (\<lambda>old. old\<lparr>t_updatedAt := t2\<rparr>))\<rparr> \<and>
         length (storage_get (tickets st2)) = length (storage_get (tickets tst1)) \<and>
         (t2 = t1 \<longrightarrow> st2 = tst1)))"
proof (intro conjI impI)
  assume "updatePrescriptionStatus (Inl e1 :: string + 'r) t1 ident s st = Inr (served1, st1)"
  then show "\<exists>p2 st2.
         updatePrescriptionStatus (Inl e2 :: string + 'r) t2 ident s st1 = Inr (Local p2, st2) \<and>
         find (\<lambda>p. p_id p = ident) (storage_get (prescriptions st2)) = p2 \<and>
         (\<forall>p. p2 = Some p \<longrightarrow> p_status p = s) \<and>
         (p2 = None \<longleftrightarrow> served1 = Local None) \<and>
         st2 = st1\<lparr>prescriptions :=
                 fst (storage_update p_id (prescriptions st1) ident
                        (\<lambda>old. old\<lparr>p_updatedAt := t2\<rparr>))\<rparr> \<and>
         length (storage_get (prescriptions st2)) = length (storage_get (prescriptions st1)) \<and>
         (t2 = t1 \<longrightarrow> st2 = st1)"
    by (rule prescription_status_twice)
next
  assume "updateTicketStatus (Inl e1 :: string + 'r) t1 ident s st = Inr (tserved1, tst1)"
  then show "\<exists>k2 st2.
         updateTicketStatus (Inl e2 :: string + 'r) t2 ident s tst1 = Inr (Local k2, st2) \<and>
         find (\<lambda>k. t_id k = ident) (storage_get (tickets st2)) = k2 \<and>
         (\<forall>k. k2 = Some k \<longrightarrow> t_status k = s) \<and>
         (k2 = None \<longleftrightarrow> tserved1 = Local None) \<and>
         st2 = tst1\<lparr>tickets :=
                 fst (storage_update t_id (tickets tst1) ident
                        (\<lambda>old. old\<lparr>t_updatedAt := t2\<rparr>))\<rparr> \<and>
         length (storage_get (tickets st2)) = length (storage_get (tickets tst1)) \<and>
         (t2 = t1 \<longrightarrow> st2 = tst1)"
    by (rule ticket_status_twice)
qed

theorem status_update_twice_witness:
  "updatePrescriptionStatus (Inl ''Failed to fetch'' :: string + unit) ''2025-01-09T10:00:00.000Z'' ''presc_001'' ''verified'' exampleData =
     Inr (Local (Some ((samplePrescriptions ''2025-01-09T09:00:00.000Z'' ! 0)\<lparr>p_status := ''verified'', p_updatedAt := ''2025-01-09T10:00:00.000Z''\<rparr>)),
          (exampleData\<lparr>prescriptions := Some [((samplePrescriptions ''2025-01-09T09:00:00.000Z'' ! 0)\<lparr>p_status := ''verified'', p_updatedAt := ''2025-01-09T10:00:00.000Z''\<rparr>)]\<rparr>)) \<and>
   (\<exists>p2 st2.
      updatePrescriptionStatus (Inl ''Failed to fetch'' :: string + unit) ''2025-01-09T10:00:05.000Z'' ''presc_001'' ''verified''
          (exampleData\<lparr>prescriptions := Some [((samplePrescriptions ''2025-01-09T09:00:00.000Z'' ! 0)\<lparr>p_status := ''verified'', p_updatedAt := ''2025-01-09T10:00:00.000Z''\<rparr>)]\<rparr>) = Inr (Local p2, st2) \<and>
      find (\<lambda>p. p_id p = ''presc_001'') (storage_get (prescriptions st2)) = p2 \<and>
      (\<forall>p. p2 = Some p \<longrightarrow> p_status p = ''verified'') \<and>
      (p2 = None \<longleftrightarrow> (Local (Some ((samplePrescriptions ''2025-01-09T09:00:00.000Z'' ! 0)\<lparr>p_status := ''verified'', p_updatedAt := ''2025-01-09T10:00:00.000Z''\<rparr>)) :: (unit, Prescription option) Served) = Local None) \<and>
      st2 = (exampleData\<lparr>prescriptions := Some [((samplePrescriptions ''2025-01-09T09:00:00.000Z'' ! 0)\<lparr>p_status := ''verified'', p_updatedAt := ''2025-01-09T10:00:00.000Z''\<rparr>)]\<rparr>)\<lparr>prescriptions :=
              fst (storage_update p_id (prescriptions (exampleData\<lparr>prescriptions := Some [((samplePrescriptions ''2025-01-09T09:00:00.000Z'' ! 0)\<lparr>p_status := ''verified'', p_updatedAt := ''2025-01-09T10:00:00.000Z''\<rparr>)]\<rparr>)) ''presc_001''
                     (\<lambda>old. old\<lparr>p_updatedAt := ''2025-01-09T10:00:05.000Z''\<rparr>))\<rparr> \<and>
      length (storage_get (prescriptions st2)) = length (storage_get (prescriptions (exampleData\<lparr>prescriptions := Some [((samplePrescriptions ''2025-01-09T09:00:00.000Z'' ! 0)\<lparr>p_status := ''verified'', p_updatedAt := ''2025-01-09T10:00:00.000Z''\<rparr>)]\<rparr>))) \<and>
      (''2025-01-09T10:00:05.000Z'' = ''2025-01-09T10:00:00.000Z'' \<longrightarrow> st2 = (exampleData\<lparr>prescriptions := Some [((samplePrescriptions ''2025-01-09T09:00:00.000Z'' ! 0)\<lparr>p_status := ''verified'', p_updatedAt := ''2025-01-09T10:00:00.000Z''\<rparr>)]\<rparr>))) \<and>
   updateTicketStatus (Inl ''Failed to fetch'' :: string + unit) ''2025-01-09T10:00:00.000Z'' ''id_1736416800000_a1b2c3d4e'' ''resolved'' exampleData =
     Inr (Local (Some (exampleTicket\<lparr>t_status := ''resolved'', t_updatedAt := ''2025-01-09T10:00:00.000Z''\<rparr>)),
          (exampleData\<lparr>tickets := Some [(exampleTicket\<lparr>t_status := ''resolved'', t_updatedAt := ''2025-01-09T10:00:00.000Z''\<rparr>)]\<rparr>)) \<and>
   (\<exists>k2 st2.
      updateTicketStatus (Inl ''Failed to fetch'' :: string + unit) ''2025-01-09T10:00:05.000Z'' ''id_1736416800000_a1b2c3d4e'' ''resolved''
          (exampleData\<lparr>tickets := Some [(exampleTicket\<lparr>t_status := ''resolved'', t_updatedAt := ''2025-01-09T10:00:00.000Z''\<rparr>)]\<rparr>) = Inr (Local k2, st2) \<and>
      find (\<lambda>k. t_id k = ''id_1736416800000_a1b2c3d4e'') (storage_get (tickets st2)) = k2 \<and>
      (\<forall>k. k2 = Some k \<longrightarrow> t_status k = ''resolved'') \<and>
      (k2 = None \<longleftrightarrow> (Local (Some (exampleTicket\<lparr>t_status := ''resolved'', t_updatedAt := ''2025-01-09T10:00:00.000Z''\<rparr>)) :: (unit, Ticket option) Served) = Local None) \<and>
      st2 = (exampleData\<lparr>tickets := Some [(exampleTicket\<lparr>t_status := ''resolved'', t_updatedAt := ''2025-01-09T10:00:00.000Z''\<rparr>)]\<rparr>)\<lparr>tickets :=
              fst (storage_update t_id (tickets (exampleData\<lparr>tickets := Some [(exampleTicket\<lparr>t_status := ''resolved'', t_updatedAt := ''2025-01-09T10:00:00.000Z''\<rparr>)]\<rparr>)) ''id_1736416800000_a1b2c3d4e''
                     (\<lambda>old. old\<lparr>t_updatedAt := ''2025-01-09T10:00:05.000Z''\<rparr>))\<rparr> \<and>
      length (storage_get (tickets st2)) = length (storage_get (tickets (exampleData\<lparr>tickets := Some [(exampleTicket\<lparr>t_status := ''resolved'', t_updatedAt := ''2025-01-09T10:00:00.000Z''\<rparr>)]\<rparr>))) \<and>
      (''2025-01-09T10:00:05.000Z'' = ''2025-01-09T10:00:00.000Z'' \<longrightarrow> st2 = (exampleData\<lparr>tickets := Some [(exampleTicket\<lparr>t_status := ''resolved'', t_updatedAt := ''2025-01-09T10:00:00.000Z''\<rparr>)]\<rparr>)))"
proof -
  have p: "updatePrescriptionStatus (Inl ''Failed to fetch'' :: string + unit) ''2025-01-09T10:00:00.000Z'' ''presc_001'' ''verified'' exampleData =
     Inr (Local (Some ((samplePrescriptions ''2025-01-09T09:00:00.000Z'' ! 0)\<lparr>p_status := ''verified'', p_updatedAt := ''2025-01-09T10:00:00.000Z''\<rparr>)),
          (exampleData\<lparr>prescriptions := Some [((samplePrescriptions ''2025-01-09T09:00:00.000Z'' ! 0)\<lparr>p_status := ''verified'', p_updatedAt := ''2025-01-09T10:00:00.000Z''\<rparr>)]\<rparr>))"
    by (simp add: updatePrescriptionStatus_local storage_update_def exampleData_def
        initialData_def samplePrescriptions_def)
  have t: "updateTicketStatus (Inl ''Failed to fetch'' :: string + unit) ''2025-01-09T10:00:00.000Z'' ''id_1736416800000_a1b2c3d4e'' ''resolved'' exampleData =
     Inr (Local (Some (exampleTicket\<lparr>t_status := ''resolved'', t_updatedAt := ''2025-01-09T10:00:00.000Z''\<rparr>)),
          (exampleData\<lparr>tickets := Some [(exampleTicket\<lparr>t_status := ''resolved'', t_updatedAt := ''2025-01-09T10:00:00.000Z''\<rparr>)]\<rparr>))"
    by (simp add: updateTicketStatus_local storage_update_def exampleData_def
        initialData_def exampleTicket_def newTicket_def)
  have cp: "(\<exists>p2 st2.
      updatePrescriptionStatus (Inl ''Failed to fetch'' :: string + unit) ''2025-01-09T10:00:05.000Z'' ''presc_001'' ''verified''
          (exampleData\<lparr>prescriptions := Some [((samplePrescriptions ''2025-01-09T09:00:00.000Z'' ! 0)\<lparr>p_status := ''verified'', p_updatedAt := ''2025-01-09T10:00:00.000Z''\<rparr>)]\<rparr>) = Inr (Local p2, st2) \<and>
      find (\<lambda>p. p_id p = ''presc_001'') (storage_get (prescriptions st2)) = p2 \<and>
      (\<forall>p. p2 = Some p \<longrightarrow> p_status p = ''verified'') \<and>
      (p2 = None \<longleftrightarrow> (Local (Some ((samplePrescriptions ''2025-01-09T09:00:00.000Z'' ! 0)\<lparr>p_status := ''verified'', p_updatedAt := ''2025-01-09T10:00:00.000Z''\<rparr>)) :: (unit, Prescription option) Served) = Local None) \<and>
      st2 = (exampleData\<lparr>prescriptions := Some [((samplePrescriptions ''2025-01-09T09:00:00.000Z'' ! 0)\<lparr>p_status := ''verified'', p_updatedAt := ''2025-01-09T10:00:00.000Z''\<rparr>)]\<rparr>)\<lparr>prescriptions :=
              fst (storage_update p_id (prescriptions (exampleData\<lparr>prescriptions := Some [((samplePrescriptions ''2025-01-09T09:00:00.000Z'' ! 0)\<lparr>p_status := ''verified'', p_updatedAt := ''2025-01-09T10:00:00.000Z''\<rparr>)]\<rparr>)) ''presc_001''
                     (\<lambda>old. old\<lparr>p_updatedAt := ''2025-01-09T10:00:05.000Z''\<rparr>))\<rparr> \<and>
      length (storage_get (prescriptions st2)) = length (storage_get (prescriptions (exampleData\<lparr>prescriptions := Some [((samplePrescriptions ''2025-01-09T09:00:00.000Z'' ! 0)\<lparr>p_status := ''verified'', p_updatedAt := ''2025-01-09T10:00:00.000Z''\<rparr>)]\<rparr>))) \<and>
      (''2025-01-09T10:00:05.000Z'' = ''2025-01-09T10:00:00.000Z'' \<longrightarrow> st2 = (exampleData\<lparr>prescriptions := Some [((samplePrescriptions ''2025-01-09T09:00:00.000Z'' ! 0)\<lparr>p_status := ''verified'', p_updatedAt := ''2025-01-09T10:00:00.000Z''\<rparr>)]\<rparr>)))"
    using p status_update_twice[where ?'r = unit and ?e1.0 = "''Failed to fetch''"
      and ?e2.0 = "''Failed to fetch''" and ?t1.0 = "''2025-01-09T10:00:00.000Z''" and ?t2.0 = "''2025-01-09T10:00:05.000Z''"
      and ident = "''presc_001''" and s = "''verified''" and st = exampleData
      and ?st1.0 = "(exampleData\<lparr>prescriptions := Some [((samplePrescriptions ''2025-01-09T09:00:00.000Z'' ! 0)\<lparr>p_status := ''verified'', p_updatedAt := ''2025-01-09T10:00:00.000Z''\<rparr>)]\<rparr>)"
      and ?served1.0 = "Local (Some ((samplePrescriptions ''2025-01-09T09:00:00.000Z'' ! 0)\<lparr>p_status := ''verified'', p_updatedAt := ''2025-01-09T10:00:00.000Z''\<rparr>))"]
    by blast
  have ct: "(\<exists>k2 st2.
      updateTicketStatus (Inl ''Failed to fetch'' :: string + unit) ''2025-01-09T10:00:05.000Z'' ''id_1736416800000_a1b2c3d4e'' ''resolved''
          (exampleData\<lparr>tickets := Some [(exampleTicket\<lparr>t_status := ''resolved'', t_updatedAt := ''2025-01-09T10:00:00.000Z''\<rparr>)]\<rparr>) = Inr (Local k2, st2) \<and>
      find (\<lambda>k. t_id k = ''id_1736416800000_a1b2c3d4e'') (storage_get (tickets st2)) = k2 \<and>
      (\<forall>k. k2 = Some k \<longrightarrow> t_status k = ''resolved'') \<and>
      (k2 = None \<longleftrightarrow> (Local (Some (exampleTicket\<lparr>t_status := ''resolved'', t_updatedAt := ''2025-01-09T10:00:00.000Z''\<rparr>)) :: (unit, Ticket option) Served) = Local None) \<and>
      st2 = (exampleData\<lparr>tickets := Some [(exampleTicket\<lparr>t_status := ''resolved'', t_updatedAt := ''2025-01-09T10:00:00.000Z''\<rparr>)]\<rparr>)\<lparr>tickets :=
              fst (storage_update t_id (tickets (exampleData\<lparr>tickets := Some [(exampleTicket\<lparr>t_status := ''resolved'', t_updatedAt := ''2025-01-09T10:00:00.000Z''\<rparr>)]\<rparr>)) ''id_1736416800000_a1b2c3d4e''
                     (\<lambda>old. old\<lparr>t_updatedAt := ''2025-01-09T10:00:05.000Z''\<rparr>))\<rparr> \<and>
      length (storage_get (tickets st2)) = length (storage_get (tickets (exampleData\<lparr>tickets := Some [(exampleTicket\<lparr>t_status := ''resolved'', t_updatedAt := ''2025-01-09T10:00:00.000Z''\<rparr>)]\<rparr>))) \<and>
      (''2025-01-09T10:00:05.000Z'' = ''2025-01-09T10:00:00.000Z'' \<longrightarrow> st2 = (exampleData\<lparr>tickets := Some [(exampleTicket\<lparr>t_status := ''resolved'', t_updatedAt := ''2025-01-09T10:00:00.000Z''\<rparr>)]\<rparr>)))"
    using t status_update_twice[where ?'r = unit and ?e1.0 = "''Failed to fetch''"
      and ?e2.0 = "''Failed to fetch''" and ?t1.0 = "''2025-01-09T10:00:00.000Z''" and ?t2.0 = "''2025-01-09T10:00:05.000Z''"
      and ident = "''id_1736416800000_a1b2c3d4e''" and s = "''resolved''" and st = exampleData
      and ?tst1.0 = "(exampleData\<lparr>tickets := Some [(exampleTicket\<lparr>t_status := ''resolved'', t_updatedAt := ''2025-01-09T10:00:00.000Z''\<rparr>)]\<rparr>)"
      and ?tserved1.0 = "Local (Some (exampleTicket\<lparr>t_status := ''resolved'', t_updatedAt := ''2025-01-09T10:00:00.000Z''\<rparr>))"]
    by blast
  from p cp t ct show ?thesis by (intro conjI)
qed

text \<open>
  The claim as stated (the second call changes nothing) fails on the sample prescription:
  the second call, five seconds after the first, leaves a store that differs from the
  first call's result in the prescription's \<^verbatim>\<open>updatedAt\<close>.
\<close>

theorem status_update_twice_changes_updatedAt:
  "map p_updatedAt (storage_get (prescriptions
      (storeAfter (updatePrescriptionStatus (Inl ''Failed to fetch'' :: string + unit) ''2025-01-09T10:00:00.000Z'' ''presc_001'' ''verified'' exampleData) exampleData))) =
     [''2025-01-09T10:00:00.000Z''] \<and>
   map p_updatedAt (storage_get (prescriptions
      (storeAfter (updatePrescriptionStatus (Inl ''Failed to fetch'' :: string + unit) ''2025-01-09T10:00:05.000Z'' ''presc_001'' ''verified'' (storeAfter (updatePrescriptionStatus (Inl ''Failed to fetch'' :: string + unit) ''2025-01-09T10:00:00.000Z'' ''presc_001'' ''verified'' exampleData) exampleData)) (storeAfter (updatePrescriptionStatus (Inl ''Failed to fetch'' :: string + unit) ''2025-01-09T10:00:00.000Z'' ''presc_001'' ''verified'' exampleData) exampleData)))) =
     [''2025-01-09T10:00:05.000Z''] \<and>
   (storeAfter (updatePrescriptionStatus (Inl ''Failed to fetch'' :: string + unit) ''2025-01-09T10:00:05.000Z'' ''presc_001'' ''verified'' (storeAfter (updatePrescriptionStatus (Inl ''Failed to fetch'' :: string + unit) ''2025-01-09T10:00:00.000Z'' ''presc_001'' ''verified'' exampleData) exampleData)) (storeAfter (updatePrescriptionStatus (Inl ''Failed to fetch'' :: string + unit) ''2025-01-09T10:00:00.000Z'' ''presc_001'' ''verified'' exampleData) exampleData)) \<noteq>
   (storeAfter (updatePrescriptionStatus (Inl ''Failed to fetch'' :: string + unit) ''2025-01-09T10:00:00.000Z'' ''presc_001'' ''verified'' exampleData) exampleData)"
proof -
  have a: "map p_updatedAt (storage_get (prescriptions
      (storeAfter (updatePrescriptionStatus (Inl ''Failed to fetch'' :: string + unit) ''2025-01-09T10:00:00.000Z'' ''presc_001'' ''verified'' exampleData) exampleData))) =
     [''2025-01-09T10:00:00.000Z'']"
    by (simp add: storeAfter_def updatePrescriptionStatus_local storage_update_def
        storage_get_def exampleData_def initialData_def samplePrescriptions_def)
  have b: "map p_updatedAt (storage_get (prescriptions
      (storeAfter (updatePrescriptionStatus (Inl ''Failed to fetch'' :: string + unit) ''2025-01-09T10:00:05.000Z'' ''presc_001'' ''verified'' (storeAfter (updatePrescriptionStatus (Inl ''Failed to fetch'' :: string + unit) ''2025-01-09T10:00:00.000Z'' ''presc_001'' ''verified'' exampleData) exampleData)) (storeAfter (updatePrescriptionStatus (Inl ''Failed to fetch'' :: string + unit) ''2025-01-09T10:00:00.000Z'' ''presc_001'' ''verified'' exampleData) exampleData)))) =
     [''2025-01-09T10:00:05.000Z'']"
    by (simp add: storeAfter_def updatePrescriptionStatus_local storage_update_def
        storage_get_def exampleData_def initialData_def samplePrescriptions_def)
  have "[''2025-01-09T10:00:00.000Z''] \<noteq> [''2025-01-09T10:00:05.000Z'']" by simp
  with a b have "(storeAfter (updatePrescriptionStatus (Inl ''Failed to fetch'' :: string + unit) ''2025-01-09T10:00:05.000Z'' ''presc_001'' ''verified'' (storeAfter (updatePrescriptionStatus (Inl ''Failed to fetch'' :: string + unit) ''2025-01-09T10:00:00.000Z'' ''presc_001'' ''verified'' exampleData) exampleData)) (storeAfter (updatePrescriptionStatus (Inl ''Failed to fetch'' :: string + unit) ''2025-01-09T10:00:00.000Z'' ''presc_001'' ''verified'' exampleData) exampleData)) \<noteq>
   (storeAfter (updatePrescriptionStatus (Inl ''Failed to fetch'' :: string + unit) ''2025-01-09T10:00:00.000Z'' ''presc_001'' ''verified'' exampleData) exampleData)"
    by metis
  with a b show ?thesis by (intro conjI)
qed


subsection \<open>A sale of two line items\<close>




lemma call_createSale_local:
  "call_createSale (Some msg) c sale sys =
     (Inr (Local (newSale (c_id c) (c_now c) sale)),
      \<lparr>remote = remote sys,
       browser = (browser sys)\<lparr>sales :=
         Some (storage_get (sales (browser sys)) @ [newSale (c_id c) (c_now c) sale])\<rparr>\<rparr>)"
  by (simp add: call_createSale_def viaBackend_def tryBackend_def createSale_def orLocal_def
      storage_add_def)

text \<open>
  The local fallback of \<^verbatim>\<open>createSale\<close> records the sale and writes no stock.
\<close>

lemma call_createSale_local_stocks:
  "localMeds (snd (call_createSale (Some msg) c sale sys)) = localMeds sys \<and>
   remoteMeds (snd (call_createSale (Some msg) c sale sys)) = remoteMeds sys"
  by (simp add: call_createSale_local localMeds_def remoteMeds_def)




subsection \<open>Adding a medicine and reading the list\<close>

lemma varchar_Inr: "varchar n s = Inr v \<Longrightarrow> v = s"
  by (simp add: varchar_def split: if_splits)

lemma varchar_opt_Inr: "varchar_opt n so = Inr v \<Longrightarrow> v = so"
  by (cases so) (auto simp: varchar_opt_def dest: varchar_Inr split: sum.splits)

lemma andThen_Inr: "andThen r f = Inr y \<Longrightarrow> \<exists>v. r = Inr v \<and> f v = Inr y"
  by (cases r) (simp_all add: andThen_def)

lemma insert_meds_Inr:
  assumes "insert_meds toDate uuid dbnow v = Inr row"
  shows "r_id row = uuid \<and> r_active row \<and> r_name row = i_name v \<and> r_cat row = i_cat v \<and>
         r_strength row = i_strength v \<and> r_mfg row = i_mfg v"
proof -
  from assms obtain name where 1: "varchar 255 (i_name v) = Inr name"
    and "andThen (varchar 100 (i_cat v)) (\<lambda>cat.
     andThen (varchar_opt 50 (i_strength v)) (\<lambda>strength.
     andThen (varchar 255 (i_mfg v)) (\<lambda>mfg.
     andThen (integer_in (i_stock v)) (\<lambda>stock.
     andThen (integer_in (i_min_stock v)) (\<lambda>min_stock.
     andThen (integer_in (i_max_stock v)) (\<lambda>max_stock.
     andThen (decimal_10_2 (i_price v)) (\<lambda>price.
     andThen (date_opt toDate (i_exp_date v)) (\<lambda>exp_date.
     andThen (varchar_opt 100 (i_batch v)) (\<lambda>batch.
     andThen (varchar_opt 100 (i_location v)) (\<lambda>location.
       Inr \<lparr>r_id = uuid, r_name = name, r_cat = cat, r_strength = strength, r_mfg = mfg,
            r_stock = stock, r_min_stock = min_stock, r_max_stock = max_stock,
            r_price = price, r_exp_date = exp_date, r_batch = batch,
            r_location = location, r_active = True, r_created = dbnow,
            r_updated = dbnow\<rparr>)))))))))) = Inr row"
    unfolding insert_meds_def by (blast dest: andThen_Inr)
  then obtain cat where 2: "varchar 100 (i_cat v) = Inr cat"
    and "andThen (varchar_opt 50 (i_strength v)) (\<lambda>strength.
     andThen (varchar 255 (i_mfg v)) (\<lambda>mfg.
     andThen (integer_in (i_stock v)) (\<lambda>stock.
     andThen (integer_in (i_min_stock v)) (\<lambda>min_stock.
     andThen (integer_in (i_max_stock v)) (\<lambda>max_stock.
     andThen (decimal_10_2 (i_price v)) (\<lambda>price.
     andThen (date_opt toDate (i_exp_date v)) (\<lambda>exp_date.
     andThen (varchar_opt 100 (i_batch v)) (\<lambda>batch.
     andThen (varchar_opt 100 (i_location v)) (\<lambda>location.
       Inr \<lparr>r_id = uuid, r_name = name, r_cat = cat, r_strength = strength, r_mfg = mfg,
            r_stock = stock, r_min_stock = min_stock, r_max_stock = max_stock,
            r_price = price, r_exp_date = exp_date, r_batch = batch,
            r_location = location, r_active = True, r_created = dbnow,
            r_updated = dbnow\<rparr>))))))))) = Inr row"
    by (blast dest: andThen_Inr)
  then obtain strength where 3: "varchar_opt 50 (i_strength v) = Inr strength"
    and "andThen (varchar 255 (i_mfg v)) (\<lambda>mfg.
     andThen (integer_in (i_stock v)) (\<lambda>stock.
     andThen (integer_in (i_min_stock v)) (\<lambda>min_stock.
     andThen (integer_in (i_max_stock v)) (\<lambda>max_stock.
     andThen (decimal_10_2 (i_price v)) (\<lambda>price.
     andThen (date_opt toDate (i_exp_date v)) (\<lambda>exp_date.
     andThen (varchar_opt 100 (i_batch v)) (\<lambda>batch.
     andThen (varchar_opt 100 (i_location v)) (\<lambda>location.
       Inr \<lparr>r_id = uuid, r_name = name, r_cat = cat, r_strength = strength, r_mfg = mfg,
            r_stock = stock, r_min_stock = min_stock, r_max_stock = max_stock,
            r_price = price, r_exp_date = exp_date, r_batch = batch,
            r_location = location, r_active = True, r_created = dbnow,
            r_updated = dbnow\<rparr>)))))))) = Inr row"
    by (blast dest: andThen_Inr)
  then obtain mfg where 4: "varchar 255 (i_mfg v) = Inr mfg"
    and "andThen (integer_in (i_stock v)) (\<lambda>stock.
     andThen (integer_in (i_min_stock v)) (\<lambda>min_stock.
     andThen (integer_in (i_max_stock v)) (\<lambda>max_stock.
     andThen (decimal_10_2 (i_price v)) (\<lambda>price.
     andThen (date_opt toDate (i_exp_date v)) (\<lambda>exp_date.
     andThen (varchar_opt 100 (i_batch v)) (\<lambda>batch.
     andThen (varchar_opt 100 (i_location v)) (\<lambda>location.
       Inr \<lparr>r_id = uuid, r_name = name, r_cat = cat, r_strength = strength, r_mfg = mfg,
            r_stock = stock, r_min_stock = min_stock, r_max_stock = max_stock,
            r_price = price, r_exp_date = exp_date, r_batch = batch,
            r_location = location, r_active = True, r_created = dbnow,
            r_updated = dbnow\<rparr>))))))) = Inr row"
    by (blast dest: andThen_Inr)
  then obtain stock min_stock max_stock price exp_date batch location where
    "row = \<lparr>r_id = uuid, r_name = name, r_cat = cat, r_strength = strength, r_mfg = mfg,
            r_stock = stock, r_min_stock = min_stock, r_max_stock = max_stock,
            r_price = price, r_exp_date = exp_date, r_batch = batch,
            r_location = location, r_active = True, r_created = dbnow,
            r_updated = dbnow\<rparr>"
    by (auto dest!: andThen_Inr)
  with varchar_Inr[OF 1] varchar_Inr[OF 2] varchar_opt_Inr[OF 3] varchar_Inr[OF 4]
  show ?thesis by simp
qed

lemma post_medicines_Ok:
  assumes "post_medicines toDate uuid dbnow body db = (Ok v, db')"
  shows "\<exists>d row. db = Some d \<and> db' = Some (d\<lparr>meds := meds d @ [row]\<rparr>) \<and>
           v = transformedMedicine row \<and> r_id row = uuid \<and> r_active row \<and>
           r_name row = trim (str (b_name body)) \<and>
           r_cat row = trim (str (b_category body)) \<and>
           r_strength row = trimmed (b_strength body) \<and>
           r_mfg row = trim (str (b_manufacturer body))"
proof -
  let ?data = "\<lparr>i_name = trim (str (b_name body)),
                i_cat = trim (str (b_category body)),
                i_strength = trimmed (b_strength body),
                i_mfg = trim (str (b_manufacturer body)),
                i_stock =
                  orElse (map_option parseInt (b_stock body))
                    (orElse (map_option parseInt (b_current_stock body)) 0),
                i_min_stock =
                  orElse (map_option parseInt (b_minStock body))
                    (orElse (map_option parseInt (b_minimum_stock body)) 10),
                i_max_stock =
                  orElse (map_option parseInt (b_maxStock body))
                    (orElse (map_option parseInt (b_maximum_stock body)) 100),
                i_price = orElse (b_price body) (orElse (b_unit_price body) 0),
                i_exp_date =
                  firstOf (nonEmpty (b_expiryDate body)) (nonEmpty (b_expiry_date body)),
                i_batch =
                  firstOf (trimmed (b_batchNumber body)) (trimmed (b_batch_number body)),
                i_location =
                  firstOf (trimmed (b_location body))
                    (trimmed (b_storage_location body))\<rparr>"
  from assms obtain d where d: "db = Some d"
    by (cases db) (auto simp: post_medicines_def Let_def split: if_splits)
  from assms d obtain row where row: "insert_meds toDate uuid dbnow ?data = Inr row"
    by (cases "insert_meds toDate uuid dbnow ?data")
      (auto simp: post_medicines_def Let_def split: if_splits)
  from assms d row have "v = transformedMedicine row" "db' = Some (d\<lparr>meds := meds d @ [row]\<rparr>)"
    by (auto simp: post_medicines_def Let_def split: if_splits)
  with d insert_meds_Inr[OF row] show ?thesis
    by (intro exI[of _ d] exI[of _ row]) simp
qed

lemma addMedicine_Local:
  assumes "addMedicine be gid t1 t2 medicine st = Inr (Local m, st')"
  shows "m = newMedicine gid t1 t2 medicine \<and>
         st' = st\<lparr>medicines := Some (storage_get (medicines st) @ [m])\<rparr>"
  using assms
  by (cases be) (auto simp: addMedicine_def orLocal_def storage_add_def Let_def)

lemma addMedicine_Remote:
  assumes "addMedicine be gid t1 t2 medicine st = Inr (Remote v, st')"
  shows "be = Inr v \<and> st' = st"
  using assms
  by (cases be) (auto simp: addMedicine_def orLocal_def storage_add_def Let_def)

lemma getMedicines_Local:
  assumes "getMedicines be st = Inr (Local ms, st')"
  shows "ms = storage_get (medicines st)"
  using assms by (cases be) (auto simp: getMedicines_def orLocal_def)

lemma viaBackend_result:
  assumes "viaBackend offline handler method sys = (Inr served, sys')"
  shows "method (tryBackend True (case offline of Some msg \<Rightarrow> NetworkFailure msg
                                  | None \<Rightarrow> Response (fst (handler (remote sys)))))
           (browser sys) = Inr (served, browser sys') \<and>
         remote sys' = (case offline of Some msg \<Rightarrow> remote sys
                        | None \<Rightarrow> snd (handler (remote sys)))"
  using assms
  by (cases offline)
    (auto simp: viaBackend_def Let_def split: prod.splits sum.splits)

lemma call_addMedicine_local:
  assumes "remote sys = None \<or> offline \<noteq> None"
  shows "call_addMedicine offline toDate c medicine sys =
           (Inr (Local (newMedicine (c_id c) (c_now c) (c_now c) medicine)),
            \<lparr>remote = remote sys,
             browser = (browser sys)\<lparr>medicines :=
               Some (storage_get (medicines (browser sys)) @
                     [newMedicine (c_id c) (c_now c) (c_now c) medicine])\<rparr>\<rparr>)"
proof (cases offline)
  case (Some msg)
  then show ?thesis
    by (simp add: call_addMedicine_def viaBackend_def tryBackend_def addMedicine_def
        orLocal_def storage_add_def)
next
  case None
  with assms have r: "remote sys = None" by simp
  have "\<exists>msg. post_medicines toDate (c_uuid c) (c_dbnow c)
      (medicineBody (newMedicine (c_id c) (c_now c) (c_now c) medicine)) None =
      (Failed 400 msg, None)"
    by (simp add: post_medicines_def Let_def)
  then obtain msg where "post_medicines toDate (c_uuid c) (c_dbnow c)
      (medicineBody (newMedicine (c_id c) (c_now c) (c_now c) medicine)) None =
      (Failed 400 msg, None)"
    by blast
  with None r show ?thesis
    by (simp add: call_addMedicine_def viaBackend_def tryBackend_def addMedicine_def
        orLocal_def storage_add_def)
qed

lemma call_getMedicines_local:
  assumes "remote sys = None \<or> offline \<noteq> None"
  shows "call_getMedicines offline sys = (Inr (Local (localMeds sys)), sys)"
  using assms
  by (cases offline)
    (auto simp: call_getMedicines_def viaBackend_def tryBackend_def getMedicines_def orLocal_def
      get_medicines_def localMeds_def)

lemma visibleFields_newMedicine: "visibleFields (newMedicine gid t1 t2 medicine) = medicine"
  by (simp add: visibleFields_def newMedicine_def)

lemma tryBackend_Inr:
  "tryBackend True (Response reply) = Inr v \<Longrightarrow> reply = Ok v"
  by (cases reply) (simp_all add: tryBackend_def)

lemma call_addMedicine_Remote:
  assumes "call_addMedicine None toDate c medicine sys = (Inr (Remote v), sys')"
  shows "post_medicines toDate (c_uuid c) (c_dbnow c)
           (medicineBody (newMedicine (c_id c) (c_now c) (c_now c) medicine)) (remote sys) =
           (Ok v, remote sys') \<and> browser sys' = browser sys"
proof -
  let ?post = "post_medicines toDate (c_uuid c) (c_dbnow c)
           (medicineBody (newMedicine (c_id c) (c_now c) (c_now c) medicine))"
  from viaBackend_result[OF assms[unfolded call_addMedicine_def]]
  have m: "addMedicine (tryBackend True (Response (fst (?post (remote sys)))))
             (c_id c) (c_now c) (c_now c) medicine (browser sys) =
           Inr (Remote v, browser sys')"
    and r: "remote sys' = snd (?post (remote sys))"
    by simp_all
  from addMedicine_Remote[OF m]
  have "tryBackend True (Response (fst (?post (remote sys)))) = Inr v"
    and b: "browser sys' = browser sys"
    by simp_all
  then have "fst (?post (remote sys)) = Ok v" by (simp add: tryBackend_Inr)
  with r b show ?thesis by (simp add: prod_eq_iff)
qed

lemma call_addMedicine_Local:
  assumes "call_addMedicine offline toDate c medicine sys = (Inr (Local m), sys')"
  shows "visibleFields m = medicine \<and> localMeds sys' = localMeds sys @ [m]"
  using addMedicine_Local[OF viaBackend_result[OF assms[unfolded call_addMedicine_def],
      THEN conjunct1]]
  by (simp add: visibleFields_newMedicine localMeds_def storage_get_def)

lemma call_getMedicines_Local:
  assumes "call_getMedicines offline sys = (Inr (Local ms), sys')"
  shows "ms = localMeds sys"
  using getMedicines_Local[OF viaBackend_result[OF assms[unfolded call_getMedicines_def],
      THEN conjunct1]]
  by (simp add: localMeds_def)

lemma call_getMedicines_remote:
  assumes "remote sys = Some d"
  shows "call_getMedicines None sys =
           (Inr (Remote (map transformedMedicine (sort_key r_name (filter r_active (meds d))),
                         ''ready'')), sys)"
  using assms
  by (simp add: call_getMedicines_def viaBackend_def tryBackend_def getMedicines_def
      orLocal_def get_medicines_def)

text \<open>
  Claim C4, as amended. When the local store serves both calls, \<^verbatim>\<open>addMedicine\<close> followed
  by \<^verbatim>\<open>getMedicines\<close> returns the list with the new entry last, and the entry's visible
  fields are the submitted ones, for every submitted record; the local store serves both
  when the hosted store has no schema or the network fails for both calls. When the
  remote handler serves \<^verbatim>\<open>addMedicine\<close>, it serves the \<^verbatim>\<open>getMedicines\<close> that follows, and
  the list holds the entry the handler answered: an active entry with the id the store
  assigned, whose name, category and manufacturer are the submitted ones trimmed and
  whose strength is the submitted one trimmed (\<^verbatim>\<open>null\<close> when it is absent or blank).
\<close>

theorem addMedicine_getMedicines_roundtrip:
  "(remote sys = None \<or> (offline \<noteq> None \<and> offline' \<noteq> None) \<longrightarrow>
      (\<exists>m sys' ms sys''.
         call_addMedicine offline toDate c medicine sys = (Inr (Local m), sys') \<and>
         call_getMedicines offline' sys' = (Inr (Local ms), sys'') \<and>
         ms = localMeds sys @ [m] \<and> m \<in> set ms \<and> visibleFields m = medicine)) \<and>
   (call_addMedicine offline toDate c medicine sys = (Inr (Local added), sysA) \<and>
    call_getMedicines offline' sysA = (Inr (Local listed), sysB) \<longrightarrow>
      listed = localMeds sys @ [added] \<and> added \<in> set listed \<and>
      visibleFields added = medicine) \<and>
   (call_addMedicine None toDate c medicine sys = (Inr (Remote v), sysR) \<longrightarrow>
      (\<exists>vs. call_getMedicines None sysR = (Inr (Remote (vs, ''ready'')), sysR) \<and>
            v \<in> set vs \<and> mv_id v = c_uuid c \<and> mv_is_active v \<and>
            mv_name v = trim (m_name medicine) \<and>
            mv_category v = trim (m_category medicine) \<and>
            mv_strength v = trimmed (m_strength medicine) \<and>
            mv_manufacturer v = trim (m_manufacturer medicine)))"
proof -
  have l1: "remote sys = None \<or> (offline \<noteq> None \<and> offline' \<noteq> None) \<longrightarrow>
      (\<exists>m sys' ms sys''.
         call_addMedicine offline toDate c medicine sys = (Inr (Local m), sys') \<and>
         call_getMedicines offline' sys' = (Inr (Local ms), sys'') \<and>
         ms = localMeds sys @ [m] \<and> m \<in> set ms \<and> visibleFields m = medicine)"
  proof (rule impI)
  assume a: "remote sys = None \<or> (offline \<noteq> None \<and> offline' \<noteq> None)"
  let ?m = "newMedicine (c_id c) (c_now c) (c_now c) medicine"
  let ?sys = "\<lparr>remote = remote sys,
               browser = (browser sys)\<lparr>medicines :=
                 Some (storage_get (medicines (browser sys)) @ [?m])\<rparr>\<rparr>"
  from a have "remote sys = None \<or> offline \<noteq> None" by blast
  then have add: "call_addMedicine offline toDate c medicine sys = (Inr (Local ?m), ?sys)"
    by (rule call_addMedicine_local)
  from a have "remote ?sys = None \<or> offline' \<noteq> None" by auto
  then have get: "call_getMedicines offline' ?sys = (Inr (Local (localMeds ?sys)), ?sys)"
    by (rule call_getMedicines_local)
  have l: "localMeds ?sys = localMeds sys @ [?m]"
    by (simp add: localMeds_def storage_get_def)
  from add get l visibleFields_newMedicine[of "c_id c" "c_now c" "c_now c" medicine]
  show "\<exists>m sys' ms sys''.
         call_addMedicine offline toDate c medicine sys = (Inr (Local m), sys') \<and>
         call_getMedicines offline' sys' = (Inr (Local ms), sys'') \<and>
         ms = localMeds sys @ [m] \<and> m \<in> set ms \<and> visibleFields m = medicine"
    by (intro exI[of _ ?m] exI[of _ ?sys] exI[of _ "localMeds sys @ [?m]"]) simp
  qed
  have l2: "call_addMedicine offline toDate c medicine sys = (Inr (Local added), sysA) \<and>
    call_getMedicines offline' sysA = (Inr (Local listed), sysB) \<longrightarrow>
      listed = localMeds sys @ [added] \<and> added \<in> set listed \<and>
      visibleFields added = medicine"
  proof (rule impI)
  assume "call_addMedicine offline toDate c medicine sys = (Inr (Local added), sysA) \<and>
    call_getMedicines offline' sysA = (Inr (Local listed), sysB)"
  then have add: "call_addMedicine offline toDate c medicine sys = (Inr (Local added), sysA)"
    and get: "call_getMedicines offline' sysA = (Inr (Local listed), sysB)"
    by simp_all
  from call_addMedicine_Local[OF add] call_getMedicines_Local[OF get]
  show "listed = localMeds sys @ [added] \<and> added \<in> set listed \<and>
      visibleFields added = medicine"
    by simp
  qed
  have r: "call_addMedicine None toDate c medicine sys = (Inr (Remote v), sysR) \<longrightarrow>
      (\<exists>vs. call_getMedicines None sysR = (Inr (Remote (vs, ''ready'')), sysR) \<and>
            v \<in> set vs \<and> mv_id v = c_uuid c \<and> mv_is_active v \<and>
            mv_name v = trim (m_name medicine) \<and>
            mv_category v = trim (m_category medicine) \<and>
            mv_strength v = trimmed (m_strength medicine) \<and>
            mv_manufacturer v = trim (m_manufacturer medicine))"
  proof (rule impI)
  assume add: "call_addMedicine None toDate c medicine sys = (Inr (Remote v), sysR)"
  let ?body = "medicineBody (newMedicine (c_id c) (c_now c) (c_now c) medicine)"
  from call_addMedicine_Remote[OF add]
  have post: "post_medicines toDate (c_uuid c) (c_dbnow c) ?body (remote sys) =
      (Ok v, remote sysR)"
    by simp
  from post_medicines_Ok[OF post] obtain d row where
    r: "remote sysR = Some (d\<lparr>meds := meds d @ [row]\<rparr>)" and v: "v = transformedMedicine row"
    and row: "r_id row = c_uuid c" "r_active row"
      "r_name row = trim (str (b_name ?body))" "r_cat row = trim (str (b_category ?body))"
      "r_strength row = trimmed (b_strength ?body)"
      "r_mfg row = trim (str (b_manufacturer ?body))"
    by blast
  let ?vs = "map transformedMedicine (sort_key r_name (filter r_active (meds d @ [row])))"
  from call_getMedicines_remote[OF r]
  have get: "call_getMedicines None sysR = (Inr (Remote (?vs, ''ready'')), sysR)"
    by simp
  from row(2) have "row \<in> set (sort_key r_name (filter r_active (meds d @ [row])))"
    by simp
  then have "transformedMedicine row \<in> set ?vs"
    by (simp only: set_map) (rule imageI)
  with v have mem: "v \<in> set ?vs" by simp
  from v row have f: "mv_id v = c_uuid c" "mv_is_active v"
    "mv_name v = trim (m_name medicine)" "mv_category v = trim (m_category medicine)"
    "mv_strength v = trimmed (m_strength medicine)"
    "mv_manufacturer v = trim (m_manufacturer medicine)"
    by (simp_all add: transformedMedicine_def medicineBody_def newMedicine_def str_def)
  from get mem f
  show "\<exists>vs. call_getMedicines None sysR = (Inr (Remote (vs, ''ready'')), sysR) \<and>
            v \<in> set vs \<and> mv_id v = c_uuid c \<and> mv_is_active v \<and>
            mv_name v = trim (m_name medicine) \<and>
            mv_category v = trim (m_category medicine) \<and>
            mv_strength v = trimmed (m_strength medicine) \<and>
            mv_manufacturer v = trim (m_manufacturer medicine)"
    by (intro exI[of _ ?vs]) simp
qed
  show ?thesis by (rule conjI[OF l1 conjI[OF l2 r]])
qed

theorem addMedicine_getMedicines_roundtrip_witness:
  "(\<exists>m sys' ms sys''.
      call_addMedicine (Some ''Failed to fetch'') isoDate sampleCtx (exampleMedicine 5)
          sampleSystem = (Inr (Local m), sys') \<and>
      call_getMedicines (Some ''Failed to fetch'') sys' = (Inr (Local ms), sys'') \<and>
      ms = localMeds sampleSystem @ [m] \<and> m \<in> set ms \<and>
      visibleFields m = exampleMedicine 5) \<and>
   fst (call_addMedicine None isoDate sampleCtx ((exampleMedicine 5)\<lparr>m_stock := 3000000000\<rparr>)
          sampleSystem) =
     Inr (Local (newMedicine ''id_1736416800000_k3j9x2m1q'' ''2025-01-09T10:00:00.000Z''
                   ''2025-01-09T10:00:00.000Z'' ((exampleMedicine 5)\<lparr>m_stock := 3000000000\<rparr>))) \<and>
   localMeds (snd (call_addMedicine None isoDate sampleCtx
                     ((exampleMedicine 5)\<lparr>m_stock := 3000000000\<rparr>) sampleSystem)) =
     localMeds sampleSystem @
     [newMedicine ''id_1736416800000_k3j9x2m1q'' ''2025-01-09T10:00:00.000Z''
        ''2025-01-09T10:00:00.000Z'' ((exampleMedicine 5)\<lparr>m_stock := 3000000000\<rparr>)] \<and>
   fst (call_addMedicine None isoDate sampleCtx (exampleMedicine 5) sampleSystem) =
     Inr (Remote \<lparr>mv_id = ''00000000-0000-4000-8000-000000000009'', mv_name = ''Test'',
                   mv_category = ''Pain Relief'', mv_strength = None,
                   mv_manufacturer = ''Acme'', mv_current_stock = 10,
                   mv_minimum_stock = 5, mv_maximum_stock = 50, mv_unit_price = 999 / 100,
                   mv_expiry_date = None, mv_batch_number = None,
                   mv_storage_location = None, mv_is_active = True,
                   mv_created_at = ''2025-01-09T10:00:00.200Z'',
                   mv_updated_at = ''2025-01-09T10:00:00.200Z''\<rparr>) \<and>
   (\<exists>vs. call_getMedicines None
            (snd (call_addMedicine None isoDate sampleCtx (exampleMedicine 5) sampleSystem)) =
          (Inr (Remote (vs, ''ready'')),
           snd (call_addMedicine None isoDate sampleCtx (exampleMedicine 5) sampleSystem)) \<and>
        map mv_name vs = [''Amoxicillin'', ''Paracetamol'', ''Test''])"
proof -
  let ?off = "Some ''Failed to fetch''"
  let ?big = "(exampleMedicine 5)\<lparr>m_stock := 3000000000\<rparr>"
  let ?mb = "newMedicine ''id_1736416800000_k3j9x2m1q'' ''2025-01-09T10:00:00.000Z''
                   ''2025-01-09T10:00:00.000Z'' ?big"
  let ?sA = "snd (call_addMedicine None isoDate sampleCtx ?big sampleSystem)"
  let ?v = "\<lparr>mv_id = ''00000000-0000-4000-8000-000000000009'', mv_name = ''Test'',
                   mv_category = ''Pain Relief'', mv_strength = None,
                   mv_manufacturer = ''Acme'', mv_current_stock = 10,
                   mv_minimum_stock = 5, mv_maximum_stock = 50, mv_unit_price = 999 / 100,
                   mv_expiry_date = None, mv_batch_number = None,
                   mv_storage_location = None, mv_is_active = True,
                   mv_created_at = ''2025-01-09T10:00:00.200Z'',
                   mv_updated_at = ''2025-01-09T10:00:00.200Z''\<rparr>"
  let ?sR = "snd (call_addMedicine None isoDate sampleCtx (exampleMedicine 5) sampleSystem)"
  have o: "?off \<noteq> (None :: string option)" by simp
  from o addMedicine_getMedicines_roundtrip[where sys = sampleSystem and offline = ?off
      and offline' = ?off and toDate = isoDate and c = sampleCtx
      and medicine = "exampleMedicine 5"]
  have 1: "\<exists>m sys' ms sys''.
      call_addMedicine ?off isoDate sampleCtx (exampleMedicine 5) sampleSystem =
        (Inr (Local m), sys') \<and>
      call_getMedicines ?off sys' = (Inr (Local ms), sys'') \<and>
      ms = localMeds sampleSystem @ [m] \<and> m \<in> set ms \<and>
      visibleFields m = exampleMedicine 5"
    by blast
  have 2: "fst (call_addMedicine None isoDate sampleCtx ?big sampleSystem) = Inr (Local ?mb)"
    by code_simp
  then have addL: "call_addMedicine None isoDate sampleCtx ?big sampleSystem =
      (Inr (Local ?mb), ?sA)"
    by (simp add: prod_eq_iff)
  have getL: "call_getMedicines ?off ?sA = (Inr (Local (localMeds ?sA)), ?sA)"
    by (rule call_getMedicines_local) simp
  from addL getL addMedicine_getMedicines_roundtrip[where sys = sampleSystem
      and offline = None and offline' = ?off and toDate = isoDate and c = sampleCtx
      and medicine = ?big and added = ?mb and sysA = ?sA and listed = "localMeds ?sA"
      and sysB = ?sA]
  have 3: "localMeds ?sA = localMeds sampleSystem @ [?mb]"
    by blast
  have 4: "fst (call_addMedicine None isoDate sampleCtx (exampleMedicine 5) sampleSystem) =
      Inr (Remote ?v)"
    by code_simp
  then have addR: "call_addMedicine None isoDate sampleCtx (exampleMedicine 5) sampleSystem =
      (Inr (Remote ?v), ?sR)"
    by (simp add: prod_eq_iff)
  from addR addMedicine_getMedicines_roundtrip[where sys = sampleSystem
      and toDate = isoDate and c = sampleCtx and medicine = "exampleMedicine 5"
      and v = ?v and sysR = ?sR]
  obtain vs where get: "call_getMedicines None ?sR = (Inr (Remote (vs, ''ready'')), ?sR)"
    by blast
  have "fst (call_getMedicines None ?sR) =
      Inr (Remote (map transformedMedicine (sort_key r_name (filter r_active (remoteMeds ?sR))),
                   ''ready''))"
    by code_simp
  with get have "vs = map transformedMedicine (sort_key r_name (filter r_active (remoteMeds ?sR)))"
    by simp
  moreover have "map mv_name (map transformedMedicine
      (sort_key r_name (filter r_active (remoteMeds ?sR)))) =
      [''Amoxicillin'', ''Paracetamol'', ''Test'']"
    by code_simp
  ultimately have "map mv_name vs = [''Amoxicillin'', ''Paracetamol'', ''Test'']"
    by simp
  with get have 5: "\<exists>vs. call_getMedicines None ?sR = (Inr (Remote (vs, ''ready'')), ?sR) \<and>
        map mv_name vs = [''Amoxicillin'', ''Paracetamol'', ''Test'']"
    by (intro exI[of _ vs] conjI)
  from 1 2 3 4 5 show ?thesis by (intro conjI)
qed

text \<open>
  The claim as stated fails on valid medicines. A name with a space at its end, a price
  of 9.999 and an expiry date with a time of day come back, on the remote path, as the
  trimmed name, the price 10 and the date alone: the handler trims, and the columns
  \<^verbatim>\<open>price DECIMAL(10,2)\<close> and \<^verbatim>\<open>exp_date DATE\<close> hold no more. A stock of 3000000000 does
  not fit the column \<^verbatim>\<open>stock INTEGER\<close>: the handler answers 500, the client stores the
  medicine locally, and the list the handler serves next does not hold it.
\<close>

theorem roundtrip_fails_on_stored_values_and_rejected_rows:
  "isValid (validateMedicine (\<lambda>s. Some 1893493800000) 1736416800000
      (medicineData ((exampleMedicine 5)\<lparr>m_name := ''Test '', m_price := 9999 / 1000,
                       m_expiryDate := Some ''2030-01-01T10:30''\<rparr>))) \<and>
   fst (call_getMedicines None (snd (call_addMedicine None isoDate sampleCtx
          ((exampleMedicine 5)\<lparr>m_name := ''Test '', m_price := 9999 / 1000,
                                m_expiryDate := Some ''2030-01-01T10:30''\<rparr>) emptySystem))) =
     Inr (Remote ([\<lparr>mv_id = ''00000000-0000-4000-8000-000000000009'', mv_name = ''Test'',
                     mv_category = ''Pain Relief'', mv_strength = None,
                     mv_manufacturer = ''Acme'', mv_current_stock = 10,
                     mv_minimum_stock = 5, mv_maximum_stock = 50, mv_unit_price = 10,
                     mv_expiry_date = Some ''2030-01-01'', mv_batch_number = None,
                     mv_storage_location = None, mv_is_active = True,
                     mv_created_at = ''2025-01-09T10:00:00.200Z'',
                     mv_updated_at = ''2025-01-09T10:00:00.200Z''\<rparr>], ''ready'')) \<and>
   isValid (validateMedicine (\<lambda>s. None) 0
      (medicineData ((exampleMedicine 5)\<lparr>m_stock := 3000000000\<rparr>))) \<and>
   fst (post_medicines isoDate ''00000000-0000-4000-8000-000000000009''
          ''2025-01-09T10:00:00.200Z''
          (medicineBody (newMedicine ''id_1736416800000_k3j9x2m1q''
             ''2025-01-09T10:00:00.000Z'' ''2025-01-09T10:00:00.000Z''
             ((exampleMedicine 5)\<lparr>m_stock := 3000000000\<rparr>)))
          (remote emptySystem)) =
     Failed 500 ''Database not initialized with simplified schema'' \<and>
   fst (call_addMedicine None isoDate sampleCtx ((exampleMedicine 5)\<lparr>m_stock := 3000000000\<rparr>)
          emptySystem) =
     Inr (Local (newMedicine ''id_1736416800000_k3j9x2m1q'' ''2025-01-09T10:00:00.000Z''
                   ''2025-01-09T10:00:00.000Z'' ((exampleMedicine 5)\<lparr>m_stock := 3000000000\<rparr>))) \<and>
   fst (call_getMedicines None (snd (call_addMedicine None isoDate sampleCtx
          ((exampleMedicine 5)\<lparr>m_stock := 3000000000\<rparr>) emptySystem))) =
     Inr (Remote ([], ''ready''))"
  by code_simp

text \<open>
  The defaults of the handler stand in for a zero as for a missing field
  (\<^verbatim>\<open>parseInt(medicine.minStock) || ... || 10\<close>): a minimum stock of 0 is stored as 10, a
  maximum stock of 0 as 100.
\<close>

lemma zero_stock_limits_stored_as_defaults:
  "map (\<lambda>r. (r_min_stock r, r_max_stock r))
     (remoteMeds (snd (call_addMedicine None isoDate sampleCtx
        ((exampleMedicine 0)\<lparr>m_maxStock := 0\<rparr>) emptySystem))) = [(10, 100)]"
  by code_simp

subsection \<open>Falling back to the local store\<close>

lemma orLocal_served: "servedLocally (orLocal (Inl e) st (Inr (l, st')))"
  by (simp add: servedLocally_def orLocal_def)

lemma medicines_served:
  "servedLocally (getMedicines (Inl e) st)"
  "servedLocally (addMedicine (Inl e) gid t1 t2 medicine st)"
  "servedLocally (updateMedicine (Inl e) now ident updates st)"
  "servedLocally (deleteMedicine (Inl e) ident st)"
  by (simp_all add: getMedicines_def addMedicine_def updateMedicine_def deleteMedicine_def
      orLocal_served Let_def split: prod.split)

lemma sales_served:
  "servedLocally (getSales (Inl e) st)"
  "servedLocally (createSale (Inl e) gid now sale st)"
  "servedLocally (getSaleById (Inl e) ident st)"
  by (simp_all add: getSales_def createSale_def getSaleById_def orLocal_served Let_def
      split: prod.split)

lemma prescriptions_served:
  "servedLocally (getPrescriptions (Inl e) st)"
  "servedLocally (addPrescription (Inl e) gid t1 t2 prescription st)"
  "servedLocally (updatePrescriptionStatus (Inl e) now ident status st)"
  "servedLocally (verifyPrescription (Inl e) t1 t2 ident verification st)"
  by (simp_all add: getPrescriptions_def addPrescription_def updatePrescriptionStatus_def
      verifyPrescription_def orLocal_served Let_def split: prod.split)

lemma employees_served:
  "servedLocally (getEmployees (Inl e) st)"
  "servedLocally (addEmployee (Inl e) gid t1 t2 employee st)"
  "servedLocally (clockIn (Inl e) employeeId st)"
  "servedLocally (clockOut (Inl e) employeeId st)"
  "servedLocally (getTimeEntries (Inl e) entriesOf st)"
  by (simp_all add: getEmployees_def addEmployee_def clockIn_def clockOut_def
      getTimeEntries_def orLocal_served Let_def split: prod.split)

lemma tickets_served:
  "servedLocally (getTickets (Inl e) st)"
  "servedLocally (createTicket (Inl e) gid t1 t2 ticket st)"
  "servedLocally (updateTicketStatus (Inl e) now ident status st)"
  by (simp_all add: getTickets_def createTicket_def updateTicketStatus_def orLocal_served
      Let_def split: prod.split)

lemma dashboard_served:
  "servedLocally (getDashboardStats (Inl e) now st)"
  "servedLocally (getRecentActivity (Inl e) toFixed2 sortNewestFirst st)"
  "servedLocally (getLowStockAlerts (Inl e) st)"
  by (simp_all add: getDashboardStats_def getRecentActivity_def getLowStockAlerts_def
      orLocal_served Let_def)

lemma reports_served:
  "servedLocally (getSalesReport (Inl e) startDate endDate st)"
  "servedLocally (getInventoryReport (Inl e) st)"
  "servedLocally (getEmployeeReport (Inl e) month st)"
  "servedLocally (getPrescriptionReport (Inl e) startDate endDate st)"
  by (simp_all add: getSalesReport_def getInventoryReport_def getEmployeeReport_def
      getPrescriptionReport_def orLocal_served Let_def)

lemma updateStock_served:
  assumes "find (\<lambda>m. m_id m = ident) (storage_get (medicines st)) \<noteq> None"
  shows "servedLocally (updateStock (Inl e) now ident quantity type st)"
proof -
  from assms obtain medicine where
    "find (\<lambda>m. m_id m = ident) (storage_get (medicines st)) = Some medicine"
    by blast
  then show ?thesis
    by (simp add: updateStock_def orLocal_def servedLocally_def Let_def split: prod.split)
qed

lemma processSale_rejects:
  "cart = [] \<Longrightarrow>
     processSale be gid now customerName customerPhone paymentMethod cart st =
       Inl ''Cart is empty''"
  "cart \<noteq> [] \<Longrightarrow>
   \<not> isValid (validateSale
       \<lparr>sd_customerName = Some customerName, sd_customerPhone = Some customerPhone,
        sd_items = Some cart, sd_total = Some (calculateTotal cart),
        sd_paymentMethod = Some paymentMethod\<rparr>) \<Longrightarrow>
     processSale be gid now customerName customerPhone paymentMethod cart st =
       Inl (firstError (validateSale
         \<lparr>sd_customerName = Some customerName, sd_customerPhone = Some customerPhone,
          sd_items = Some cart, sd_total = Some (calculateTotal cart),
          sd_paymentMethod = Some paymentMethod\<rparr>))"
  by (simp_all add: processSale_def Let_def)

lemma handleAddMedicine_rejects:
  "\<not> isValid (validateMedicine parseDate clock (medicineData medicine)) \<Longrightarrow>
     handleAddMedicine parseDate clock be gid t1 t2 medicine st =
       Inl (firstError (validateMedicine parseDate clock (medicineData medicine)))"
  by (simp add: handleAddMedicine_def Let_def)

lemma handleAddPrescription_rejects:
  "\<not> isValid (validatePrescription
       \<lparr>pd_patientName = Some (p_patientName prescription),
        pd_patientAge = p_patientAge prescription,
        pd_doctorName = Some (p_doctorName prescription),
        pd_medicines = Some (p_medicines prescription)\<rparr>) \<Longrightarrow>
     handleAddPrescription be gid t1 t2 prescription st =
       Inl (firstError (validatePrescription
         \<lparr>pd_patientName = Some (p_patientName prescription),
          pd_patientAge = p_patientAge prescription,
          pd_doctorName = Some (p_doctorName prescription),
          pd_medicines = Some (p_medicines prescription)\<rparr>))"
  by (simp add: handleAddPrescription_def Let_def)

lemma handleAddEmployee_rejects:
  "\<not> isValid (validateEmployee parseDate
       \<lparr>ed_name = Some (e_name employee), ed_email = Some (e_email employee),
        ed_phone = e_phone employee, ed_role = Some (e_role employee),
        ed_department = Some (e_department employee), ed_salary = e_salary employee,
        ed_hireDate = e_hireDate employee\<rparr>) \<Longrightarrow>
     handleAddEmployee parseDate be gid t1 t2 employee st =
       Inl (firstError (validateEmployee parseDate
         \<lparr>ed_name = Some (e_name employee), ed_email = Some (e_email employee),
          ed_phone = e_phone employee, ed_role = Some (e_role employee),
          ed_department = Some (e_department employee), ed_salary = e_salary employee,
          ed_hireDate = e_hireDate employee\<rparr>))"
  by (simp add: handleAddEmployee_def Let_def)

text \<open>
  Claim C3, as amended. When the remote call fails, every method of \<^verbatim>\<open>PharmacyAPI\<close> other
  than \<^verbatim>\<open>updateStock\<close> returns a result of the local store and throws nothing, for every
  input and every local store. \<^verbatim>\<open>updateStock\<close> does so when the local store holds a
  medicine with the given id, and throws \<^verbatim>\<open>Medicine not found\<close> when it holds none. The
  forms reject an invalid submission with the validator's first message whatever the
  backend would answer, since they return before the call is made.
\<close>

theorem fallback_never_throws_except_updateStock:
  fixes be anyAnswer :: "string + 'r"
    and st :: "'i LocalData"
    and cst :: "'z CartItem_scheme LocalData"
  assumes "be = Inl e"
  shows
    "servedLocally (getMedicines be st) \<and>
     servedLocally (addMedicine be gid t1 t2 medicine st) \<and>
     servedLocally (updateMedicine be now ident updates st) \<and>
     servedLocally (deleteMedicine be ident st) \<and>
     servedLocally (getSales be st) \<and>
     servedLocally (createSale be gid now sale st) \<and>
     servedLocally (getSaleById be ident st) \<and>
     servedLocally (getPrescriptions be st) \<and>
     servedLocally (addPrescription be gid t1 t2 prescription st) \<and>
     servedLocally (updatePrescriptionStatus be now ident status st) \<and>
     servedLocally (verifyPrescription be t1 t2 ident verification st) \<and>
     servedLocally (getEmployees be st) \<and>
     servedLocally (addEmployee be gid t1 t2 employee st) \<and>
     servedLocally (clockIn be employeeId st) \<and>
     servedLocally (clockOut be employeeId st) \<and>
     servedLocally (getTimeEntries be entriesOf st) \<and>
     servedLocally (getTickets be st) \<and>
     servedLocally (createTicket be gid t1 t2 ticket st) \<and>
     servedLocally (updateTicketStatus be now ident status st) \<and>
     servedLocally (getDashboardStats be now st) \<and>
     servedLocally (getRecentActivity be toFixed2 sortNewestFirst st) \<and>
     servedLocally (getLowStockAlerts be st) \<and>
     servedLocally (getSalesReport be startDate endDate st) \<and>
     servedLocally (getInventoryReport be st) \<and>
     servedLocally (getEmployeeReport be month st) \<and>
     servedLocally (getPrescriptionReport be startDate endDate st) \<and>
     (find (\<lambda>m. m_id m = ident) (storage_get (medicines st)) \<noteq> None \<longrightarrow>
        servedLocally (updateStock be now ident quantity type st)) \<and>
     (find (\<lambda>m. m_id m = ident) (storage_get (medicines st)) = None \<longrightarrow>
        updateStock be now ident quantity type st = Inl ''Medicine not found'') \<and>
     (cart = [] \<longrightarrow>
        processSale anyAnswer gid now customerName customerPhone paymentMethod cart cst =
          Inl ''Cart is empty'') \<and>
     (cart \<noteq> [] \<and>
      \<not> isValid (validateSale
          \<lparr>sd_customerName = Some customerName, sd_customerPhone = Some customerPhone,
           sd_items = Some cart, sd_total = Some (calculateTotal cart),
           sd_paymentMethod = Some paymentMethod\<rparr>) \<longrightarrow>
        processSale anyAnswer gid now customerName customerPhone paymentMethod cart cst =
          Inl (firstError (validateSale
            \<lparr>sd_customerName = Some customerName, sd_customerPhone = Some customerPhone,
             sd_items = Some cart, sd_total = Some (calculateTotal cart),
             sd_paymentMethod = Some paymentMethod\<rparr>))) \<and>
     (\<not> isValid (validateMedicine parseDate clock (medicineData medicine)) \<longrightarrow>
        handleAddMedicine parseDate clock anyAnswer gid t1 t2 medicine st =
          Inl (firstError (validateMedicine parseDate clock (medicineData medicine)))) \<and>
     (\<not> isValid (validatePrescription
          \<lparr>pd_patientName = Some (p_patientName prescription),
           pd_patientAge = p_patientAge prescription,
           pd_doctorName = Some (p_doctorName prescription),
           pd_medicines = Some (p_medicines prescription)\<rparr>) \<longrightarrow>
        handleAddPrescription anyAnswer gid t1 t2 prescription st =
          Inl (firstError (validatePrescription
            \<lparr>pd_patientName = Some (p_patientName prescription),
             pd_patientAge = p_patientAge prescription,
             pd_doctorName = Some (p_doctorName prescription),
             pd_medicines = Some (p_medicines prescription)\<rparr>))) \<and>
     (\<not> isValid (validateEmployee parseDate
          \<lparr>ed_name = Some (e_name employee), ed_email = Some (e_email employee),
           ed_phone = e_phone employee, ed_role = Some (e_role employee),
           ed_department = Some (e_department employee), ed_salary = e_salary employee,
           ed_hireDate = e_hireDate employee\<rparr>) \<longrightarrow>
        handleAddEmployee parseDate anyAnswer gid t1 t2 employee st =
          Inl (firstError (validateEmployee parseDate
            \<lparr>ed_name = Some (e_name employee), ed_email = Some (e_email employee),
             ed_phone = e_phone employee, ed_role = Some (e_role employee),
             ed_department = Some (e_department employee), ed_salary = e_salary employee,
             ed_hireDate = e_hireDate employee\<rparr>)))"
  unfolding assms
  by (intro conjI impI)
    (rule medicines_served sales_served prescriptions_served employees_served tickets_served
      dashboard_served reports_served updateStock_served updateStock_unknown
      processSale_rejects handleAddMedicine_rejects handleAddPrescription_rejects
      handleAddEmployee_rejects; (elim conjE)?; assumption?)+

theorem fallback_never_throws_except_updateStock_witness:
  "servedLocally (getMedicines (Inl ''Failed to fetch'' :: string + unit) exampleData) \<and>
   servedLocally (updateTicketStatus (Inl ''Failed to fetch'' :: string + unit)
     ''2025-01-09T10:00:00.000Z'' ''med_001'' ''resolved'' exampleData) \<and>
   find (\<lambda>m. m_id m = ''med_001'') (storage_get (medicines exampleData)) \<noteq> None \<and>
   servedLocally (updateStock (Inl ''Failed to fetch'' :: string + unit)
     ''2025-01-09T10:00:00.000Z'' ''med_001'' 5 ''subtract'' exampleData) \<and>
   find (\<lambda>m. m_id m = ''med_999'') (storage_get (medicines exampleData)) = None \<and>
   updateStock (Inl ''Failed to fetch'' :: string + unit)
     ''2025-01-09T10:00:00.000Z'' ''med_999'' 5 ''subtract'' exampleData =
     Inl ''Medicine not found'' \<and>
   processSale (Inr () :: string + unit) ''id_1736416800000_k3j9x2m1q''
     ''2025-01-09T10:00:00.000Z'' ''Test Customer'' ''+1234567890'' ''cash'' []
     \<lparr>medicines = Some sampleMedicines, sales = Some ([] :: CartItem Sale list),
      prescriptions = Some [], employees = Some [], tickets = Some []\<rparr> =
     Inl ''Cart is empty'' \<and>
   processSale (Inr () :: string + unit) ''id_1736416800000_k3j9x2m1q''
     ''2025-01-09T10:00:00.000Z'' ''Test Customer'' ''+1234567890'' ''cheque''
     [\<lparr>si_medicineId = ''med_001'', si_name = ''Paracetamol'', si_quantity = 2,
       si_price = 599 / 100, ci_stock = 150, ci_strength = Some ''500mg'',
       ci_manufacturer = Some ''PharmaCorp''\<rparr>]
     \<lparr>medicines = Some sampleMedicines, sales = Some [],
      prescriptions = Some [], employees = Some [], tickets = Some []\<rparr> =
     Inl ''Invalid payment method'' \<and>
   handleAddMedicine (\<lambda>s. None) 0 (Inr () :: string + unit) ''id_1736416800000_k3j9x2m1q''
     ''2025-01-09T10:00:00.000Z'' ''2025-01-09T10:00:00.000Z'' (exampleMedicine 50)
     exampleData =
     Inl ''Maximum stock must be greater than minimum stock'' \<and>
   handleAddPrescription (Inr () :: string + unit) ''id_1736416800000_k3j9x2m1q''
     ''2025-01-09T10:00:00.000Z'' ''2025-01-09T10:00:00.000Z''
     \<lparr>p_patientName = ''Test Patient'', p_patientAge = Some 30, p_patientPhone = None,
      p_doctorName = ''Dr. Test'', p_medicines = [], p_notes = None\<rparr> exampleData =
     Inl ''At least one medicine must be prescribed'' \<and>
   handleAddEmployee (\<lambda>s. None) (Inr () :: string + unit) ''id_1736416800000_k3j9x2m1q''
     ''2025-01-09T10:00:00.000Z'' ''2025-01-09T10:00:00.000Z''
     \<lparr>e_name = ''Test Employee'', e_email = ''test.example.com'',
      e_phone = Some ''+1234567890'', e_role = ''Pharmacist'', e_department = ''Pharmacy'',
      e_salary = None, e_hireDate = None, e_status = None\<rparr> exampleData =
     Inl ''Valid email address is required''"
proof -
  let ?be = "Inl ''Failed to fetch'' :: string + unit"
  let ?any = "Inr () :: string + unit"
  let ?now = "''2025-01-09T10:00:00.000Z''"
  let ?gid = "''id_1736416800000_k3j9x2m1q''"
  let ?cst = "\<lparr>medicines = Some sampleMedicines, sales = Some ([] :: CartItem Sale list),
      prescriptions = Some [], employees = Some [], tickets = Some []\<rparr>"
  let ?cart = "[\<lparr>si_medicineId = ''med_001'', si_name = ''Paracetamol'', si_quantity = 2,
       si_price = 599 / 100, ci_stock = 150, ci_strength = Some ''500mg'',
       ci_manufacturer = Some ''PharmaCorp''\<rparr>]"
  let ?p = "\<lparr>p_patientName = ''Test Patient'', p_patientAge = Some 30, p_patientPhone = None,
      p_doctorName = ''Dr. Test'', p_medicines = [], p_notes = None\<rparr>"
  let ?e = "\<lparr>e_name = ''Test Employee'', e_email = ''test.example.com'',
      e_phone = Some ''+1234567890'', e_role = ''Pharmacist'', e_department = ''Pharmacy'',
      e_salary = None, e_hireDate = None, e_status = None\<rparr>"
  let ?sd = "\<lparr>sd_customerName = Some ''Test Customer'', sd_customerPhone = Some ''+1234567890'',
      sd_items = Some ?cart, sd_total = Some (calculateTotal ?cart),
      sd_paymentMethod = Some ''cheque''\<rparr>"
  let ?pd = "\<lparr>pd_patientName = Some (p_patientName ?p), pd_patientAge = p_patientAge ?p,
      pd_doctorName = Some (p_doctorName ?p), pd_medicines = Some (p_medicines ?p)\<rparr>"
  let ?ed = "\<lparr>ed_name = Some (e_name ?e), ed_email = Some (e_email ?e),
      ed_phone = e_phone ?e, ed_role = Some (e_role ?e),
      ed_department = Some (e_department ?e), ed_salary = e_salary ?e,
      ed_hireDate = e_hireDate ?e\<rparr>"
  have known: "find (\<lambda>m. m_id m = ''med_001'') (storage_get (medicines exampleData)) \<noteq> None"
    by code_simp
  have unknown: "find (\<lambda>m. m_id m = ''med_999'') (storage_get (medicines exampleData)) = None"
    by code_simp
  have sale: "\<not> isValid (validateSale ?sd)" "firstError (validateSale ?sd) = ''Invalid payment method''"
    by code_simp+
  have med: "\<not> isValid (validateMedicine (\<lambda>s. None) 0 (medicineData (exampleMedicine 50)))"
    "firstError (validateMedicine (\<lambda>s. None) 0 (medicineData (exampleMedicine 50))) =
       ''Maximum stock must be greater than minimum stock''"
    by code_simp+
  have presc: "\<not> isValid (validatePrescription ?pd)"
    "firstError (validatePrescription ?pd) = ''At least one medicine must be prescribed''"
    by code_simp+
  have emp: "\<not> isValid (validateEmployee (\<lambda>s. None) ?ed)"
    "firstError (validateEmployee (\<lambda>s. None) ?ed) = ''Valid email address is required''"
    by code_simp+
  note a = fallback_never_throws_except_updateStock[OF refl, where e = "''Failed to fetch''"
      and ?'r = unit and st = exampleData and cst = ?cst and anyAnswer = ?any
      and ident = "''med_001''" and now = ?now and gid = ?gid and cart = "[]"
      and medicine = "exampleMedicine 50" and prescription = ?p and employee = ?e
      and parseDate = "\<lambda>s. None" and clock = 0 and quantity = 5 and type = "''subtract''"
      and ?t1.0 = ?now and ?t2.0 = ?now and status = "''resolved''"
      and customerName = "''Test Customer''" and customerPhone = "''+1234567890''"
      and paymentMethod = "''cash''"]
  note b = fallback_never_throws_except_updateStock[OF refl, where e = "''Failed to fetch''"
      and ?'r = unit and st = exampleData and cst = ?cst and anyAnswer = ?any
      and ident = "''med_999''" and now = ?now and gid = ?gid and cart = ?cart
      and quantity = 5 and type = "''subtract''"
      and customerName = "''Test Customer''" and customerPhone = "''+1234567890''"
      and paymentMethod = "''cheque''"]
  from a have 1: "servedLocally (getMedicines ?be exampleData)" by simp
  from a have 2: "servedLocally (updateTicketStatus ?be ?now ''med_001'' ''resolved'' exampleData)"
    by simp
  from a known have 3: "servedLocally (updateStock ?be ?now ''med_001'' 5 ''subtract'' exampleData)"
    by simp
  from b unknown have 4: "updateStock ?be ?now ''med_999'' 5 ''subtract'' exampleData =
      Inl ''Medicine not found''"
    by simp
  from a have 5: "processSale ?any ?gid ?now ''Test Customer'' ''+1234567890'' ''cash'' [] ?cst =
      Inl ''Cart is empty''"
    by simp
  from b sale have 6: "processSale ?any ?gid ?now ''Test Customer'' ''+1234567890'' ''cheque''
      ?cart ?cst = Inl ''Invalid payment method''"
    by simp
  from a med have 7: "handleAddMedicine (\<lambda>s. None) 0 ?any ?gid ?now ?now (exampleMedicine 50)
      exampleData = Inl ''Maximum stock must be greater than minimum stock''"
    by simp
  from a presc have 8: "handleAddPrescription ?any ?gid ?now ?now ?p exampleData =
      Inl ''At least one medicine must be prescribed''"
    by simp
  from a emp have 9: "handleAddEmployee (\<lambda>s. None) ?any ?gid ?now ?now ?e exampleData =
      Inl ''Valid email address is required''"
    by simp
  from 1 2 known 3 unknown 4 5 6 7 8 9 show ?thesis
    by (intro conjI)
qed

text \<open>
  The claim as stated fails for \<^verbatim>\<open>updateStock\<close>: when the remote call fails and the
  local store holds no medicine with the given id, the method throws. The same happens
  when the hosted store rejects a request for an id that only it knows.
\<close>

theorem updateStock_unknown_id_throws:
  "updateStock (Inl ''Failed to fetch'' :: string + unit) ''2025-01-09T10:00:00.000Z''
     ''med_999'' 5 ''add'' (initialData ''2025-01-09T09:00:00.000Z'') =
     Inl ''Medicine not found'' \<and>
   fst (call_updateStock (Some ''Failed to fetch'') sampleCtx ''med_999'' 5 ''add''
          sampleSystem) = Inl ''Medicine not found'' \<and>
   fst (call_updateStock None sampleCtx ''00000000-0000-4000-8000-000000000002'' 40 ''subtract'' sampleSystem) =
     Inl ''Medicine not found''"
  by code_simp


end
